theory Spec2Isabelle
  imports Main "HOL-Library.Sublist"
begin

section \<open>JavaScript strings and values\<close>

text \<open>
  The entity generator (generators/entity/index.js) works on JSON documents. An attribute
  that may be missing is an \<open>option\<close>: \<open>None\<close> is JavaScript's \<open>undefined\<close>. Strings
  are ASCII strings; the case functions below change the letters a-z and A-Z only.
\<close>

definition lower_letters :: string where
  "lower_letters = ''abcdefghijklmnopqrstuvwxyz''"

definition upper_letters :: string where
  "upper_letters = ''ABCDEFGHIJKLMNOPQRSTUVWXYZ''"

definition digits :: string where
  "digits = ''0123456789''"

definition toUpperCase_char :: "char \<Rightarrow> char" where
  "toUpperCase_char c =
     (case map_of (zip lower_letters upper_letters) c of None \<Rightarrow> c | Some u \<Rightarrow> u)"

definition toLowerCase_char :: "char \<Rightarrow> char" where
  "toLowerCase_char c =
     (case map_of (zip upper_letters lower_letters) c of None \<Rightarrow> c | Some l \<Rightarrow> l)"

definition toUpperCase :: "string \<Rightarrow> string" where
  "toUpperCase s = map toUpperCase_char s"

definition toLowerCase :: "string \<Rightarrow> string" where
  "toLowerCase s = map toLowerCase_char s"

text \<open>
  lodash's \<open>_.upperFirst\<close> and \<open>_.lowerFirst\<close> change the case of the first character
  and keep the rest; lodash turns \<open>undefined\<close> into the empty string first (\<open>str\<close>).
\<close>

definition upperFirst :: "string \<Rightarrow> string" where
  "upperFirst s = (case s of [] \<Rightarrow> [] | c # cs \<Rightarrow> toUpperCase_char c # cs)"

definition lowerFirst :: "string \<Rightarrow> string" where
  "lowerFirst s = (case s of [] \<Rightarrow> [] | c # cs \<Rightarrow> toLowerCase_char c # cs)"

definition str :: "string option \<Rightarrow> string" where
  "str x = (case x of None \<Rightarrow> [] | Some s \<Rightarrow> s)"

text \<open>A template literal prints a missing value as the word undefined.\<close>

definition interpolate :: "string option \<Rightarrow> string" where
  "interpolate x = (case x of None \<Rightarrow> ''undefined'' | Some s \<Rightarrow> s)"

text \<open>Truthiness of a string-valued attribute: present and not empty.\<close>

definition truthy :: "string option \<Rightarrow> bool" where
  "truthy x = (case x of None \<Rightarrow> False | Some s \<Rightarrow> s \<noteq> [])"

text \<open>\<open>a || b\<close> on string-valued attributes.\<close>

definition or_else :: "string option \<Rightarrow> string option \<Rightarrow> string option" where
  "or_else a b = (if truthy a then a else b)"

text \<open>\<open>s.replace(/c/g, r)\<close> for a one-character pattern.\<close>

definition replace_all :: "char \<Rightarrow> string \<Rightarrow> string \<Rightarrow> string" where
  "replace_all c r s = concat (map (\<lambda>x. if x = c then r else [x]) s)"

definition join_comma :: "string list \<Rightarrow> string" where
  "join_comma xs = (case xs of [] \<Rightarrow> [] | y # ys \<Rightarrow> foldl (\<lambda>acc z. acc @ '','' @ z) y ys)"

definition quote :: string where
  "quote = [CHR 0x27]"

definition dquote :: string where
  "dquote = [CHR 0x22]"

definition backslash :: string where
  "backslash = [CHR 0x5C]"

definition newline :: string where
  "newline = [CHR 0x0A]"

section \<open>The entity document\<close>

text \<open>
  \<open>fieldValidateRules\<close> and \<open>relationshipValidateRules\<close> are arrays of rule names in a
  well-formed document; the code tests the first with \<open>_.isArray\<close>, and calls
  \<open>includes\<close> on the second, which also accepts a string.
\<close>

datatype rules = Str string | Arr "string list"

record entity_field =
  fieldName :: "string option"
  fieldType :: "string option"
  fieldValidateRules :: "rules option"
  fieldValidateRulesMax :: "string option"
  fieldValidateRulesMin :: "string option"
  fieldValidateRulesMaxlength :: "string option"
  fieldValidateRulesMinlength :: "string option"
  fieldValidateRulesMaxbytes :: "string option"
  fieldValidateRulesMinbytes :: "string option"
  fieldValidateRulesPattern :: "string option"
  field_validation :: "bool option"
  options_fieldNameHumanized :: "string option"
  enumInstance :: "string option"
  fieldTypeBlobContent :: "string option"
  fieldIsEnum :: "bool option"
  fieldNameCapitalized :: "string option"
  fieldNameUnderscored :: "string option"
  fieldNameAsDatabaseColumn :: "string option"
  fieldNameHumanized :: "string option"
  fieldInJavaBeanMethod :: "string option"
  fieldValidateRulesPatternJava :: "string option"
  fieldValidateRulesPatternAngular :: "string option"
  fieldValidateRulesPatternReact :: "string option"
  fieldValidate :: "bool option"

record entity_relationship =
  relationshipName :: "string option"
  otherEntityName :: "string option"
  relationshipType :: "string option"
  ownerSide :: "bool option"
  otherEntityField :: "string option"
  relationshipValidateRules :: "rules option"
  options_relationshipNameHumanized :: "string option"
  otherEntityRelationshipName :: "string option"
  otherEntityRelationshipNamePlural :: "string option"
  otherEntityRelationshipNameCapitalized :: "string option"
  otherEntityRelationshipNameCapitalizedPlural :: "string option"
  relationshipNameCapitalized :: "string option"
  relationshipNameCapitalizedPlural :: "string option"
  relationshipNameHumanized :: "string option"
  relationshipNamePlural :: "string option"
  relationshipFieldName :: "string option"
  relationshipFieldNamePlural :: "string option"
  otherEntityNamePlural :: "string option"
  otherEntityNameCapitalized :: "string option"
  otherEntityNameCapitalizedPlural :: "string option"
  otherEntityFieldCapitalized :: "string option"
  otherEntityIsEmbedded :: "bool option"
  relationshipValidate :: "bool option"
  relationshipRequired :: "bool option"

text \<open>What the resolution of a relationship reads of the other entity's stored document.\<close>

record other_entity =
  oe_relationships :: "entity_relationship list option"
  oe_embedded :: bool
  oe_dto :: "string option"

text \<open>
  The generator's context object: the configuration and the document loaded from the
  entity's file, and the attributes that \<open>loadInMemoryData\<close> adds for the templates.
\<close>

record generator_context =
  name :: string
  entityNameCapitalized :: string
  entityTableName :: string
  prodDatabaseType :: "string option"
  databaseType :: "string option"
  jhiPrefix :: "string option"
  jhiTablePrefix :: "string option"
  skipCheckLengthOfIdentifier :: bool
  context_fields :: "entity_field list"
  relationships :: "entity_relationship list"
  changelogDate :: "string option"
  dto :: "string option"
  service :: "string option"
  jpaMetamodelFiltering :: "bool option"
  pagination :: "string option"
  clientRootFolder :: "string option"
  skipUiGrouping :: bool
  useMicroserviceJson :: bool
  applicationType :: "string option"
  microserviceName :: "string option"
  entityClass :: string
  entityClassPlural :: string
  entityInstance :: string
  entityInstancePlural :: string
  fieldsContainDate :: bool
  fieldsContainInstant :: bool
  fieldsContainUUID :: bool
  fieldsContainZonedDateTime :: bool
  fieldsContainDuration :: bool
  fieldsContainLocalDate :: bool
  fieldsContainBigDecimal :: bool
  fieldsContainBlob :: bool
  fieldsContainImageBlob :: bool
  fieldsContainTextBlob :: bool
  fieldsContainBlobOrImage :: bool
  validation :: bool
  fieldsContainOwnerManyToMany :: bool
  fieldsContainNoOwnerOneToOne :: bool
  fieldsContainOwnerOneToOne :: bool
  fieldsContainOneToMany :: bool
  fieldsContainManyToOne :: bool
  fieldsContainEmbedded :: bool
  fieldsIsReactAvField :: bool
  blobFields :: "entity_field list"
  differentTypes :: "string list"
  differentRelationships :: "string \<rightharpoonup> entity_relationship list"
  i18nToLoad :: "string option list"

section \<open>Collaborators outside the file\<close>

text \<open>
  The generator calls libraries (lodash, pluralize, JSON.stringify) and helpers of its
  base class and of other modules. They are parameters of the model: the general theorems
  hold whatever they compute. \<open>readJSON\<close> stands for the stored entity documents, by
  the capitalised entity name that the file name is made of.
\<close>

record env =
  pluralize :: "string \<Rightarrow> string"
  snakeCase :: "string \<Rightarrow> string"
  startCase :: "string \<Rightarrow> string"
  isReservedTableName :: "string \<Rightarrow> string option \<Rightarrow> bool"
  getTableName :: "string option \<Rightarrow> string"
  getColumnName :: "string option \<Rightarrow> string"
  SUPPORTED_VALIDATION_RULES :: "string list"
  stringify_field :: "entity_field \<Rightarrow> string"
  stringify_relationship :: "entity_relationship \<Rightarrow> string"
  readJSON :: "string \<Rightarrow> other_entity option"
  dateFormatForLiquibase :: string

text \<open>
  Modelled from the spec: \<open>this.error\<close> and \<open>this.warning\<close> are methods of the base
  generator, which is not in this file. The spec has two severities: an error aborts the
  resolution at once and no descriptor is returned; a warning is reported and the
  resolution goes on. Warnings are collected in order. A method call on \<open>undefined\<close>
  throws a TypeError, which ends the run as well.
\<close>

datatype failure = Error string | TypeError

type_synonym warnings = "string list"

section \<open>Validation of the table name\<close>

text \<open>The regular expression \<open>/^([a-zA-Z0-9_]*)$/\<close>.\<close>

definition table_name_chars :: "string \<Rightarrow> bool" where
  "table_name_chars s = list_all (\<lambda>c. c \<in> set (lower_letters @ upper_letters @ digits @ ''_'')) s"

datatype validation_result = Valid | Message string

definition instructions :: "generator_context \<Rightarrow> string" where
  "instructions ctx =
     ''You can specify a different table name in your JDL file or change it in .jhipster/''
     @ name ctx @ ''.json file and then run again '' @ quote @ ''jhipster entity ''
     @ name ctx @ ''.'' @ quote"

text \<open>
  \<open>_validateTableName\<close>: the result (\<open>true\<close> or a message), the warnings reported and
  the context, whose \<open>entityTableName\<close> the reserved-word branch replaces.
\<close>

definition u_validateTableName ::
  "env \<Rightarrow> generator_context \<Rightarrow> string \<Rightarrow> validation_result \<times> warnings \<times> generator_context" where
  "u_validateTableName e ctx tableName =
     (if \<not> table_name_chars tableName then
        (Message (''The table name cannot contain special characters.'' @ newline
                  @ instructions ctx), [], ctx)
      else if tableName = [] then
        (Message ''The table name cannot be empty'', [], ctx)
      else if isReservedTableName e tableName (prodDatabaseType ctx) then
        (if truthy (jhiTablePrefix ctx) then
           (Valid,
            [''The table name cannot contain the '' @ quote @ toUpperCase tableName @ quote
             @ '' reserved keyword, so it will be prefixed with '' @ quote
             @ str (jhiTablePrefix ctx) @ ''_'' @ quote @ ''.'' @ newline
             @ instructions ctx],
            ctx\<lparr>entityTableName := str (jhiTablePrefix ctx) @ ''_'' @ tableName\<rparr>)
         else
           (Valid,
            [''The table name contain the '' @ quote @ toUpperCase tableName @ quote
             @ '' reserved keyword but you have defined an empty jhiPrefix so it won''
             @ quote @ ''t be prefixed and thus the generated application might not work''
             @ quote @ ''.'' @ newline @ instructions ctx],
            ctx))
      else if prodDatabaseType ctx = Some ''oracle'' \<and> length tableName > 26
              \<and> \<not> skipCheckLengthOfIdentifier ctx then
        (Message (''The table name is too long for Oracle, try a shorter name.'' @ newline
                  @ instructions ctx), [], ctx)
      else if prodDatabaseType ctx = Some ''oracle'' \<and> length tableName > 14
              \<and> \<not> skipCheckLengthOfIdentifier ctx then
        (Valid,
         [''The table name is long for Oracle, long table names can cause issues when used to create constraint names and join table names.''
          @ newline @ instructions ctx],
         ctx)
      else (Valid, [], ctx))"

text \<open>The step \<open>validateTableName\<close> of the initializing phase.\<close>

definition validateTableName :: "env \<Rightarrow> generator_context \<Rightarrow> failure + (warnings \<times> generator_context)" where
  "validateTableName e ctx =
     (case u_validateTableName e ctx (entityTableName ctx) of
        (Message m, ws, ctx') \<Rightarrow> Inl (Error m)
      | (Valid, ws, ctx') \<Rightarrow> Inr (ws, ctx'))"

section \<open>Validation of the entity file\<close>

text \<open>
  \<open>validateFile\<close> walks over the fields, then the relationships, then the root
  attributes of the context. It changes the documents in place, so a failure leaves the
  changes made before it: the model returns the warnings, the context as it stands when
  the step ends, and the failure if there is one.
\<close>

definition is_missing_message :: "string \<Rightarrow> string \<Rightarrow> string \<Rightarrow> string \<Rightarrow> string" where
  "is_missing_message key entityName kind json =
     key @ '' is missing in .jhipster/'' @ entityName @ ''.json for '' @ kind @ '' '' @ json"

definition not_an_array_message :: "string \<Rightarrow> string \<Rightarrow> string" where
  "not_an_array_message entityName json =
     ''fieldValidateRules is not an array in .jhipster/'' @ entityName
     @ ''.json for field '' @ json"

definition unknown_rule_message :: "string \<Rightarrow> string \<Rightarrow> string \<Rightarrow> string \<Rightarrow> string" where
  "unknown_rule_message rule entityName json supported =
     ''fieldValidateRules contains unknown validation rule '' @ rule @ '' in .jhipster/''
     @ entityName @ ''.json for field '' @ json @ '' [supported validation rules ''
     @ supported @ '']''"

definition lob_warning :: "string \<Rightarrow> string \<Rightarrow> string" where
  "lob_warning entityName json =
     ''Cannot use validation in .jhipster/'' @ entityName @ ''.json for field '' @ json
     @ '' '' @ newline
     @ ''Hibernate JPA 2 Metamodel does not work with Bean Validation 2 for LOB fields, so LOB validation is disabled''"

text \<open>
  The seven tests of lines 338 to 368, in their order: the attribute whose absence is
  reported first, if any.
\<close>

definition missing_companion :: "entity_field \<Rightarrow> string list \<Rightarrow> string option" where
  "missing_companion field rs =
     (if ''max'' \<in> set rs \<and> fieldValidateRulesMax field = None then
        Some ''fieldValidateRulesMax''
      else if ''min'' \<in> set rs \<and> fieldValidateRulesMin field = None then
        Some ''fieldValidateRulesMin''
      else if ''maxlength'' \<in> set rs \<and> fieldValidateRulesMaxlength field = None then
        Some ''fieldValidateRulesMaxlength''
      else if ''minlength'' \<in> set rs \<and> fieldValidateRulesMinlength field = None then
        Some ''fieldValidateRulesMinlength''
      else if ''maxbytes'' \<in> set rs \<and> fieldValidateRulesMaxbytes field = None then
        Some ''fieldValidateRulesMaxbytes''
      else if ''minbytes'' \<in> set rs \<and> fieldValidateRulesMinbytes field = None then
        Some ''fieldValidateRulesMinbytes''
      else if ''pattern'' \<in> set rs \<and> fieldValidateRulesPattern field = None then
        Some ''fieldValidateRulesPattern''
      else None)"

definition validate_field :: "env \<Rightarrow> string \<Rightarrow> entity_field \<Rightarrow> failure + (warnings \<times> entity_field)" where
  "validate_field e entityName field =
     (if fieldName field = None then
        Inl (Error (is_missing_message ''fieldName'' entityName ''field'' (stringify_field e field)))
      else if fieldType field = None then
        Inl (Error (is_missing_message ''fieldType'' entityName ''field'' (stringify_field e field)))
      else
        (case fieldValidateRules field of
           None \<Rightarrow> Inr ([], field)
         | Some (Str s) \<Rightarrow>
             Inl (Error (not_an_array_message entityName (stringify_field e field)))
         | Some (Arr rs) \<Rightarrow>
             (case find (\<lambda>r. r \<notin> set (SUPPORTED_VALIDATION_RULES e)) rs of
                Some r \<Rightarrow>
                  Inl (Error (unknown_rule_message r entityName (stringify_field e field)
                                (join_comma (SUPPORTED_VALIDATION_RULES e))))
              | None \<Rightarrow>
                  (case missing_companion field rs of
                     Some key \<Rightarrow>
                       Inl (Error (is_missing_message key entityName ''field''
                                     (stringify_field e field)))
                   | None \<Rightarrow>
                       if fieldType field = Some ''ByteBuffer'' then
                         Inr ([lob_warning entityName (stringify_field e field)],
                              field\<lparr>field_validation := Some False,
                                    fieldValidateRules := Some (Arr [])\<rparr>)
                       else Inr ([], field)))))"

text \<open>
  \<open>context.fields.forEach\<close>: the fields before the failing one have been validated
  (and changed), the failing one and those after it are as they were.
\<close>

fun validate_fields ::
  "env \<Rightarrow> string \<Rightarrow> entity_field list \<Rightarrow> warnings \<times> entity_field list \<times> failure option" where
  "validate_fields e entityName [] = ([], [], None)"
| "validate_fields e entityName (field # rest) =
     (case validate_field e entityName field of
        Inl err \<Rightarrow> ([], field # rest, Some err)
      | Inr (ws, field') \<Rightarrow>
          (case validate_fields e entityName rest of
             (ws', rest', result) \<Rightarrow> (ws @ ws', field' # rest', result)))"

definition needs_otherEntityField :: "entity_relationship \<Rightarrow> bool" where
  "needs_otherEntityField r =
     (otherEntityField r = None \<and>
      (relationshipType r = Some ''many-to-one'' \<or>
       (relationshipType r = Some ''many-to-many'' \<and> ownerSide r = Some True) \<or>
       (relationshipType r = Some ''one-to-one'' \<and> ownerSide r = Some True)))"

definition needs_otherEntityRelationshipName :: "entity_relationship \<Rightarrow> bool" where
  "needs_otherEntityRelationshipName r =
     (otherEntityRelationshipName r = None \<and> relationshipType r \<noteq> None
      \<and> relationshipType r \<noteq> Some [])"

definition fallback_warning :: "string \<Rightarrow> string \<Rightarrow> string \<Rightarrow> string \<Rightarrow> string" where
  "fallback_warning key entityName json fallback =
     key @ '' is missing in .jhipster/'' @ entityName @ ''.json for relationship '' @ json
     @ '', using '' @ fallback @ '' as fallback''"

text \<open>The three defaults that validation writes into a relationship.\<close>

definition default_relationshipName :: "entity_relationship \<Rightarrow> entity_relationship" where
  "default_relationshipName r =
     (if relationshipName r = None then r\<lparr>relationshipName := otherEntityName r\<rparr> else r)"

definition default_otherEntityRelationshipName ::
  "string \<Rightarrow> entity_relationship \<Rightarrow> entity_relationship" where
  "default_otherEntityRelationshipName entityName r =
     (if needs_otherEntityRelationshipName r
      then r\<lparr>otherEntityRelationshipName := Some (lowerFirst entityName)\<rparr> else r)"

definition default_otherEntityField :: "entity_relationship \<Rightarrow> entity_relationship" where
  "default_otherEntityField r =
     (if needs_otherEntityField r then r\<lparr>otherEntityField := Some ''id''\<rparr> else r)"

definition validate_relationship ::
  "env \<Rightarrow> string \<Rightarrow> entity_relationship \<Rightarrow> warnings \<times> entity_relationship \<times> failure option" where
  "validate_relationship e entityName r =
     (let r1 = default_relationshipName r;
          w1 = (if relationshipName r = None then
                  [fallback_warning ''relationshipName'' entityName (stringify_relationship e r1)
                     (interpolate (otherEntityName r1))]
                else [])
      in
      if otherEntityName r1 = None then
        (w1, r1, Some (Error (is_missing_message ''otherEntityName'' entityName ''relationship''
                                (stringify_relationship e r1))))
      else
        let r2 = default_otherEntityRelationshipName entityName r1;
            w2 = (if needs_otherEntityRelationshipName r1 \<and> otherEntityName r2 \<noteq> Some ''user'' then
                    [fallback_warning ''otherEntityRelationshipName'' entityName
                       (stringify_relationship e r2) (lowerFirst entityName)]
                  else []);
            w3 = (if needs_otherEntityField r2 then
                    [fallback_warning ''otherEntityField'' entityName
                       (stringify_relationship e r2) ''id'']
                  else []);
            r3 = default_otherEntityField r2
        in
        if relationshipType r3 = None then
          (w1 @ w2 @ w3, r3,
           Some (Error (is_missing_message ''relationshipType'' entityName ''relationship''
                          (stringify_relationship e r3))))
        else if ownerSide r3 = None \<and>
                (relationshipType r3 = Some ''one-to-one'' \<or> relationshipType r3 = Some ''many-to-many'') then
          (w1 @ w2 @ w3, r3,
           Some (Error (is_missing_message ''ownerSide'' entityName ''relationship''
                          (stringify_relationship e r3))))
        else (w1 @ w2 @ w3, r3, None))"

text \<open>
  \<open>context.relationships.forEach\<close>: the failing relationship keeps the defaults it was
  given before the failure.
\<close>

fun validate_relationships ::
  "env \<Rightarrow> string \<Rightarrow> entity_relationship list
     \<Rightarrow> warnings \<times> entity_relationship list \<times> failure option" where
  "validate_relationships e entityName [] = ([], [], None)"
| "validate_relationships e entityName (r # rest) =
     (case validate_relationship e entityName r of
        (ws, r', Some err) \<Rightarrow> (ws, r' # rest, Some err)
      | (ws, r', None) \<Rightarrow>
          (case validate_relationships e entityName rest of
             (ws', rest', result) \<Rightarrow> (ws @ ws', r' # rest', result)))"

text \<open>The defaults of the root attributes, each with its warning.\<close>

definition default_changelogDate :: "env \<Rightarrow> warnings \<times> generator_context \<Rightarrow> warnings \<times> generator_context" where
  "default_changelogDate e s =
     (case s of (ws, ctx) \<Rightarrow>
        if changelogDate ctx = None \<and> databaseType ctx \<in> {Some ''sql'', Some ''cassandra''} then
          (ws @ [''changelogDate is missing in .jhipster/'' @ name ctx @ ''.json, using ''
                 @ dateFormatForLiquibase e @ '' as fallback''],
           ctx\<lparr>changelogDate := Some (dateFormatForLiquibase e)\<rparr>)
        else (ws, ctx))"

definition default_dto :: "warnings \<times> generator_context \<Rightarrow> warnings \<times> generator_context" where
  "default_dto s =
     (case s of (ws, ctx) \<Rightarrow>
        if dto ctx = None then
          (ws @ [''dto is missing in .jhipster/'' @ name ctx @ ''.json, using no as fallback''],
           ctx\<lparr>dto := Some ''no''\<rparr>)
        else (ws, ctx))"

definition default_service :: "warnings \<times> generator_context \<Rightarrow> warnings \<times> generator_context" where
  "default_service s =
     (case s of (ws, ctx) \<Rightarrow>
        if service ctx = None then
          (ws @ [''service is missing in .jhipster/'' @ name ctx @ ''.json, using no as fallback''],
           ctx\<lparr>service := Some ''no''\<rparr>)
        else (ws, ctx))"

definition default_jpaMetamodelFiltering ::
  "warnings \<times> generator_context \<Rightarrow> warnings \<times> generator_context" where
  "default_jpaMetamodelFiltering s =
     (case s of (ws, ctx) \<Rightarrow>
        if jpaMetamodelFiltering ctx = None then
          (ws @ [''jpaMetamodelFiltering is missing in .jhipster/'' @ name ctx @ ''.json, using ''
                 @ quote @ ''no'' @ quote @ '' as fallback''],
           ctx\<lparr>jpaMetamodelFiltering := Some False\<rparr>)
        else (ws, ctx))"

definition default_pagination :: "warnings \<times> generator_context \<Rightarrow> warnings \<times> generator_context" where
  "default_pagination s =
     (case s of (ws, ctx) \<Rightarrow>
        if pagination ctx = None then
          (ws @ [''pagination is missing in .jhipster/'' @ name ctx @ ''.json, using no as fallback''],
           ctx\<lparr>pagination := Some ''no''\<rparr>)
        else (ws, ctx))"

definition default_clientRootFolder :: "warnings \<times> generator_context \<Rightarrow> warnings \<times> generator_context" where
  "default_clientRootFolder s =
     (case s of (ws, ctx) \<Rightarrow>
        if \<not> truthy (clientRootFolder ctx) \<and> \<not> skipUiGrouping ctx
           \<and> (useMicroserviceJson ctx \<or> applicationType ctx = Some ''microservice'') then
          (ws, ctx\<lparr>clientRootFolder := microserviceName ctx\<rparr>)
        else (ws, ctx))"

definition validate_root :: "env \<Rightarrow> warnings \<times> generator_context \<Rightarrow> warnings \<times> generator_context" where
  "validate_root e s =
     default_clientRootFolder (default_pagination (default_jpaMetamodelFiltering
       (default_service (default_dto (default_changelogDate e s)))))"

definition validateFile :: "env \<Rightarrow> generator_context \<Rightarrow> warnings \<times> generator_context \<times> failure option" where
  "validateFile e ctx =
     (case validate_fields e (name ctx) (context_fields ctx) of
        (ws1, fs, Some err) \<Rightarrow> (ws1, ctx\<lparr>context_fields := fs\<rparr>, Some err)
      | (ws1, fs, None) \<Rightarrow>
          (case validate_relationships e (name ctx) (relationships ctx) of
             (ws2, rs, Some err) \<Rightarrow>
               (ws1 @ ws2, ctx\<lparr>context_fields := fs, relationships := rs\<rparr>, Some err)
           | (ws2, rs, None) \<Rightarrow>
               (case validate_root e (ws1 @ ws2, ctx\<lparr>context_fields := fs, relationships := rs\<rparr>) of
                  (ws, ctx') \<Rightarrow> (ws, ctx', None))))"

section \<open>Loading the in-memory data\<close>

text \<open>
  \<open>loadInMemoryData\<close> derives the attributes that the templates read. The model keeps
  the attributes of fields and relationships and the flags of the context; it leaves out
  the assignments to file, folder, module, route and table names of the client and server
  layers and to the primary key types, which no statement modelled here reads.
\<close>

subsection \<open>Fields\<close>

definition primitive_types :: "string list" where
  "primitive_types =
     [''String'', ''Integer'', ''Long'', ''Float'', ''Double'', ''BigDecimal'', ''LocalDate'',
      ''Instant'', ''ZonedDateTime'', ''Duration'', ''UUID'', ''Boolean'', ''byte[]'',
      ''ByteBuffer'']"

definition migrate_fieldType :: "entity_field \<Rightarrow> entity_field" where
  "migrate_fieldType field =
     (if fieldType field = Some ''DateTime'' \<or> fieldType field = Some ''Date''
      then field\<lparr>fieldType := Some ''Instant''\<rparr> else field)"

definition set_fieldIsEnum :: "entity_field \<Rightarrow> entity_field" where
  "set_fieldIsEnum field =
     field\<lparr>fieldIsEnum := Some (fieldType field \<notin> Some ` set primitive_types)\<rparr>"

definition set_fieldNameCapitalized :: "entity_field \<Rightarrow> entity_field" where
  "set_fieldNameCapitalized field =
     (if fieldNameCapitalized field = None
      then field\<lparr>fieldNameCapitalized := Some (upperFirst (str (fieldName field)))\<rparr>
      else field)"

definition set_fieldNameUnderscored :: "env \<Rightarrow> entity_field \<Rightarrow> entity_field" where
  "set_fieldNameUnderscored e field =
     (if fieldNameUnderscored field = None
      then field\<lparr>fieldNameUnderscored := Some (snakeCase e (str (fieldName field)))\<rparr>
      else field)"

definition set_fieldNameAsDatabaseColumn ::
  "env \<Rightarrow> generator_context \<Rightarrow> entity_field \<Rightarrow> warnings \<times> entity_field" where
  "set_fieldNameAsDatabaseColumn e ctx field =
     (if fieldNameAsDatabaseColumn field = None then
        let underscored = snakeCase e (str (fieldName field));
            jhiFieldNamePrefix = getColumnName e (jhiPrefix ctx)
        in
        if isReservedTableName e underscored (prodDatabaseType ctx) then
          if jhiFieldNamePrefix = [] then
            ([''The field name '' @ quote @ underscored @ quote
              @ '' is regarded as a reserved keyword, but you have defined an empty jhiPrefix. This might lead to a non-working application.''],
             field\<lparr>fieldNameAsDatabaseColumn := Some underscored\<rparr>)
          else
            ([], field\<lparr>fieldNameAsDatabaseColumn := Some (jhiFieldNamePrefix @ ''_'' @ underscored)\<rparr>)
        else ([], field\<lparr>fieldNameAsDatabaseColumn := Some underscored\<rparr>)
      else ([], field))"

definition set_fieldNameHumanized :: "env \<Rightarrow> entity_field \<Rightarrow> entity_field" where
  "set_fieldNameHumanized e field =
     (if fieldNameHumanized field = None
      then field\<lparr>fieldNameHumanized :=
             or_else (options_fieldNameHumanized field) (Some (startCase e (str (fieldName field))))\<rparr>
      else field)"

text \<open>
  The getter name: \<open>field.fieldName.length\<close> throws when the field has no name.
\<close>

definition set_fieldInJavaBeanMethod :: "entity_field \<Rightarrow> failure + entity_field" where
  "set_fieldInJavaBeanMethod field =
     (if fieldInJavaBeanMethod field = None then
        (case fieldName field of
           None \<Rightarrow> Inl TypeError
         | Some n \<Rightarrow>
             if length n > 1 then
               let firstLetter = [n ! 0]; secondLetter = [n ! 1] in
               if firstLetter = toLowerCase firstLetter \<and> secondLetter = toUpperCase secondLetter
               then Inr (field\<lparr>fieldInJavaBeanMethod := Some (toLowerCase firstLetter @ drop 1 n)\<rparr>)
               else Inr (field\<lparr>fieldInJavaBeanMethod := Some (upperFirst n)\<rparr>)
             else Inr (field\<lparr>fieldInJavaBeanMethod := Some (upperFirst n)\<rparr>))
      else Inr field)"

definition set_fieldValidateRulesPatternJava :: "entity_field \<Rightarrow> entity_field" where
  "set_fieldValidateRulesPatternJava field =
     (if fieldValidateRulesPatternJava field = None then
        field\<lparr>fieldValidateRulesPatternJava :=
          (if truthy (fieldValidateRulesPattern field)
           then Some (replace_all (CHR 0x22) (backslash @ dquote)
                        (replace_all (CHR 0x5C) (backslash @ backslash)
                           (str (fieldValidateRulesPattern field))))
           else fieldValidateRulesPattern field)\<rparr>
      else field)"

definition set_fieldValidateRulesPatternAngular :: "entity_field \<Rightarrow> entity_field" where
  "set_fieldValidateRulesPatternAngular field =
     (if fieldValidateRulesPatternAngular field = None then
        field\<lparr>fieldValidateRulesPatternAngular :=
          (if truthy (fieldValidateRulesPattern field)
           then Some (replace_all (CHR 0x22) ''&#34;'' (str (fieldValidateRulesPattern field)))
           else fieldValidateRulesPattern field)\<rparr>
      else field)"

definition set_fieldValidateRulesPatternReact :: "entity_field \<Rightarrow> entity_field" where
  "set_fieldValidateRulesPatternReact field =
     (if fieldValidateRulesPatternReact field = None then
        field\<lparr>fieldValidateRulesPatternReact :=
          (if truthy (fieldValidateRulesPattern field)
           then Some (replace_all (CHR 0x27) (backslash @ quote) (str (fieldValidateRulesPattern field)))
           else fieldValidateRulesPattern field)\<rparr>
      else field)"

definition set_fieldValidate :: "entity_field \<Rightarrow> entity_field" where
  "set_fieldValidate field =
     field\<lparr>fieldValidate :=
       Some (case fieldValidateRules field of Some (Arr rs) \<Rightarrow> length rs \<ge> 1 | _ \<Rightarrow> False)\<rparr>"

text \<open>
  What one turn of \<open>context.fields.forEach\<close> does to the field (lines 592 to 686).
\<close>

definition normalize_field ::
  "env \<Rightarrow> generator_context \<Rightarrow> entity_field \<Rightarrow> failure + (warnings \<times> entity_field)" where
  "normalize_field e ctx field =
     (case set_fieldNameAsDatabaseColumn e ctx
             (set_fieldNameUnderscored e (set_fieldNameCapitalized
                (set_fieldIsEnum (migrate_fieldType field)))) of
        (ws, f1) \<Rightarrow>
          (case set_fieldInJavaBeanMethod (set_fieldNameHumanized e f1) of
             Inl err \<Rightarrow> Inl err
           | Inr f2 \<Rightarrow>
               Inr (ws, set_fieldValidate (set_fieldValidateRulesPatternReact
                          (set_fieldValidateRulesPatternAngular
                             (set_fieldValidateRulesPatternJava f2))))))"

text \<open>What the same turn does to the context, read off the field as it is at the end.\<close>

definition field_type_flags :: "entity_field \<Rightarrow> generator_context \<Rightarrow> generator_context" where
  "field_type_flags field ctx =
     (if fieldType field = Some ''ZonedDateTime'' then
        ctx\<lparr>fieldsContainZonedDateTime := True, fieldsContainDate := True\<rparr>
      else if fieldType field = Some ''Instant'' then
        ctx\<lparr>fieldsContainInstant := True, fieldsContainDate := True\<rparr>
      else if fieldType field = Some ''Duration'' then
        ctx\<lparr>fieldsContainDuration := True\<rparr>
      else if fieldType field = Some ''LocalDate'' then
        ctx\<lparr>fieldsContainLocalDate := True, fieldsContainDate := True\<rparr>
      else if fieldType field = Some ''BigDecimal'' then
        ctx\<lparr>fieldsContainBigDecimal := True\<rparr>
      else if fieldType field = Some ''UUID'' then
        ctx\<lparr>fieldsContainUUID := True\<rparr>
      else if fieldType field = Some ''byte[]'' \<or> fieldType field = Some ''ByteBuffer'' then
        ctx\<lparr>blobFields := blobFields ctx @ [field],
            fieldsContainBlob := True,
            fieldsContainImageBlob :=
              (fieldsContainImageBlob ctx \<or> fieldTypeBlobContent field = Some ''image''),
            fieldsContainBlobOrImage :=
              (fieldsContainBlobOrImage ctx \<or> fieldTypeBlobContent field \<noteq> Some ''text''),
            fieldsContainTextBlob :=
              (fieldsContainTextBlob ctx \<or> fieldTypeBlobContent field = Some ''text'')\<rparr>
      else ctx)"

definition field_flags :: "entity_field \<Rightarrow> generator_context \<Rightarrow> generator_context" where
  "field_flags field ctx =
     (let c1 = (if fieldType field \<notin> {Some ''Instant'', Some ''ZonedDateTime'', Some ''Boolean''}
                then ctx\<lparr>fieldsIsReactAvField := True\<rparr> else ctx);
          c2 = (if fieldIsEnum field = Some True
                then c1\<lparr>i18nToLoad := i18nToLoad c1 @ [enumInstance field]\<rparr> else c1);
          c3 = field_type_flags field c2
      in if fieldValidate field = Some True then c3\<lparr>validation := True\<rparr> else c3)"

fun load_fields ::
  "env \<Rightarrow> generator_context \<Rightarrow> entity_field list
     \<Rightarrow> failure + (warnings \<times> generator_context \<times> entity_field list)" where
  "load_fields e ctx [] = Inr ([], ctx, [])"
| "load_fields e ctx (field # rest) =
     (case normalize_field e ctx field of
        Inl err \<Rightarrow> Inl err
      | Inr (w, field') \<Rightarrow>
          (case load_fields e (field_flags field' ctx) rest of
             Inl err \<Rightarrow> Inl err
           | Inr (ws, ctx', rest') \<Rightarrow> Inr (w @ ws, ctx', field' # rest')))"

text \<open>
  A field on which every derived attribute is in place: the state in which a turn of the
  loop leaves it.
\<close>

definition derived_present :: "entity_field \<Rightarrow> bool" where
  "derived_present g =
     (fieldType g \<noteq> Some ''DateTime'' \<and> fieldType g \<noteq> Some ''Date''
      \<and> fieldIsEnum g = Some (fieldType g \<notin> Some ` set primitive_types)
      \<and> fieldNameCapitalized g \<noteq> None
      \<and> fieldNameUnderscored g \<noteq> None
      \<and> fieldNameAsDatabaseColumn g \<noteq> None
      \<and> fieldNameHumanized g \<noteq> None
      \<and> fieldInJavaBeanMethod g \<noteq> None
      \<and> (fieldValidateRulesPatternJava g = None \<longrightarrow> fieldValidateRulesPattern g = None)
      \<and> (fieldValidateRulesPatternAngular g = None \<longrightarrow> fieldValidateRulesPattern g = None)
      \<and> (fieldValidateRulesPatternReact g = None \<longrightarrow> fieldValidateRulesPattern g = None)
      \<and> fieldValidate g =
          Some (case fieldValidateRules g of Some (Arr rs) \<Rightarrow> length rs \<ge> 1 | _ \<Rightarrow> False))"

subsection \<open>Relationships\<close>

text \<open>
  \<open>_getEntityJson\<close> reads the stored document of another entity, from the file named
  after the capitalised entity name; it returns nothing when there is no such file.
\<close>

definition u_getEntityJson :: "env \<Rightarrow> string option \<Rightarrow> other_entity option" where
  "u_getEntityJson e file = readJSON e (upperFirst (str file))"

text \<open>
  The pluralize library works on the string it is given and fails on \<open>undefined\<close>, as
  any method call on \<open>undefined\<close> does.
\<close>

definition pluralize_js :: "env \<Rightarrow> string option \<Rightarrow> failure + string" where
  "pluralize_js e word = (case word of None \<Rightarrow> Inl TypeError | Some w \<Rightarrow> Inr (pluralize e w))"

text \<open>
  The test that a relationship of the other entity is the other side of \<open>r\<close>: the three
  early returns and the condition on the two types (lines 745 to 765).
\<close>

definition refers_back :: "string \<Rightarrow> entity_relationship \<Rightarrow> bool" where
  "refers_back entityName other = (upperFirst (str (otherEntityName other)) = entityName)"

definition compatible_types :: "entity_relationship \<Rightarrow> entity_relationship \<Rightarrow> bool" where
  "compatible_types r other =
     ((relationshipType r = Some ''many-to-one'' \<and> relationshipType other = Some ''one-to-many'') \<or>
      (relationshipType r = Some ''many-to-many'' \<and> relationshipType other = Some ''many-to-many''))"

definition reciprocal_match :: "string \<Rightarrow> entity_relationship \<Rightarrow> entity_relationship \<Rightarrow> bool" where
  "reciprocal_match entityName r other =
     (refers_back entityName other \<and> truthy (otherEntityRelationshipName other)
      \<and> otherEntityRelationshipName other = relationshipName r \<and> compatible_types r other)"

text \<open>The four assignments of lines 766 to 775.\<close>

definition copy_reciprocal ::
  "env \<Rightarrow> entity_relationship \<Rightarrow> entity_relationship \<Rightarrow> failure + entity_relationship" where
  "copy_reciprocal e r other =
     (case (if truthy (otherEntityRelationshipNamePlural r)
            then Inr (str (otherEntityRelationshipNamePlural r))
            else pluralize_js e (relationshipName other)) of
        Inl err \<Rightarrow> Inl err
      | Inr plural \<Rightarrow>
          let capitalized =
                (if truthy (otherEntityRelationshipNameCapitalized r)
                 then str (otherEntityRelationshipNameCapitalized r)
                 else upperFirst (str (relationshipName other)))
          in Inr (r\<lparr>otherEntityRelationshipName :=
                        or_else (otherEntityRelationshipName r) (relationshipName other),
                     otherEntityRelationshipNamePlural := Some plural,
                     otherEntityRelationshipNameCapitalized := Some capitalized,
                     otherEntityRelationshipNameCapitalizedPlural :=
                        Some (pluralize e capitalized)\<rparr>))"

definition cannot_compare_warning :: "string \<Rightarrow> string \<Rightarrow> string" where
  "cannot_compare_warning otherName json =
     ''Cannot compare relationship reference: otherEntityRelationshipName is missing in .jhipster/''
     @ otherName @ ''.json for relationship '' @ json"

definition reciprocal_step ::
  "env \<Rightarrow> string \<Rightarrow> string option \<Rightarrow> entity_relationship \<Rightarrow> entity_relationship
     \<Rightarrow> failure + (warnings \<times> entity_relationship)" where
  "reciprocal_step e entityName otherName r other =
     (if \<not> refers_back entityName other then Inr ([], r)
      else if \<not> truthy (otherEntityRelationshipName other) then
        Inr ([cannot_compare_warning (interpolate otherName) (stringify_relationship e other)], r)
      else if otherEntityRelationshipName other \<noteq> relationshipName r then Inr ([], r)
      else if compatible_types r other then
        (case copy_reciprocal e r other of Inl err \<Rightarrow> Inl err | Inr r' \<Rightarrow> Inr ([], r'))
      else Inr ([], r))"

text \<open>\<open>otherEntityData.relationships.forEach\<close>.\<close>

fun reciprocal_loop ::
  "env \<Rightarrow> string \<Rightarrow> string option \<Rightarrow> entity_relationship \<Rightarrow> entity_relationship list
     \<Rightarrow> failure + (warnings \<times> entity_relationship)" where
  "reciprocal_loop e entityName otherName r [] = Inr ([], r)"
| "reciprocal_loop e entityName otherName r (other # rest) =
     (case reciprocal_step e entityName otherName r other of
        Inl err \<Rightarrow> Inl err
      | Inr (w, r') \<Rightarrow>
          (case reciprocal_loop e entityName otherName r' rest of
             Inl err \<Rightarrow> Inl err
           | Inr (ws, r'') \<Rightarrow> Inr (w @ ws, r'')))"

definition look_at_other_side ::
  "env \<Rightarrow> string \<Rightarrow> other_entity option \<Rightarrow> entity_relationship
     \<Rightarrow> failure + (warnings \<times> entity_relationship)" where
  "look_at_other_side e entityName otherEntityData r =
     (case otherEntityData of
        None \<Rightarrow> Inr ([], r)
      | Some d \<Rightarrow>
          (case oe_relationships d of
             None \<Rightarrow> Inr ([], r)
           | Some others \<Rightarrow>
               if relationshipType r = Some ''many-to-one'' \<or> relationshipType r = Some ''many-to-many''
               then reciprocal_loop e entityName (otherEntityName r) r others
               else Inr ([], r)))"

text \<open>Lines 781 to 795: the variants of a name of the other side that is known by now.\<close>

definition set_otherEntityRelationshipNames :: "env \<Rightarrow> entity_relationship \<Rightarrow> entity_relationship" where
  "set_otherEntityRelationshipNames e r =
     (case otherEntityRelationshipName r of
        None \<Rightarrow> r
      | Some n \<Rightarrow>
          let r1 = (if otherEntityRelationshipNamePlural r = None
                    then r\<lparr>otherEntityRelationshipNamePlural := Some (pluralize e n)\<rparr> else r);
              r2 = (if otherEntityRelationshipNameCapitalized r1 = None
                    then r1\<lparr>otherEntityRelationshipNameCapitalized := Some (upperFirst n)\<rparr> else r1)
          in if otherEntityRelationshipNameCapitalizedPlural r2 = None
             then r2\<lparr>otherEntityRelationshipNameCapitalizedPlural := Some (pluralize e (upperFirst n))\<rparr>
             else r2)"

text \<open>
  Lines 797 to 824: the variants of the relationship's own name.
  \<open>relationship.relationshipName.length\<close> and \<open>pluralize\<close> throw on a missing name.
\<close>

definition set_relationshipNameCapitalizedPlural ::
  "env \<Rightarrow> entity_relationship \<Rightarrow> failure + entity_relationship" where
  "set_relationshipNameCapitalizedPlural e r =
     (if relationshipNameCapitalizedPlural r = None then
        (case relationshipName r of
           None \<Rightarrow> Inl TypeError
         | Some n \<Rightarrow>
             if length n > 1
             then Inr (r\<lparr>relationshipNameCapitalizedPlural := Some (pluralize e (upperFirst n))\<rparr>)
             else Inr (r\<lparr>relationshipNameCapitalizedPlural := Some (upperFirst (pluralize e n))\<rparr>))
      else Inr r)"

definition set_relationshipNamePlural ::
  "env \<Rightarrow> entity_relationship \<Rightarrow> failure + entity_relationship" where
  "set_relationshipNamePlural e r =
     (if relationshipNamePlural r = None then
        (case pluralize_js e (relationshipName r) of
           Inl err \<Rightarrow> Inl err
         | Inr p \<Rightarrow> Inr (r\<lparr>relationshipNamePlural := Some p\<rparr>))
      else Inr r)"

definition set_relationshipNames :: "env \<Rightarrow> entity_relationship \<Rightarrow> failure + entity_relationship" where
  "set_relationshipNames e r =
     (let r1 = (if relationshipNameCapitalized r = None
                then r\<lparr>relationshipNameCapitalized := Some (upperFirst (str (relationshipName r)))\<rparr>
                else r)
      in case set_relationshipNameCapitalizedPlural e r1 of
           Inl err \<Rightarrow> Inl err
         | Inr r2 \<Rightarrow>
             let r3 = (if relationshipNameHumanized r2 = None
                       then r2\<lparr>relationshipNameHumanized :=
                              or_else (options_relationshipNameHumanized r2)
                                (Some (startCase e (str (relationshipName r2))))\<rparr>
                       else r2)
             in case set_relationshipNamePlural e r3 of
                  Inl err \<Rightarrow> Inl err
                | Inr r4 \<Rightarrow>
                    let r5 = (if relationshipFieldName r4 = None
                              then r4\<lparr>relationshipFieldName :=
                                     Some (lowerFirst (str (relationshipName r4)))\<rparr>
                              else r4)
                    in Inr (if relationshipFieldNamePlural r5 = None
                            then r5\<lparr>relationshipFieldNamePlural :=
                                   Some (pluralize e (lowerFirst (str (relationshipName r5))))\<rparr>
                            else r5))"

text \<open>Lines 826 to 836: the warning about an entity with DTOs related to one without.\<close>

definition dto_warning :: "generator_context \<Rightarrow> other_entity option \<Rightarrow> entity_relationship \<Rightarrow> warnings" where
  "dto_warning ctx otherEntityData r =
     (if dto ctx = Some ''mapstruct'' \<and>
         (case otherEntityData of None \<Rightarrow> False | Some d \<Rightarrow> oe_dto d \<noteq> Some ''mapstruct'') \<and>
         otherEntityName r \<noteq> Some ''user''
      then [''This entity has the DTO option, and it has a relationship with entity '' @ dquote
            @ interpolate (otherEntityName r) @ dquote @ '' that doesn'' @ quote
            @ ''t have the DTO option. This will result in an error.'']
      else [])"

text \<open>Lines 852 to 876: the variants of the other entity's name and field.\<close>

definition set_otherEntityNames :: "env \<Rightarrow> entity_relationship \<Rightarrow> failure + entity_relationship" where
  "set_otherEntityNames e r =
     (case (if otherEntityNamePlural r = None
            then (case pluralize_js e (otherEntityName r) of
                    Inl err \<Rightarrow> Inl err
                  | Inr p \<Rightarrow> Inr (r\<lparr>otherEntityNamePlural := Some p\<rparr>))
            else Inr r) of
        Inl err \<Rightarrow> Inl err
      | Inr r1 \<Rightarrow>
          let r2 = (if otherEntityNameCapitalized r1 = None
                    then r1\<lparr>otherEntityNameCapitalized := Some (upperFirst (str (otherEntityName r1)))\<rparr>
                    else r1);
              r3 = (if otherEntityNameCapitalizedPlural r2 = None
                    then r2\<lparr>otherEntityNameCapitalizedPlural :=
                           Some (pluralize e (upperFirst (str (otherEntityName r2))))\<rparr>
                    else r2)
          in Inr (if otherEntityFieldCapitalized r3 = None
                  then r3\<lparr>otherEntityFieldCapitalized := Some (upperFirst (str (otherEntityField r3)))\<rparr>
                  else r3))"

text \<open>
  All that one turn of \<open>context.relationships.forEach\<close> derives on the relationship
  before it looks at the validation rules (lines 723 to 876).
\<close>

definition resolve_relationship ::
  "env \<Rightarrow> generator_context \<Rightarrow> entity_relationship \<Rightarrow> failure + (warnings \<times> entity_relationship)" where
  "resolve_relationship e ctx r =
     (let otherEntityData = u_getEntityJson e (otherEntityName r);
          r0 = (case otherEntityData of
                  None \<Rightarrow> r
                | Some d \<Rightarrow> if oe_embedded d then r\<lparr>otherEntityIsEmbedded := Some True\<rparr> else r)
      in case look_at_other_side e (name ctx) otherEntityData r0 of
           Inl err \<Rightarrow> Inl err
         | Inr (ws, r1) \<Rightarrow>
             (case set_relationshipNames e (set_otherEntityRelationshipNames e r1) of
                Inl err \<Rightarrow> Inl err
              | Inr r2 \<Rightarrow>
                  (case set_otherEntityNames e r2 of
                     Inl err \<Rightarrow> Inl err
                   | Inr r3 \<Rightarrow> Inr (ws @ dto_warning ctx otherEntityData r2, r3))))"

text \<open>Lines 926 to 939: the flags of the context that depend on the relationship.\<close>

definition relationship_flags :: "entity_relationship \<Rightarrow> generator_context \<Rightarrow> generator_context" where
  "relationship_flags r ctx =
     (let c1 =
            (if relationshipType r = Some ''many-to-many'' \<and> ownerSide r = Some True then
               ctx\<lparr>fieldsContainOwnerManyToMany := True\<rparr>
             else if relationshipType r = Some ''one-to-one'' \<and> ownerSide r \<noteq> Some True then
               ctx\<lparr>fieldsContainNoOwnerOneToOne := True\<rparr>
             else if relationshipType r = Some ''one-to-one'' \<and> ownerSide r = Some True then
               ctx\<lparr>fieldsContainOwnerOneToOne := True\<rparr>
             else if relationshipType r = Some ''one-to-many'' then
               ctx\<lparr>fieldsContainOneToMany := True\<rparr>
             else if relationshipType r = Some ''many-to-one'' then
               ctx\<lparr>fieldsContainManyToOne := True\<rparr>
             else ctx)
      in if otherEntityIsEmbedded r = Some True then c1\<lparr>fieldsContainEmbedded := True\<rparr> else c1)"

text \<open>Lines 941 to 947: a required relationship.\<close>

definition includes_required :: "rules option \<Rightarrow> bool" where
  "includes_required rs =
     (case rs of
        None \<Rightarrow> False
      | Some (Str s) \<Rightarrow> s \<noteq> [] \<and> sublist ''required'' s
      | Some (Arr xs) \<Rightarrow> ''required'' \<in> set xs)"

definition required_relationship ::
  "entity_relationship \<Rightarrow> generator_context
     \<Rightarrow> failure + (warnings \<times> generator_context \<times> entity_relationship)" where
  "required_relationship r ctx =
     (if includes_required (relationshipValidateRules r) then
        (case otherEntityName r of
           None \<Rightarrow> Inl TypeError
         | Some other \<Rightarrow>
             if toLowerCase (name ctx) = toLowerCase other then
               Inr ([''Required relationships to the same entity are not supported.''], ctx, r)
             else
               Inr ([], ctx\<lparr>validation := True\<rparr>,
                    r\<lparr>relationshipValidate := Some True, relationshipRequired := Some True\<rparr>))
      else Inr ([], ctx, r))"

text \<open>
  Lines 949 to 956: the types of the related entities, each once and in the order met,
  and the relationships by type. The keys of \<open>differentRelationships\<close> are entity names,
  taken not to be names that every JavaScript object inherits.
\<close>

definition register_type :: "entity_relationship \<Rightarrow> generator_context \<Rightarrow> generator_context" where
  "register_type r ctx =
     (let entityType = str (otherEntityNameCapitalized r);
          c1 = (if entityType \<notin> set (differentTypes ctx)
                then ctx\<lparr>differentTypes := differentTypes ctx @ [entityType]\<rparr> else ctx);
          sameType = (case differentRelationships c1 entityType of None \<Rightarrow> [] | Some rs \<Rightarrow> rs)
      in c1\<lparr>differentRelationships := (differentRelationships c1)(entityType \<mapsto> sameType @ [r])\<rparr>)"

definition relationship_step ::
  "env \<Rightarrow> generator_context \<Rightarrow> entity_relationship
     \<Rightarrow> failure + (warnings \<times> generator_context \<times> entity_relationship)" where
  "relationship_step e ctx r =
     (case resolve_relationship e ctx r of
        Inl err \<Rightarrow> Inl err
      | Inr (ws, r1) \<Rightarrow>
          (case required_relationship r1 (relationship_flags r1 ctx) of
             Inl err \<Rightarrow> Inl err
           | Inr (ws', ctx', r2) \<Rightarrow> Inr (ws @ ws', register_type r2 ctx', r2)))"

fun load_relationships ::
  "env \<Rightarrow> generator_context \<Rightarrow> entity_relationship list
     \<Rightarrow> failure + (warnings \<times> generator_context \<times> entity_relationship list)" where
  "load_relationships e ctx [] = Inr ([], ctx, [])"
| "load_relationships e ctx (r # rest) =
     (case relationship_step e ctx r of
        Inl err \<Rightarrow> Inl err
      | Inr (w, ctx', r') \<Rightarrow>
          (case load_relationships e ctx' rest of
             Inl err \<Rightarrow> Inl err
           | Inr (ws, ctx'', rest') \<Rightarrow> Inr (w @ ws, ctx'', r' # rest')))"

subsection \<open>The whole step\<close>

definition init_in_memory_data :: "env \<Rightarrow> generator_context \<Rightarrow> generator_context" where
  "init_in_memory_data e ctx =
     ctx\<lparr>entityClass := entityNameCapitalized ctx,
         entityClassPlural := pluralize e (entityNameCapitalized ctx),
         entityInstance := lowerFirst (name ctx),
         entityInstancePlural := pluralize e (lowerFirst (name ctx)),
         jhiTablePrefix := Some (getTableName e (jhiPrefix ctx)),
         fieldsContainDate := False,
         fieldsContainInstant := False,
         fieldsContainUUID := False,
         fieldsContainZonedDateTime := False,
         fieldsContainDuration := False,
         fieldsContainLocalDate := False,
         fieldsContainBigDecimal := False,
         fieldsContainBlob := False,
         fieldsContainImageBlob := False,
         fieldsContainTextBlob := False,
         fieldsContainBlobOrImage := False,
         validation := False,
         fieldsContainOwnerManyToMany := False,
         fieldsContainNoOwnerOneToOne := False,
         fieldsContainOwnerOneToOne := False,
         fieldsContainOneToMany := False,
         fieldsContainManyToOne := False,
         fieldsContainEmbedded := False,
         fieldsIsReactAvField := False,
         blobFields := [],
         differentTypes := [entityNameCapitalized ctx],
         differentRelationships := Map.empty,
         i18nToLoad := [Some (lowerFirst (name ctx))]\<rparr>"

definition loadInMemoryData :: "env \<Rightarrow> generator_context \<Rightarrow> failure + (warnings \<times> generator_context)" where
  "loadInMemoryData e ctx =
     (case load_fields e (init_in_memory_data e ctx) (context_fields ctx) of
        Inl err \<Rightarrow> Inl err
      | Inr (ws1, c1, fs) \<Rightarrow>
          (case load_relationships e (c1\<lparr>context_fields := fs\<rparr>) (relationships ctx) of
             Inl err \<Rightarrow> Inl err
           | Inr (ws2, c2, rs) \<Rightarrow> Inr (ws1 @ ws2, c2\<lparr>relationships := rs\<rparr>)))"

text \<open>
  The three variants of the name \<open>n\<close> of the other side, as the match copies them.
\<close>

definition names_copied :: "env \<Rightarrow> string \<Rightarrow> entity_relationship \<Rightarrow> bool" where
  "names_copied e n r =
     (otherEntityRelationshipNamePlural r = Some (pluralize e n)
      \<and> otherEntityRelationshipNameCapitalized r = Some (upperFirst n)
      \<and> otherEntityRelationshipNameCapitalizedPlural r = Some (pluralize e (upperFirst n)))"

section \<open>Resolution of an entity\<close>

text \<open>
  The configuring phase runs \<open>validateFile\<close>, writes the entity file and runs
  \<open>loadInMemoryData\<close>. A failure of the first ends the run: the second never starts and
  no descriptor reaches the templates. Writing the file changes no field, relationship or
  flag of the context.
\<close>

definition resolve :: "env \<Rightarrow> generator_context \<Rightarrow> failure + (warnings \<times> generator_context)" where
  "resolve e ctx =
     (case validateFile e ctx of
        (ws, ctx', Some err) \<Rightarrow> Inl err
      | (ws, ctx', None) \<Rightarrow>
          (case loadInMemoryData e ctx' of
             Inl err \<Rightarrow> Inl err
           | Inr (ws', descriptor) \<Rightarrow> Inr (ws @ ws', descriptor)))"

text \<open>
  The validation rules that need a parameter, each with the attribute that holds it
  (lines 338 to 368).
\<close>

definition companion_parameters :: "(string \<times> (entity_field \<Rightarrow> string option)) list" where
  "companion_parameters =
     [(''max'', fieldValidateRulesMax), (''min'', fieldValidateRulesMin),
      (''maxlength'', fieldValidateRulesMaxlength), (''minlength'', fieldValidateRulesMinlength),
      (''maxbytes'', fieldValidateRulesMaxbytes), (''minbytes'', fieldValidateRulesMinbytes),
      (''pattern'', fieldValidateRulesPattern)]"

section \<open>A concrete setting for examples\<close>

text \<open>
  The examples below run the model on concrete documents, which needs a value for each
  collaborator. On the one-word lower-case names of the examples, \<open>pluralize\<close> appends
  an s, \<open>snakeCase\<close> returns the word and \<open>startCase\<close> capitalises it; a field or
  relationship is printed by its name.
\<close>

text \<open>
  Modelled from the spec: \<open>isReservedTableName\<close> (jdl/jhipster/reserved-keywords) is not
  in this file. The spec names one reserved word, GROUP; the examples take it in any case.
\<close>

definition reserved_in_examples :: "string \<Rightarrow> string option \<Rightarrow> bool" where
  "reserved_in_examples keyword db = (toUpperCase keyword = ''GROUP'')"

text \<open>
  Modelled from the spec: \<open>SUPPORTED_VALIDATION_RULES\<close> (generator-constants) is not in
  this file. The spec names the rule required and the seven rules with a parameter.
\<close>

definition supported_in_examples :: "string list" where
  "supported_in_examples =
     [''required'', ''max'', ''min'', ''maxlength'', ''minlength'', ''maxbytes'', ''minbytes'',
      ''pattern'']"

text \<open>
  Modelled from the spec: \<open>getTableName\<close> (generator-base) is not in this file. The spec
  has the table name GROUP end as \<open>jhi_group\<close>, so the examples take \<open>getTableName\<close>
  to put a one-word name in lower case.
\<close>

definition sample_env :: env where
  "sample_env =
     \<lparr>pluralize = (\<lambda>s. s @ ''s''),
      snakeCase = toLowerCase,
      startCase = upperFirst,
      isReservedTableName = reserved_in_examples,
      getTableName = (\<lambda>v. toLowerCase (str v)),
      getColumnName = (\<lambda>v. toLowerCase (str v)),
      SUPPORTED_VALIDATION_RULES = supported_in_examples,
      stringify_field = (\<lambda>f. ''{fieldName: '' @ interpolate (fieldName f) @ ''}''),
      stringify_relationship =
        (\<lambda>r. ''{relationshipName: '' @ interpolate (relationshipName r) @ ''}''),
      readJSON = (\<lambda>file. None),
      dateFormatForLiquibase = ''20200101000000''\<rparr>"

text \<open>
  The context that the constructor sets up for an entity name (\<open>this.context = { name }\<close>
  and \<open>_setupEntityOptions\<close>), with an empty document and nothing configured.
\<close>

definition new_context :: "env \<Rightarrow> string \<Rightarrow> generator_context" where
  "new_context e nm =
     \<lparr>name = nm,
      entityNameCapitalized = upperFirst nm,
      entityTableName = getTableName e (Some nm),
      prodDatabaseType = None,
      databaseType = None,
      jhiPrefix = None,
      jhiTablePrefix = None,
      skipCheckLengthOfIdentifier = False,
      context_fields = [],
      relationships = [],
      changelogDate = None,
      dto = None,
      service = None,
      jpaMetamodelFiltering = None,
      pagination = None,
      clientRootFolder = None,
      skipUiGrouping = False,
      useMicroserviceJson = False,
      applicationType = None,
      microserviceName = None,
      entityClass = [],
      entityClassPlural = [],
      entityInstance = [],
      entityInstancePlural = [],
      fieldsContainDate = False,
      fieldsContainInstant = False,
      fieldsContainUUID = False,
      fieldsContainZonedDateTime = False,
      fieldsContainDuration = False,
      fieldsContainLocalDate = False,
      fieldsContainBigDecimal = False,
      fieldsContainBlob = False,
      fieldsContainImageBlob = False,
      fieldsContainTextBlob = False,
      fieldsContainBlobOrImage = False,
      validation = False,
      fieldsContainOwnerManyToMany = False,
      fieldsContainNoOwnerOneToOne = False,
      fieldsContainOwnerOneToOne = False,
      fieldsContainOneToMany = False,
      fieldsContainManyToOne = False,
      fieldsContainEmbedded = False,
      fieldsIsReactAvField = False,
      blobFields = [],
      differentTypes = [],
      differentRelationships = Map.empty,
      i18nToLoad = []\<rparr>"

text \<open>A field and a relationship with no attribute at all.\<close>

definition empty_field :: entity_field where
  "empty_field =
     \<lparr>fieldName = None,
      fieldType = None,
      fieldValidateRules = None,
      fieldValidateRulesMax = None,
      fieldValidateRulesMin = None,
      fieldValidateRulesMaxlength = None,
      fieldValidateRulesMinlength = None,
      fieldValidateRulesMaxbytes = None,
      fieldValidateRulesMinbytes = None,
      fieldValidateRulesPattern = None,
      field_validation = None,
      options_fieldNameHumanized = None,
      enumInstance = None,
      fieldTypeBlobContent = None,
      fieldIsEnum = None,
      fieldNameCapitalized = None,
      fieldNameUnderscored = None,
      fieldNameAsDatabaseColumn = None,
      fieldNameHumanized = None,
      fieldInJavaBeanMethod = None,
      fieldValidateRulesPatternJava = None,
      fieldValidateRulesPatternAngular = None,
      fieldValidateRulesPatternReact = None,
      fieldValidate = None\<rparr>"

definition empty_relationship :: entity_relationship where
  "empty_relationship =
     \<lparr>relationshipName = None,
      otherEntityName = None,
      relationshipType = None,
      ownerSide = None,
      otherEntityField = None,
      relationshipValidateRules = None,
      options_relationshipNameHumanized = None,
      otherEntityRelationshipName = None,
      otherEntityRelationshipNamePlural = None,
      otherEntityRelationshipNameCapitalized = None,
      otherEntityRelationshipNameCapitalizedPlural = None,
      relationshipNameCapitalized = None,
      relationshipNameCapitalizedPlural = None,
      relationshipNameHumanized = None,
      relationshipNamePlural = None,
      relationshipFieldName = None,
      relationshipFieldNamePlural = None,
      otherEntityNamePlural = None,
      otherEntityNameCapitalized = None,
      otherEntityNameCapitalizedPlural = None,
      otherEntityFieldCapitalized = None,
      otherEntityIsEmbedded = None,
      relationshipValidate = None,
      relationshipRequired = None\<rparr>"

text \<open>Fields of an entity Employee.\<close>

definition age_field :: entity_field where
  "age_field = empty_field\<lparr>fieldName := Some ''age'', fieldType := Some ''Integer''\<rparr>"

definition hired_field :: entity_field where
  "hired_field = empty_field\<lparr>fieldName := Some ''hired'', fieldType := Some ''DateTime''\<rparr>"

definition language_field :: entity_field where
  "language_field =
     empty_field\<lparr>fieldName := Some ''language'', fieldType := Some ''Language''\<rparr>"

text \<open>The field age as a document would hold it that stored a stale \<open>fieldValidate\<close>.\<close>

definition stale_field :: entity_field where
  "stale_field = age_field\<lparr>fieldValidate := Some True\<rparr>"

text \<open>More fields of Employee, with validation rules.\<close>

definition salary_field :: entity_field where
  "salary_field =
     empty_field\<lparr>fieldName := Some ''salary'', fieldType := Some ''Long'',
                 fieldValidateRules := Some (Arr [''required'', ''max''])\<rparr>"

definition document_field :: entity_field where
  "document_field =
     empty_field\<lparr>fieldName := Some ''document'', fieldType := Some ''ByteBuffer'',
                 fieldValidateRules := Some (Arr [''required''])\<rparr>"

definition photo_field :: entity_field where
  "photo_field =
     empty_field\<lparr>fieldName := Some ''photo'', fieldType := Some ''byte[]'',
                 fieldValidateRules := Some (Arr [''required''])\<rparr>"

text \<open>Employee with a field that has the rule max and no maximum.\<close>

definition employee_with_salary :: generator_context where
  "employee_with_salary =
     (new_context sample_env ''Employee'')\<lparr>context_fields := [age_field, salary_field]\<rparr>"

text \<open>
  Employee with two relationships: the first lacks the defaults that validation gives,
  the second lacks the name of the other entity.
\<close>

definition department_relationship :: entity_relationship where
  "department_relationship =
     empty_relationship\<lparr>otherEntityName := Some ''department'',
                        relationshipType := Some ''many-to-one''\<rparr>"

definition manager_relationship :: entity_relationship where
  "manager_relationship =
     empty_relationship\<lparr>relationshipName := Some ''manager'',
                        relationshipType := Some ''many-to-one''\<rparr>"

definition employee_with_manager :: generator_context where
  "employee_with_manager =
     (new_context sample_env ''Employee'')
       \<lparr>relationships := [department_relationship, manager_relationship]\<rparr>"

text \<open>
  Employee and Department, each with a relationship named link to the other: many-to-one
  from Employee, one-to-many back from Department. The second context gives the
  relationship of Employee two variants of its own.
\<close>

definition link_relationship :: entity_relationship where
  "link_relationship =
     empty_relationship\<lparr>relationshipName := Some ''link'',
                        otherEntityName := Some ''department'',
                        relationshipType := Some ''many-to-one''\<rparr>"

definition link_back_relationship :: entity_relationship where
  "link_back_relationship =
     empty_relationship\<lparr>relationshipName := Some ''link'',
                        otherEntityName := Some ''employee'',
                        relationshipType := Some ''one-to-many'',
                        otherEntityRelationshipName := Some ''link''\<rparr>"

definition department_document :: other_entity where
  "department_document =
     \<lparr>oe_relationships = Some [link_back_relationship], oe_embedded = False, oe_dto = None\<rparr>"

definition company_env :: env where
  "company_env =
     sample_env\<lparr>readJSON := (\<lambda>file. if file = ''Department'' then Some department_document else None)\<rparr>"


definition employee_with_custom_link :: generator_context where
  "employee_with_custom_link =
     (new_context company_env ''Employee'')
       \<lparr>relationships :=
          [link_relationship
             \<lparr>otherEntityRelationshipNamePlural := Some ''connections'',
              otherEntityRelationshipNameCapitalizedPlural := Some ''Connections''\<rparr>]\<rparr>"

text \<open>Employee with two relationships to Department and one to itself.\<close>

definition former_relationship :: entity_relationship where
  "former_relationship =
     empty_relationship\<lparr>relationshipName := Some ''former'',
                        otherEntityName := Some ''department'',
                        relationshipType := Some ''many-to-one''\<rparr>"

definition mentor_relationship :: entity_relationship where
  "mentor_relationship =
     empty_relationship\<lparr>relationshipName := Some ''mentor'',
                        otherEntityName := Some ''employee'',
                        relationshipType := Some ''many-to-one''\<rparr>"

definition employee_with_three :: generator_context where
  "employee_with_three =
     (new_context company_env ''Employee'')
       \<lparr>relationships := [link_relationship, former_relationship, mentor_relationship]\<rparr>"

text \<open>
  Employee with an enumeration, a legacy date and a number, and Employee with a number
  and a binary document, on a MySQL database.
\<close>

definition employee_with_fields :: generator_context where
  "employee_with_fields =
     (new_context sample_env ''Employee'')
       \<lparr>prodDatabaseType := Some ''mysql'',
        context_fields := [language_field, hired_field, age_field]\<rparr>"

definition employee_with_document :: generator_context where
  "employee_with_document =
     (new_context sample_env ''Employee'')
       \<lparr>prodDatabaseType := Some ''mysql'', context_fields := [age_field, document_field]\<rparr>"

text \<open>
  The entity Group with the table name GROUP asked for, as the constructor sets it up:
  \<open>entityTableName\<close> is \<open>getTableName\<close> of the name asked for (line 1213) and
  \<open>jhiTablePrefix\<close> is \<open>getTableName\<close> of the prefix (line 184). The second context
  has no prefix.
\<close>

definition group_context :: generator_context where
  "group_context =
     (new_context sample_env ''Group'')
       \<lparr>entityTableName := getTableName sample_env (Some ''GROUP''),
        prodDatabaseType := Some ''mysql'',
        jhiPrefix := Some ''jhi'',
        jhiTablePrefix := Some (getTableName sample_env (Some ''jhi''))\<rparr>"

definition group_context_without_prefix :: generator_context where
  "group_context_without_prefix =
     (new_context sample_env ''Group'')
       \<lparr>entityTableName := getTableName sample_env (Some ''GROUP''),
        prodDatabaseType := Some ''mysql''\<rparr>"





section \<open>Properties\<close>

subsection \<open>Evaluation of the examples\<close>

lemmas char_defs =
  lower_letters_def upper_letters_def digits_def toUpperCase_def toUpperCase_char_def
  toLowerCase_def toLowerCase_char_def upperFirst_def lowerFirst_def

lemmas value_defs = truthy_def str_def interpolate_def or_else_def

subsection \<open>Reserved table names\<close>

text \<open>
  Claim C8. The step \<open>validateTableName\<close> passes the table name of the context to
  \<open>_validateTableName\<close>. When that name is a reserved word (and made of letters, digits
  and underscores), \<open>_validateTableName\<close> returns \<open>true\<close> and reports exactly one
  warning, so the step does not fail. When a table prefix is configured the table name
  becomes the prefix, an underscore and the name; when no prefix is configured the
  context is left as it was.
\<close>

theorem validateTableName_reserved:
  assumes "table_name_chars (entityTableName ctx)" and "entityTableName ctx \<noteq> []"
    and "isReservedTableName e (entityTableName ctx) (prodDatabaseType ctx)"
  shows "\<exists>w. u_validateTableName e ctx (entityTableName ctx) =
             (Valid, [w],
              if truthy (jhiTablePrefix ctx)
              then ctx\<lparr>entityTableName := str (jhiTablePrefix ctx) @ ''_'' @ entityTableName ctx\<rparr>
              else ctx)
           \<and> validateTableName e ctx =
               Inr ([w],
                    if truthy (jhiTablePrefix ctx)
                    then ctx\<lparr>entityTableName :=
                               str (jhiTablePrefix ctx) @ ''_'' @ entityTableName ctx\<rparr>
                    else ctx)"
  using assms by (simp add: validateTableName_def u_validateTableName_def)

text \<open>
  The table name GROUP reaches the step as \<open>group\<close>. With the prefix jhi the step leaves
  the table name \<open>jhi_group\<close>; without a prefix it leaves the context as it was. Both
  report one warning.
\<close>

theorem validateTableName_reserved_witness:
  "entityTableName group_context = ''group''
   \<and> jhiTablePrefix group_context = Some ''jhi''
   \<and> table_name_chars ''group''
   \<and> isReservedTableName sample_env ''group'' (prodDatabaseType group_context)
   \<and> (\<exists>w. validateTableName sample_env group_context =
            Inr ([w], group_context\<lparr>entityTableName := ''jhi_group''\<rparr>))
   \<and> entityTableName group_context_without_prefix = ''group''
   \<and> jhiTablePrefix group_context_without_prefix = None
   \<and> (\<exists>w. validateTableName sample_env group_context_without_prefix =
            Inr ([w], group_context_without_prefix))"
proof -
  have t: "entityTableName group_context = ''group''"
    "jhiTablePrefix group_context = Some ''jhi''"
    "entityTableName group_context_without_prefix = ''group''"
    "jhiTablePrefix group_context_without_prefix = None"
    by (simp_all add: group_context_def group_context_without_prefix_def new_context_def
        sample_env_def char_defs str_def)
  have chars: "table_name_chars ''group''"
    by (simp add: table_name_chars_def char_defs)
  have reserved: "isReservedTableName sample_env ''group'' db" for db
    by (simp add: sample_env_def reserved_in_examples_def char_defs)
  have "\<exists>w. validateTableName sample_env group_context =
            Inr ([w], group_context\<lparr>entityTableName := ''jhi_group''\<rparr>)"
    using validateTableName_reserved [of group_context sample_env] chars reserved
    by (auto simp: t value_defs)
  moreover have "\<exists>w. validateTableName sample_env group_context_without_prefix =
            Inr ([w], group_context_without_prefix)"
    using validateTableName_reserved [of group_context_without_prefix sample_env] chars reserved
    by (auto simp: t value_defs)
  ultimately show ?thesis
    using t chars reserved by simp
qed

subsection \<open>The field normalizer, setter by setter\<close>

lemmas field_setters =
  migrate_fieldType_def set_fieldIsEnum_def set_fieldNameCapitalized_def
  set_fieldNameUnderscored_def set_fieldNameAsDatabaseColumn_def set_fieldNameHumanized_def
  set_fieldInJavaBeanMethod_def set_fieldValidateRulesPatternJava_def
  set_fieldValidateRulesPatternAngular_def set_fieldValidateRulesPatternReact_def
  set_fieldValidate_def

text \<open>Each setter changes one attribute and leaves the others.\<close>

lemma migrate_fieldType_frame [simp]:
  "fieldName (migrate_fieldType f) = fieldName f"
  "fieldValidateRules (migrate_fieldType f) = fieldValidateRules f"
  "fieldValidateRulesMax (migrate_fieldType f) = fieldValidateRulesMax f"
  "fieldValidateRulesMin (migrate_fieldType f) = fieldValidateRulesMin f"
  "fieldValidateRulesMaxlength (migrate_fieldType f) = fieldValidateRulesMaxlength f"
  "fieldValidateRulesMinlength (migrate_fieldType f) = fieldValidateRulesMinlength f"
  "fieldValidateRulesMaxbytes (migrate_fieldType f) = fieldValidateRulesMaxbytes f"
  "fieldValidateRulesMinbytes (migrate_fieldType f) = fieldValidateRulesMinbytes f"
  "fieldValidateRulesPattern (migrate_fieldType f) = fieldValidateRulesPattern f"
  "field_validation (migrate_fieldType f) = field_validation f"
  "options_fieldNameHumanized (migrate_fieldType f) = options_fieldNameHumanized f"
  "enumInstance (migrate_fieldType f) = enumInstance f"
  "fieldTypeBlobContent (migrate_fieldType f) = fieldTypeBlobContent f"
  "fieldIsEnum (migrate_fieldType f) = fieldIsEnum f"
  "fieldNameCapitalized (migrate_fieldType f) = fieldNameCapitalized f"
  "fieldNameUnderscored (migrate_fieldType f) = fieldNameUnderscored f"
  "fieldNameAsDatabaseColumn (migrate_fieldType f) = fieldNameAsDatabaseColumn f"
  "fieldNameHumanized (migrate_fieldType f) = fieldNameHumanized f"
  "fieldInJavaBeanMethod (migrate_fieldType f) = fieldInJavaBeanMethod f"
  "fieldValidateRulesPatternJava (migrate_fieldType f) = fieldValidateRulesPatternJava f"
  "fieldValidateRulesPatternAngular (migrate_fieldType f) = fieldValidateRulesPatternAngular f"
  "fieldValidateRulesPatternReact (migrate_fieldType f) = fieldValidateRulesPatternReact f"
  "fieldValidate (migrate_fieldType f) = fieldValidate f"
  by (simp_all add: migrate_fieldType_def)

lemma set_fieldIsEnum_frame [simp]:
  "fieldName (set_fieldIsEnum f) = fieldName f"
  "fieldType (set_fieldIsEnum f) = fieldType f"
  "fieldValidateRules (set_fieldIsEnum f) = fieldValidateRules f"
  "fieldValidateRulesMax (set_fieldIsEnum f) = fieldValidateRulesMax f"
  "fieldValidateRulesMin (set_fieldIsEnum f) = fieldValidateRulesMin f"
  "fieldValidateRulesMaxlength (set_fieldIsEnum f) = fieldValidateRulesMaxlength f"
  "fieldValidateRulesMinlength (set_fieldIsEnum f) = fieldValidateRulesMinlength f"
  "fieldValidateRulesMaxbytes (set_fieldIsEnum f) = fieldValidateRulesMaxbytes f"
  "fieldValidateRulesMinbytes (set_fieldIsEnum f) = fieldValidateRulesMinbytes f"
  "fieldValidateRulesPattern (set_fieldIsEnum f) = fieldValidateRulesPattern f"
  "field_validation (set_fieldIsEnum f) = field_validation f"
  "options_fieldNameHumanized (set_fieldIsEnum f) = options_fieldNameHumanized f"
  "enumInstance (set_fieldIsEnum f) = enumInstance f"
  "fieldTypeBlobContent (set_fieldIsEnum f) = fieldTypeBlobContent f"
  "fieldNameCapitalized (set_fieldIsEnum f) = fieldNameCapitalized f"
  "fieldNameUnderscored (set_fieldIsEnum f) = fieldNameUnderscored f"
  "fieldNameAsDatabaseColumn (set_fieldIsEnum f) = fieldNameAsDatabaseColumn f"
  "fieldNameHumanized (set_fieldIsEnum f) = fieldNameHumanized f"
  "fieldInJavaBeanMethod (set_fieldIsEnum f) = fieldInJavaBeanMethod f"
  "fieldValidateRulesPatternJava (set_fieldIsEnum f) = fieldValidateRulesPatternJava f"
  "fieldValidateRulesPatternAngular (set_fieldIsEnum f) = fieldValidateRulesPatternAngular f"
  "fieldValidateRulesPatternReact (set_fieldIsEnum f) = fieldValidateRulesPatternReact f"
  "fieldValidate (set_fieldIsEnum f) = fieldValidate f"
  by (simp_all add: set_fieldIsEnum_def)

lemma set_fieldNameCapitalized_frame [simp]:
  "fieldName (set_fieldNameCapitalized f) = fieldName f"
  "fieldType (set_fieldNameCapitalized f) = fieldType f"
  "fieldValidateRules (set_fieldNameCapitalized f) = fieldValidateRules f"
  "fieldValidateRulesMax (set_fieldNameCapitalized f) = fieldValidateRulesMax f"
  "fieldValidateRulesMin (set_fieldNameCapitalized f) = fieldValidateRulesMin f"
  "fieldValidateRulesMaxlength (set_fieldNameCapitalized f) = fieldValidateRulesMaxlength f"
  "fieldValidateRulesMinlength (set_fieldNameCapitalized f) = fieldValidateRulesMinlength f"
  "fieldValidateRulesMaxbytes (set_fieldNameCapitalized f) = fieldValidateRulesMaxbytes f"
  "fieldValidateRulesMinbytes (set_fieldNameCapitalized f) = fieldValidateRulesMinbytes f"
  "fieldValidateRulesPattern (set_fieldNameCapitalized f) = fieldValidateRulesPattern f"
  "field_validation (set_fieldNameCapitalized f) = field_validation f"
  "options_fieldNameHumanized (set_fieldNameCapitalized f) = options_fieldNameHumanized f"
  "enumInstance (set_fieldNameCapitalized f) = enumInstance f"
  "fieldTypeBlobContent (set_fieldNameCapitalized f) = fieldTypeBlobContent f"
  "fieldIsEnum (set_fieldNameCapitalized f) = fieldIsEnum f"
  "fieldNameUnderscored (set_fieldNameCapitalized f) = fieldNameUnderscored f"
  "fieldNameAsDatabaseColumn (set_fieldNameCapitalized f) = fieldNameAsDatabaseColumn f"
  "fieldNameHumanized (set_fieldNameCapitalized f) = fieldNameHumanized f"
  "fieldInJavaBeanMethod (set_fieldNameCapitalized f) = fieldInJavaBeanMethod f"
  "fieldValidateRulesPatternJava (set_fieldNameCapitalized f) = fieldValidateRulesPatternJava f"
  "fieldValidateRulesPatternAngular (set_fieldNameCapitalized f) = fieldValidateRulesPatternAngular f"
  "fieldValidateRulesPatternReact (set_fieldNameCapitalized f) = fieldValidateRulesPatternReact f"
  "fieldValidate (set_fieldNameCapitalized f) = fieldValidate f"
  by (simp_all add: set_fieldNameCapitalized_def)

lemma set_fieldNameUnderscored_frame [simp]:
  "fieldName (set_fieldNameUnderscored e f) = fieldName f"
  "fieldType (set_fieldNameUnderscored e f) = fieldType f"
  "fieldValidateRules (set_fieldNameUnderscored e f) = fieldValidateRules f"
  "fieldValidateRulesMax (set_fieldNameUnderscored e f) = fieldValidateRulesMax f"
  "fieldValidateRulesMin (set_fieldNameUnderscored e f) = fieldValidateRulesMin f"
  "fieldValidateRulesMaxlength (set_fieldNameUnderscored e f) = fieldValidateRulesMaxlength f"
  "fieldValidateRulesMinlength (set_fieldNameUnderscored e f) = fieldValidateRulesMinlength f"
  "fieldValidateRulesMaxbytes (set_fieldNameUnderscored e f) = fieldValidateRulesMaxbytes f"
  "fieldValidateRulesMinbytes (set_fieldNameUnderscored e f) = fieldValidateRulesMinbytes f"
  "fieldValidateRulesPattern (set_fieldNameUnderscored e f) = fieldValidateRulesPattern f"
  "field_validation (set_fieldNameUnderscored e f) = field_validation f"
  "options_fieldNameHumanized (set_fieldNameUnderscored e f) = options_fieldNameHumanized f"
  "enumInstance (set_fieldNameUnderscored e f) = enumInstance f"
  "fieldTypeBlobContent (set_fieldNameUnderscored e f) = fieldTypeBlobContent f"
  "fieldIsEnum (set_fieldNameUnderscored e f) = fieldIsEnum f"
  "fieldNameCapitalized (set_fieldNameUnderscored e f) = fieldNameCapitalized f"
  "fieldNameAsDatabaseColumn (set_fieldNameUnderscored e f) = fieldNameAsDatabaseColumn f"
  "fieldNameHumanized (set_fieldNameUnderscored e f) = fieldNameHumanized f"
  "fieldInJavaBeanMethod (set_fieldNameUnderscored e f) = fieldInJavaBeanMethod f"
  "fieldValidateRulesPatternJava (set_fieldNameUnderscored e f) = fieldValidateRulesPatternJava f"
  "fieldValidateRulesPatternAngular (set_fieldNameUnderscored e f) = fieldValidateRulesPatternAngular f"
  "fieldValidateRulesPatternReact (set_fieldNameUnderscored e f) = fieldValidateRulesPatternReact f"
  "fieldValidate (set_fieldNameUnderscored e f) = fieldValidate f"
  by (simp_all add: set_fieldNameUnderscored_def)

lemma set_fieldNameHumanized_frame [simp]:
  "fieldName (set_fieldNameHumanized e f) = fieldName f"
  "fieldType (set_fieldNameHumanized e f) = fieldType f"
  "fieldValidateRules (set_fieldNameHumanized e f) = fieldValidateRules f"
  "fieldValidateRulesMax (set_fieldNameHumanized e f) = fieldValidateRulesMax f"
  "fieldValidateRulesMin (set_fieldNameHumanized e f) = fieldValidateRulesMin f"
  "fieldValidateRulesMaxlength (set_fieldNameHumanized e f) = fieldValidateRulesMaxlength f"
  "fieldValidateRulesMinlength (set_fieldNameHumanized e f) = fieldValidateRulesMinlength f"
  "fieldValidateRulesMaxbytes (set_fieldNameHumanized e f) = fieldValidateRulesMaxbytes f"
  "fieldValidateRulesMinbytes (set_fieldNameHumanized e f) = fieldValidateRulesMinbytes f"
  "fieldValidateRulesPattern (set_fieldNameHumanized e f) = fieldValidateRulesPattern f"
  "field_validation (set_fieldNameHumanized e f) = field_validation f"
  "options_fieldNameHumanized (set_fieldNameHumanized e f) = options_fieldNameHumanized f"
  "enumInstance (set_fieldNameHumanized e f) = enumInstance f"
  "fieldTypeBlobContent (set_fieldNameHumanized e f) = fieldTypeBlobContent f"
  "fieldIsEnum (set_fieldNameHumanized e f) = fieldIsEnum f"
  "fieldNameCapitalized (set_fieldNameHumanized e f) = fieldNameCapitalized f"
  "fieldNameUnderscored (set_fieldNameHumanized e f) = fieldNameUnderscored f"
  "fieldNameAsDatabaseColumn (set_fieldNameHumanized e f) = fieldNameAsDatabaseColumn f"
  "fieldInJavaBeanMethod (set_fieldNameHumanized e f) = fieldInJavaBeanMethod f"
  "fieldValidateRulesPatternJava (set_fieldNameHumanized e f) = fieldValidateRulesPatternJava f"
  "fieldValidateRulesPatternAngular (set_fieldNameHumanized e f) = fieldValidateRulesPatternAngular f"
  "fieldValidateRulesPatternReact (set_fieldNameHumanized e f) = fieldValidateRulesPatternReact f"
  "fieldValidate (set_fieldNameHumanized e f) = fieldValidate f"
  by (simp_all add: set_fieldNameHumanized_def)

lemma set_fieldValidateRulesPatternJava_frame [simp]:
  "fieldName (set_fieldValidateRulesPatternJava f) = fieldName f"
  "fieldType (set_fieldValidateRulesPatternJava f) = fieldType f"
  "fieldValidateRules (set_fieldValidateRulesPatternJava f) = fieldValidateRules f"
  "fieldValidateRulesMax (set_fieldValidateRulesPatternJava f) = fieldValidateRulesMax f"
  "fieldValidateRulesMin (set_fieldValidateRulesPatternJava f) = fieldValidateRulesMin f"
  "fieldValidateRulesMaxlength (set_fieldValidateRulesPatternJava f) = fieldValidateRulesMaxlength f"
  "fieldValidateRulesMinlength (set_fieldValidateRulesPatternJava f) = fieldValidateRulesMinlength f"
  "fieldValidateRulesMaxbytes (set_fieldValidateRulesPatternJava f) = fieldValidateRulesMaxbytes f"
  "fieldValidateRulesMinbytes (set_fieldValidateRulesPatternJava f) = fieldValidateRulesMinbytes f"
  "fieldValidateRulesPattern (set_fieldValidateRulesPatternJava f) = fieldValidateRulesPattern f"
  "field_validation (set_fieldValidateRulesPatternJava f) = field_validation f"
  "options_fieldNameHumanized (set_fieldValidateRulesPatternJava f) = options_fieldNameHumanized f"
  "enumInstance (set_fieldValidateRulesPatternJava f) = enumInstance f"
  "fieldTypeBlobContent (set_fieldValidateRulesPatternJava f) = fieldTypeBlobContent f"
  "fieldIsEnum (set_fieldValidateRulesPatternJava f) = fieldIsEnum f"
  "fieldNameCapitalized (set_fieldValidateRulesPatternJava f) = fieldNameCapitalized f"
  "fieldNameUnderscored (set_fieldValidateRulesPatternJava f) = fieldNameUnderscored f"
  "fieldNameAsDatabaseColumn (set_fieldValidateRulesPatternJava f) = fieldNameAsDatabaseColumn f"
  "fieldNameHumanized (set_fieldValidateRulesPatternJava f) = fieldNameHumanized f"
  "fieldInJavaBeanMethod (set_fieldValidateRulesPatternJava f) = fieldInJavaBeanMethod f"
  "fieldValidateRulesPatternAngular (set_fieldValidateRulesPatternJava f) = fieldValidateRulesPatternAngular f"
  "fieldValidateRulesPatternReact (set_fieldValidateRulesPatternJava f) = fieldValidateRulesPatternReact f"
  "fieldValidate (set_fieldValidateRulesPatternJava f) = fieldValidate f"
  by (simp_all add: set_fieldValidateRulesPatternJava_def)

lemma set_fieldValidateRulesPatternAngular_frame [simp]:
  "fieldName (set_fieldValidateRulesPatternAngular f) = fieldName f"
  "fieldType (set_fieldValidateRulesPatternAngular f) = fieldType f"
  "fieldValidateRules (set_fieldValidateRulesPatternAngular f) = fieldValidateRules f"
  "fieldValidateRulesMax (set_fieldValidateRulesPatternAngular f) = fieldValidateRulesMax f"
  "fieldValidateRulesMin (set_fieldValidateRulesPatternAngular f) = fieldValidateRulesMin f"
  "fieldValidateRulesMaxlength (set_fieldValidateRulesPatternAngular f) = fieldValidateRulesMaxlength f"
  "fieldValidateRulesMinlength (set_fieldValidateRulesPatternAngular f) = fieldValidateRulesMinlength f"
  "fieldValidateRulesMaxbytes (set_fieldValidateRulesPatternAngular f) = fieldValidateRulesMaxbytes f"
  "fieldValidateRulesMinbytes (set_fieldValidateRulesPatternAngular f) = fieldValidateRulesMinbytes f"
  "fieldValidateRulesPattern (set_fieldValidateRulesPatternAngular f) = fieldValidateRulesPattern f"
  "field_validation (set_fieldValidateRulesPatternAngular f) = field_validation f"
  "options_fieldNameHumanized (set_fieldValidateRulesPatternAngular f) = options_fieldNameHumanized f"
  "enumInstance (set_fieldValidateRulesPatternAngular f) = enumInstance f"
  "fieldTypeBlobContent (set_fieldValidateRulesPatternAngular f) = fieldTypeBlobContent f"
  "fieldIsEnum (set_fieldValidateRulesPatternAngular f) = fieldIsEnum f"
  "fieldNameCapitalized (set_fieldValidateRulesPatternAngular f) = fieldNameCapitalized f"
  "fieldNameUnderscored (set_fieldValidateRulesPatternAngular f) = fieldNameUnderscored f"
  "fieldNameAsDatabaseColumn (set_fieldValidateRulesPatternAngular f) = fieldNameAsDatabaseColumn f"
  "fieldNameHumanized (set_fieldValidateRulesPatternAngular f) = fieldNameHumanized f"
  "fieldInJavaBeanMethod (set_fieldValidateRulesPatternAngular f) = fieldInJavaBeanMethod f"
  "fieldValidateRulesPatternJava (set_fieldValidateRulesPatternAngular f) = fieldValidateRulesPatternJava f"
  "fieldValidateRulesPatternReact (set_fieldValidateRulesPatternAngular f) = fieldValidateRulesPatternReact f"
  "fieldValidate (set_fieldValidateRulesPatternAngular f) = fieldValidate f"
  by (simp_all add: set_fieldValidateRulesPatternAngular_def)

lemma set_fieldValidateRulesPatternReact_frame [simp]:
  "fieldName (set_fieldValidateRulesPatternReact f) = fieldName f"
  "fieldType (set_fieldValidateRulesPatternReact f) = fieldType f"
  "fieldValidateRules (set_fieldValidateRulesPatternReact f) = fieldValidateRules f"
  "fieldValidateRulesMax (set_fieldValidateRulesPatternReact f) = fieldValidateRulesMax f"
  "fieldValidateRulesMin (set_fieldValidateRulesPatternReact f) = fieldValidateRulesMin f"
  "fieldValidateRulesMaxlength (set_fieldValidateRulesPatternReact f) = fieldValidateRulesMaxlength f"
  "fieldValidateRulesMinlength (set_fieldValidateRulesPatternReact f) = fieldValidateRulesMinlength f"
  "fieldValidateRulesMaxbytes (set_fieldValidateRulesPatternReact f) = fieldValidateRulesMaxbytes f"
  "fieldValidateRulesMinbytes (set_fieldValidateRulesPatternReact f) = fieldValidateRulesMinbytes f"
  "fieldValidateRulesPattern (set_fieldValidateRulesPatternReact f) = fieldValidateRulesPattern f"
  "field_validation (set_fieldValidateRulesPatternReact f) = field_validation f"
  "options_fieldNameHumanized (set_fieldValidateRulesPatternReact f) = options_fieldNameHumanized f"
  "enumInstance (set_fieldValidateRulesPatternReact f) = enumInstance f"
  "fieldTypeBlobContent (set_fieldValidateRulesPatternReact f) = fieldTypeBlobContent f"
  "fieldIsEnum (set_fieldValidateRulesPatternReact f) = fieldIsEnum f"
  "fieldNameCapitalized (set_fieldValidateRulesPatternReact f) = fieldNameCapitalized f"
  "fieldNameUnderscored (set_fieldValidateRulesPatternReact f) = fieldNameUnderscored f"
  "fieldNameAsDatabaseColumn (set_fieldValidateRulesPatternReact f) = fieldNameAsDatabaseColumn f"
  "fieldNameHumanized (set_fieldValidateRulesPatternReact f) = fieldNameHumanized f"
  "fieldInJavaBeanMethod (set_fieldValidateRulesPatternReact f) = fieldInJavaBeanMethod f"
  "fieldValidateRulesPatternJava (set_fieldValidateRulesPatternReact f) = fieldValidateRulesPatternJava f"
  "fieldValidateRulesPatternAngular (set_fieldValidateRulesPatternReact f) = fieldValidateRulesPatternAngular f"
  "fieldValidate (set_fieldValidateRulesPatternReact f) = fieldValidate f"
  by (simp_all add: set_fieldValidateRulesPatternReact_def)

lemma set_fieldValidate_frame [simp]:
  "fieldName (set_fieldValidate f) = fieldName f"
  "fieldType (set_fieldValidate f) = fieldType f"
  "fieldValidateRules (set_fieldValidate f) = fieldValidateRules f"
  "fieldValidateRulesMax (set_fieldValidate f) = fieldValidateRulesMax f"
  "fieldValidateRulesMin (set_fieldValidate f) = fieldValidateRulesMin f"
  "fieldValidateRulesMaxlength (set_fieldValidate f) = fieldValidateRulesMaxlength f"
  "fieldValidateRulesMinlength (set_fieldValidate f) = fieldValidateRulesMinlength f"
  "fieldValidateRulesMaxbytes (set_fieldValidate f) = fieldValidateRulesMaxbytes f"
  "fieldValidateRulesMinbytes (set_fieldValidate f) = fieldValidateRulesMinbytes f"
  "fieldValidateRulesPattern (set_fieldValidate f) = fieldValidateRulesPattern f"
  "field_validation (set_fieldValidate f) = field_validation f"
  "options_fieldNameHumanized (set_fieldValidate f) = options_fieldNameHumanized f"
  "enumInstance (set_fieldValidate f) = enumInstance f"
  "fieldTypeBlobContent (set_fieldValidate f) = fieldTypeBlobContent f"
  "fieldIsEnum (set_fieldValidate f) = fieldIsEnum f"
  "fieldNameCapitalized (set_fieldValidate f) = fieldNameCapitalized f"
  "fieldNameUnderscored (set_fieldValidate f) = fieldNameUnderscored f"
  "fieldNameAsDatabaseColumn (set_fieldValidate f) = fieldNameAsDatabaseColumn f"
  "fieldNameHumanized (set_fieldValidate f) = fieldNameHumanized f"
  "fieldInJavaBeanMethod (set_fieldValidate f) = fieldInJavaBeanMethod f"
  "fieldValidateRulesPatternJava (set_fieldValidate f) = fieldValidateRulesPatternJava f"
  "fieldValidateRulesPatternAngular (set_fieldValidate f) = fieldValidateRulesPatternAngular f"
  "fieldValidateRulesPatternReact (set_fieldValidate f) = fieldValidateRulesPatternReact f"
  by (simp_all add: set_fieldValidate_def)

lemma set_fieldNameAsDatabaseColumn_frame [simp]:
  "fieldName (snd (set_fieldNameAsDatabaseColumn e ctx f)) = fieldName f"
  "fieldType (snd (set_fieldNameAsDatabaseColumn e ctx f)) = fieldType f"
  "fieldValidateRules (snd (set_fieldNameAsDatabaseColumn e ctx f)) = fieldValidateRules f"
  "fieldValidateRulesMax (snd (set_fieldNameAsDatabaseColumn e ctx f)) = fieldValidateRulesMax f"
  "fieldValidateRulesMin (snd (set_fieldNameAsDatabaseColumn e ctx f)) = fieldValidateRulesMin f"
  "fieldValidateRulesMaxlength (snd (set_fieldNameAsDatabaseColumn e ctx f)) = fieldValidateRulesMaxlength f"
  "fieldValidateRulesMinlength (snd (set_fieldNameAsDatabaseColumn e ctx f)) = fieldValidateRulesMinlength f"
  "fieldValidateRulesMaxbytes (snd (set_fieldNameAsDatabaseColumn e ctx f)) = fieldValidateRulesMaxbytes f"
  "fieldValidateRulesMinbytes (snd (set_fieldNameAsDatabaseColumn e ctx f)) = fieldValidateRulesMinbytes f"
  "fieldValidateRulesPattern (snd (set_fieldNameAsDatabaseColumn e ctx f)) = fieldValidateRulesPattern f"
  "field_validation (snd (set_fieldNameAsDatabaseColumn e ctx f)) = field_validation f"
  "options_fieldNameHumanized (snd (set_fieldNameAsDatabaseColumn e ctx f)) = options_fieldNameHumanized f"
  "enumInstance (snd (set_fieldNameAsDatabaseColumn e ctx f)) = enumInstance f"
  "fieldTypeBlobContent (snd (set_fieldNameAsDatabaseColumn e ctx f)) = fieldTypeBlobContent f"
  "fieldIsEnum (snd (set_fieldNameAsDatabaseColumn e ctx f)) = fieldIsEnum f"
  "fieldNameCapitalized (snd (set_fieldNameAsDatabaseColumn e ctx f)) = fieldNameCapitalized f"
  "fieldNameUnderscored (snd (set_fieldNameAsDatabaseColumn e ctx f)) = fieldNameUnderscored f"
  "fieldNameHumanized (snd (set_fieldNameAsDatabaseColumn e ctx f)) = fieldNameHumanized f"
  "fieldInJavaBeanMethod (snd (set_fieldNameAsDatabaseColumn e ctx f)) = fieldInJavaBeanMethod f"
  "fieldValidateRulesPatternJava (snd (set_fieldNameAsDatabaseColumn e ctx f)) = fieldValidateRulesPatternJava f"
  "fieldValidateRulesPatternAngular (snd (set_fieldNameAsDatabaseColumn e ctx f)) = fieldValidateRulesPatternAngular f"
  "fieldValidateRulesPatternReact (snd (set_fieldNameAsDatabaseColumn e ctx f)) = fieldValidateRulesPatternReact f"
  "fieldValidate (snd (set_fieldNameAsDatabaseColumn e ctx f)) = fieldValidate f"
  by (simp_all add: set_fieldNameAsDatabaseColumn_def Let_def)

lemma set_fieldInJavaBeanMethod_frame:
  assumes "set_fieldInJavaBeanMethod f = Inr g"
  shows "fieldName g = fieldName f"
    "fieldType g = fieldType f"
    "fieldValidateRules g = fieldValidateRules f"
    "fieldValidateRulesMax g = fieldValidateRulesMax f"
    "fieldValidateRulesMin g = fieldValidateRulesMin f"
    "fieldValidateRulesMaxlength g = fieldValidateRulesMaxlength f"
    "fieldValidateRulesMinlength g = fieldValidateRulesMinlength f"
    "fieldValidateRulesMaxbytes g = fieldValidateRulesMaxbytes f"
    "fieldValidateRulesMinbytes g = fieldValidateRulesMinbytes f"
    "fieldValidateRulesPattern g = fieldValidateRulesPattern f"
    "field_validation g = field_validation f"
    "options_fieldNameHumanized g = options_fieldNameHumanized f"
    "enumInstance g = enumInstance f"
    "fieldTypeBlobContent g = fieldTypeBlobContent f"
    "fieldIsEnum g = fieldIsEnum f"
    "fieldNameCapitalized g = fieldNameCapitalized f"
    "fieldNameUnderscored g = fieldNameUnderscored f"
    "fieldNameAsDatabaseColumn g = fieldNameAsDatabaseColumn f"
    "fieldNameHumanized g = fieldNameHumanized f"
    "fieldValidateRulesPatternJava g = fieldValidateRulesPatternJava f"
    "fieldValidateRulesPatternAngular g = fieldValidateRulesPatternAngular f"
    "fieldValidateRulesPatternReact g = fieldValidateRulesPatternReact f"
    "fieldValidate g = fieldValidate f"
  using assms by (auto simp: set_fieldInJavaBeanMethod_def Let_def split: if_splits option.splits)


lemma migrate_fieldType_value:
  "fieldType (migrate_fieldType f) =
     (if fieldType f = Some ''DateTime'' \<or> fieldType f = Some ''Date''
      then Some ''Instant'' else fieldType f)"
  by (simp add: migrate_fieldType_def)

lemma set_fieldIsEnum_value:
  "fieldIsEnum (set_fieldIsEnum f) = Some (fieldType f \<notin> Some ` set primitive_types)"
  by (simp add: set_fieldIsEnum_def)

lemma set_fieldNameCapitalized_defined:
  "fieldNameCapitalized (set_fieldNameCapitalized f) \<noteq> None"
  by (simp add: set_fieldNameCapitalized_def)

lemma set_fieldNameUnderscored_defined:
  "fieldNameUnderscored (set_fieldNameUnderscored e f) \<noteq> None"
  by (simp add: set_fieldNameUnderscored_def)

lemma set_fieldNameAsDatabaseColumn_defined:
  "fieldNameAsDatabaseColumn (snd (set_fieldNameAsDatabaseColumn e ctx f)) \<noteq> None"
  by (simp add: set_fieldNameAsDatabaseColumn_def Let_def)

lemma or_else_Some: "or_else a (Some b) \<noteq> None"
  by (cases a) (simp_all add: or_else_def truthy_def)

lemma set_fieldNameHumanized_defined:
  "fieldNameHumanized (set_fieldNameHumanized e f) \<noteq> None"
  using or_else_Some by (simp add: set_fieldNameHumanized_def)

lemma set_fieldInJavaBeanMethod_defined:
  "set_fieldInJavaBeanMethod f = Inr g \<Longrightarrow> fieldInJavaBeanMethod g \<noteq> None"
  by (auto simp: set_fieldInJavaBeanMethod_def Let_def split: if_splits option.splits)

lemma set_fieldInJavaBeanMethod_total:
  "fieldName f \<noteq> None \<Longrightarrow> \<exists>g. set_fieldInJavaBeanMethod f = Inr g"
  by (auto simp: set_fieldInJavaBeanMethod_def Let_def split: if_splits option.splits)

lemma set_fieldValidateRulesPatternJava_undefined:
  "fieldValidateRulesPatternJava (set_fieldValidateRulesPatternJava f) = None
     \<Longrightarrow> fieldValidateRulesPattern f = None"
  by (auto simp: set_fieldValidateRulesPatternJava_def split: if_splits)

lemma set_fieldValidateRulesPatternAngular_undefined:
  "fieldValidateRulesPatternAngular (set_fieldValidateRulesPatternAngular f) = None
     \<Longrightarrow> fieldValidateRulesPattern f = None"
  by (auto simp: set_fieldValidateRulesPatternAngular_def split: if_splits)

lemma set_fieldValidateRulesPatternReact_undefined:
  "fieldValidateRulesPatternReact (set_fieldValidateRulesPatternReact f) = None
     \<Longrightarrow> fieldValidateRulesPattern f = None"
  by (auto simp: set_fieldValidateRulesPatternReact_def split: if_splits)

lemma set_fieldValidate_value:
  "fieldValidate (set_fieldValidate f) =
     Some (case fieldValidateRules f of Some (Arr rs) \<Rightarrow> length rs \<ge> 1 | _ \<Rightarrow> False)"
  by (simp add: set_fieldValidate_def)

text \<open>The attribute that each setter writes.\<close>

lemma normalize_field_cases:
  assumes "normalize_field e ctx field = Inr (ws, g)"
  obtains f1 f2 where
    "f1 = snd (set_fieldNameAsDatabaseColumn e ctx
             (set_fieldNameUnderscored e (set_fieldNameCapitalized
                (set_fieldIsEnum (migrate_fieldType field)))))"
    "ws = fst (set_fieldNameAsDatabaseColumn e ctx
             (set_fieldNameUnderscored e (set_fieldNameCapitalized
                (set_fieldIsEnum (migrate_fieldType field)))))"
    "set_fieldInJavaBeanMethod (set_fieldNameHumanized e f1) = Inr f2"
    "g = set_fieldValidate (set_fieldValidateRulesPatternReact
           (set_fieldValidateRulesPatternAngular (set_fieldValidateRulesPatternJava f2)))"
  using assms
  by (auto simp: normalize_field_def split: prod.splits sum.splits)

lemma normalize_field_derived:
  assumes "normalize_field e ctx field = Inr (ws, g)"
  shows "derived_present g"
proof -
  from assms obtain f1 f2 where
    f1: "f1 = snd (set_fieldNameAsDatabaseColumn e ctx
             (set_fieldNameUnderscored e (set_fieldNameCapitalized
                (set_fieldIsEnum (migrate_fieldType field)))))"
    and f2: "set_fieldInJavaBeanMethod (set_fieldNameHumanized e f1) = Inr f2"
    and g: "g = set_fieldValidate (set_fieldValidateRulesPatternReact
           (set_fieldValidateRulesPatternAngular (set_fieldValidateRulesPatternJava f2)))"
    by (rule normalize_field_cases)
  note fr = set_fieldInJavaBeanMethod_frame [OF f2]
  have ty: "fieldType g = fieldType (migrate_fieldType field)"
    by (simp add: g fr f1)
  have t1: "fieldType g \<noteq> Some ''DateTime''" and t2: "fieldType g \<noteq> Some ''Date''"
    by (simp_all add: ty migrate_fieldType_value)
  have en: "fieldIsEnum g = Some (fieldType g \<notin> Some ` set primitive_types)"
    by (simp add: g fr f1 set_fieldIsEnum_value)
  have cap: "fieldNameCapitalized g \<noteq> None"
    by (simp del: not_None_eq add: g fr f1 set_fieldNameCapitalized_defined)
  have und: "fieldNameUnderscored g \<noteq> None"
    by (simp del: not_None_eq add: g fr f1 set_fieldNameUnderscored_defined)
  have col: "fieldNameAsDatabaseColumn g \<noteq> None"
    by (simp del: not_None_eq add: g fr f1 set_fieldNameAsDatabaseColumn_defined)
  have hum: "fieldNameHumanized g \<noteq> None"
    by (simp del: not_None_eq add: g fr set_fieldNameHumanized_defined)
  have bean: "fieldInJavaBeanMethod g \<noteq> None"
    using set_fieldInJavaBeanMethod_defined [OF f2] by (simp del: not_None_eq add: g)
  have pj: "fieldValidateRulesPatternJava g = None \<longrightarrow> fieldValidateRulesPattern g = None"
    using set_fieldValidateRulesPatternJava_undefined [of f2] by (simp add: g)
  have pa: "fieldValidateRulesPatternAngular g = None \<longrightarrow> fieldValidateRulesPattern g = None"
    using set_fieldValidateRulesPatternAngular_undefined [of "set_fieldValidateRulesPatternJava f2"]
    by (simp add: g)
  have pr: "fieldValidateRulesPatternReact g = None \<longrightarrow> fieldValidateRulesPattern g = None"
    using set_fieldValidateRulesPatternReact_undefined
      [of "set_fieldValidateRulesPatternAngular (set_fieldValidateRulesPatternJava f2)"]
    by (simp add: g)
  have va: "fieldValidate g =
      Some (case fieldValidateRules g of Some (Arr rs) \<Rightarrow> length rs \<ge> 1 | _ \<Rightarrow> False)"
    by (simp add: g set_fieldValidate_value)
  show ?thesis
    unfolding derived_present_def
    using t1 t2 en cap und col hum bean pj pa pr va by blast
qed

lemma update_same:
  "fieldIsEnum g = v \<Longrightarrow> g\<lparr>fieldIsEnum := v\<rparr> = g"
  "fieldValidate g = w \<Longrightarrow> g\<lparr>fieldValidate := w\<rparr> = g"
  "fieldValidateRulesPatternJava g = p \<Longrightarrow> g\<lparr>fieldValidateRulesPatternJava := p\<rparr> = g"
  "fieldValidateRulesPatternAngular g = p \<Longrightarrow> g\<lparr>fieldValidateRulesPatternAngular := p\<rparr> = g"
  "fieldValidateRulesPatternReact g = p \<Longrightarrow> g\<lparr>fieldValidateRulesPatternReact := p\<rparr> = g"
  by simp_all

lemma derived_fixed:
  assumes "derived_present g"
  shows "normalize_field e ctx g = Inr ([], g)"
proof -
  note d = assms [unfolded derived_present_def]
  have 1: "migrate_fieldType g = g"
    using d by (simp add: migrate_fieldType_def)
  have 2: "set_fieldIsEnum g = g"
    using d by (simp add: set_fieldIsEnum_def update_same)
  have 3: "set_fieldNameCapitalized g = g"
    using d by (simp del: not_None_eq add: set_fieldNameCapitalized_def)
  have 4: "set_fieldNameUnderscored e g = g"
    using d by (simp del: not_None_eq add: set_fieldNameUnderscored_def)
  have 5: "set_fieldNameAsDatabaseColumn e ctx g = ([], g)"
    using d by (simp del: not_None_eq add: set_fieldNameAsDatabaseColumn_def)
  have 6: "set_fieldNameHumanized e g = g"
    using d by (simp del: not_None_eq add: set_fieldNameHumanized_def)
  have 7: "set_fieldInJavaBeanMethod g = Inr g"
    using d by (simp del: not_None_eq add: set_fieldInJavaBeanMethod_def)
  have 8: "set_fieldValidateRulesPatternJava g = g"
    using d
    by (simp del: not_None_eq add: set_fieldValidateRulesPatternJava_def truthy_def update_same)
  have 9: "set_fieldValidateRulesPatternAngular g = g"
    using d
    by (simp del: not_None_eq add: set_fieldValidateRulesPatternAngular_def truthy_def update_same)
  have 10: "set_fieldValidateRulesPatternReact g = g"
    using d
    by (simp del: not_None_eq add: set_fieldValidateRulesPatternReact_def truthy_def update_same)
  have 11: "set_fieldValidate g = g"
    using d by (simp add: set_fieldValidate_def update_same)
  show ?thesis
    by (simp add: normalize_field_def 1 2 3 4 5 6 7 8 9 10 11)
qed


text \<open>A setter of a derived name leaves a field that has the name already.\<close>

lemma set_fieldNameCapitalized_kept:
  "fieldNameCapitalized f \<noteq> None \<Longrightarrow> set_fieldNameCapitalized f = f"
  by (simp del: not_None_eq add: set_fieldNameCapitalized_def)

lemma set_fieldNameUnderscored_kept:
  "fieldNameUnderscored f \<noteq> None \<Longrightarrow> set_fieldNameUnderscored e f = f"
  by (simp del: not_None_eq add: set_fieldNameUnderscored_def)

lemma set_fieldNameAsDatabaseColumn_kept:
  "fieldNameAsDatabaseColumn f \<noteq> None \<Longrightarrow> set_fieldNameAsDatabaseColumn e ctx f = ([], f)"
  by (simp del: not_None_eq add: set_fieldNameAsDatabaseColumn_def)

lemma set_fieldNameHumanized_kept:
  "fieldNameHumanized f \<noteq> None \<Longrightarrow> set_fieldNameHumanized e f = f"
  by (simp del: not_None_eq add: set_fieldNameHumanized_def)

lemma set_fieldInJavaBeanMethod_kept:
  "fieldInJavaBeanMethod f \<noteq> None \<Longrightarrow> set_fieldInJavaBeanMethod f = Inr f"
  by (simp del: not_None_eq add: set_fieldInJavaBeanMethod_def)

lemma set_fieldValidateRulesPatternJava_kept:
  "fieldValidateRulesPatternJava f \<noteq> None \<Longrightarrow> set_fieldValidateRulesPatternJava f = f"
  by (simp del: not_None_eq add: set_fieldValidateRulesPatternJava_def)

lemma set_fieldValidateRulesPatternAngular_kept:
  "fieldValidateRulesPatternAngular f \<noteq> None \<Longrightarrow> set_fieldValidateRulesPatternAngular f = f"
  by (simp del: not_None_eq add: set_fieldValidateRulesPatternAngular_def)

lemma set_fieldValidateRulesPatternReact_kept:
  "fieldValidateRulesPatternReact f \<noteq> None \<Longrightarrow> set_fieldValidateRulesPatternReact f = f"
  by (simp del: not_None_eq add: set_fieldValidateRulesPatternReact_def)

lemma normalize_field_keeps:
  assumes "normalize_field e ctx field = Inr (ws, g)"
  shows "fieldNameCapitalized field \<noteq> None \<longrightarrow> fieldNameCapitalized g = fieldNameCapitalized field"
    and "fieldNameUnderscored field \<noteq> None \<longrightarrow> fieldNameUnderscored g = fieldNameUnderscored field"
    and "fieldNameAsDatabaseColumn field \<noteq> None
           \<longrightarrow> fieldNameAsDatabaseColumn g = fieldNameAsDatabaseColumn field"
    and "fieldNameHumanized field \<noteq> None \<longrightarrow> fieldNameHumanized g = fieldNameHumanized field"
    and "fieldInJavaBeanMethod field \<noteq> None
           \<longrightarrow> fieldInJavaBeanMethod g = fieldInJavaBeanMethod field"
    and "fieldValidateRulesPatternJava field \<noteq> None
           \<longrightarrow> fieldValidateRulesPatternJava g = fieldValidateRulesPatternJava field"
    and "fieldValidateRulesPatternAngular field \<noteq> None
           \<longrightarrow> fieldValidateRulesPatternAngular g = fieldValidateRulesPatternAngular field"
    and "fieldValidateRulesPatternReact field \<noteq> None
           \<longrightarrow> fieldValidateRulesPatternReact g = fieldValidateRulesPatternReact field"
    and "fieldValidateRules g = fieldValidateRules field"
proof -
  from assms obtain f1 f2 where
    f1: "f1 = snd (set_fieldNameAsDatabaseColumn e ctx
             (set_fieldNameUnderscored e (set_fieldNameCapitalized
                (set_fieldIsEnum (migrate_fieldType field)))))"
    and f2: "set_fieldInJavaBeanMethod (set_fieldNameHumanized e f1) = Inr f2"
    and g: "g = set_fieldValidate (set_fieldValidateRulesPatternReact
           (set_fieldValidateRulesPatternAngular (set_fieldValidateRulesPatternJava f2)))"
    by (rule normalize_field_cases)
  note fr = set_fieldInJavaBeanMethod_frame [OF f2]
  show "fieldNameCapitalized field \<noteq> None \<longrightarrow> fieldNameCapitalized g = fieldNameCapitalized field"
    by (simp del: not_None_eq add: g fr f1 set_fieldNameCapitalized_kept)
  show "fieldNameUnderscored field \<noteq> None \<longrightarrow> fieldNameUnderscored g = fieldNameUnderscored field"
    by (simp del: not_None_eq add: g fr f1 set_fieldNameUnderscored_kept)
  show "fieldNameAsDatabaseColumn field \<noteq> None
           \<longrightarrow> fieldNameAsDatabaseColumn g = fieldNameAsDatabaseColumn field"
    by (simp del: not_None_eq add: g fr f1 set_fieldNameAsDatabaseColumn_kept)
  show "fieldNameHumanized field \<noteq> None \<longrightarrow> fieldNameHumanized g = fieldNameHumanized field"
    by (simp del: not_None_eq add: g fr f1 set_fieldNameHumanized_kept)
  show "fieldInJavaBeanMethod field \<noteq> None
           \<longrightarrow> fieldInJavaBeanMethod g = fieldInJavaBeanMethod field"
  proof
    assume p: "fieldInJavaBeanMethod field \<noteq> None"
    have "fieldInJavaBeanMethod (set_fieldNameHumanized e f1) = fieldInJavaBeanMethod field"
      by (simp add: f1)
    with p have "set_fieldInJavaBeanMethod (set_fieldNameHumanized e f1) = Inr (set_fieldNameHumanized e f1)"
      by (simp del: not_None_eq add: set_fieldInJavaBeanMethod_kept)
    with f2 have "f2 = set_fieldNameHumanized e f1" by simp
    then show "fieldInJavaBeanMethod g = fieldInJavaBeanMethod field"
      by (simp add: g f1)
  qed
  show "fieldValidateRulesPatternJava field \<noteq> None
           \<longrightarrow> fieldValidateRulesPatternJava g = fieldValidateRulesPatternJava field"
  proof
    assume p: "fieldValidateRulesPatternJava field \<noteq> None"
    have "fieldValidateRulesPatternJava f2 = fieldValidateRulesPatternJava field"
      by (simp add: fr f1)
    with p show "fieldValidateRulesPatternJava g = fieldValidateRulesPatternJava field"
      by (simp del: not_None_eq add: g set_fieldValidateRulesPatternJava_kept)
  qed
  show "fieldValidateRulesPatternAngular field \<noteq> None
           \<longrightarrow> fieldValidateRulesPatternAngular g = fieldValidateRulesPatternAngular field"
  proof
    assume p: "fieldValidateRulesPatternAngular field \<noteq> None"
    have "fieldValidateRulesPatternAngular (set_fieldValidateRulesPatternJava f2)
            = fieldValidateRulesPatternAngular field"
      by (simp add: fr f1)
    with p show "fieldValidateRulesPatternAngular g = fieldValidateRulesPatternAngular field"
      by (simp del: not_None_eq add: g set_fieldValidateRulesPatternAngular_kept)
  qed
  show "fieldValidateRulesPatternReact field \<noteq> None
           \<longrightarrow> fieldValidateRulesPatternReact g = fieldValidateRulesPatternReact field"
  proof
    assume p: "fieldValidateRulesPatternReact field \<noteq> None"
    have "fieldValidateRulesPatternReact
            (set_fieldValidateRulesPatternAngular (set_fieldValidateRulesPatternJava f2))
            = fieldValidateRulesPatternReact field"
      by (simp add: fr f1)
    with p show "fieldValidateRulesPatternReact g = fieldValidateRulesPatternReact field"
      by (simp del: not_None_eq add: g set_fieldValidateRulesPatternReact_kept)
  qed
  show "fieldValidateRules g = fieldValidateRules field"
    by (simp add: g fr f1)
qed

lemma normalize_field_total:
  assumes "fieldName field \<noteq> None \<or> fieldInJavaBeanMethod field \<noteq> None"
  shows "\<exists>ws g. normalize_field e ctx field = Inr (ws, g)"
proof -
  obtain ws f1 where c: "set_fieldNameAsDatabaseColumn e ctx
             (set_fieldNameUnderscored e (set_fieldNameCapitalized
                (set_fieldIsEnum (migrate_fieldType field)))) = (ws, f1)"
    by (cases "set_fieldNameAsDatabaseColumn e ctx
             (set_fieldNameUnderscored e (set_fieldNameCapitalized
                (set_fieldIsEnum (migrate_fieldType field))))") blast
  then have f1: "f1 = snd (set_fieldNameAsDatabaseColumn e ctx
             (set_fieldNameUnderscored e (set_fieldNameCapitalized
                (set_fieldIsEnum (migrate_fieldType field)))))"
    by simp
  have n: "fieldName (set_fieldNameHumanized e f1) = fieldName field"
    and b: "fieldInJavaBeanMethod (set_fieldNameHumanized e f1) = fieldInJavaBeanMethod field"
    by (simp_all add: f1)
  from assms obtain f2 where "set_fieldInJavaBeanMethod (set_fieldNameHumanized e f1) = Inr f2"
    using set_fieldInJavaBeanMethod_total [of "set_fieldNameHumanized e f1"]
          set_fieldInJavaBeanMethod_kept [of "set_fieldNameHumanized e f1"] n b
    by metis
  with c show ?thesis
    by (simp add: normalize_field_def)
qed

subsection \<open>Enumerations\<close>

text \<open>
  The type of a normalized field is the type of the document, with DateTime and Date
  rewritten to Instant, and \<open>fieldIsEnum\<close> is true exactly when that type is none of
  the fourteen names of the list in the code.
\<close>

lemma normalize_field_isEnum:
  assumes "normalize_field e ctx field = Inr (ws, g)"
  shows "fieldType g =
           (if fieldType field = Some ''DateTime'' \<or> fieldType field = Some ''Date''
            then Some ''Instant'' else fieldType field)
       \<and> fieldIsEnum g =
           Some (fieldType g \<notin> Some ` {''String'', ''Integer'', ''Long'', ''Float'', ''Double'',
              ''BigDecimal'', ''LocalDate'', ''Instant'', ''ZonedDateTime'', ''Duration'', ''UUID'',
              ''Boolean'', ''byte[]'', ''ByteBuffer''})"
proof -
  from assms obtain f1 f2 where
    f1: "f1 = snd (set_fieldNameAsDatabaseColumn e ctx
             (set_fieldNameUnderscored e (set_fieldNameCapitalized
                (set_fieldIsEnum (migrate_fieldType field)))))"
    and f2: "set_fieldInJavaBeanMethod (set_fieldNameHumanized e f1) = Inr f2"
    and g: "g = set_fieldValidate (set_fieldValidateRulesPatternReact
           (set_fieldValidateRulesPatternAngular (set_fieldValidateRulesPatternJava f2)))"
    by (rule normalize_field_cases)
  note fr = set_fieldInJavaBeanMethod_frame [OF f2]
  have ty: "fieldType g = fieldType (migrate_fieldType field)"
    by (simp add: g fr f1)
  have en: "fieldIsEnum g = Some (fieldType g \<notin> Some ` set primitive_types)"
    by (simp add: g fr f1 set_fieldIsEnum_value)
  have s: "set primitive_types = {''String'', ''Integer'', ''Long'', ''Float'', ''Double'',
              ''BigDecimal'', ''LocalDate'', ''Instant'', ''ZonedDateTime'', ''Duration'', ''UUID'',
              ''Boolean'', ''byte[]'', ''ByteBuffer''}"
    by (simp add: primitive_types_def)
  show ?thesis
    using ty en unfolding s by (simp only: migrate_fieldType_value)
qed

text \<open>The list has fourteen names, all different.\<close>

lemma primitive_types_fourteen: "length primitive_types = 14 \<and> distinct primitive_types"
  by (simp add: primitive_types_def)

lemmas example_defs =
  sample_env_def reserved_in_examples_def supported_in_examples_def new_context_def empty_field_def empty_relationship_def
  primitive_types_def char_defs value_defs Let_def

subsection \<open>A second pass of the field normalizer\<close>

text \<open>
  Claim C5, as the code has it. When a turn of the loop has normalized a field, a second
  turn on its result returns that result and reports nothing. The names, the getter name
  and the escaped patterns are computed only when the field does not have them; and
  \<open>fieldValidate\<close> is computed on every turn from \<open>fieldValidateRules\<close>, which the
  turn does not change.
\<close>

theorem normalize_field_idempotent:
  assumes "normalize_field e ctx field = Inr (ws, g)"
  shows "normalize_field e ctx g = Inr ([], g)
     \<and> (fieldNameCapitalized field \<noteq> None \<longrightarrow> fieldNameCapitalized g = fieldNameCapitalized field)
     \<and> (fieldNameUnderscored field \<noteq> None \<longrightarrow> fieldNameUnderscored g = fieldNameUnderscored field)
     \<and> (fieldNameAsDatabaseColumn field \<noteq> None
           \<longrightarrow> fieldNameAsDatabaseColumn g = fieldNameAsDatabaseColumn field)
     \<and> (fieldNameHumanized field \<noteq> None \<longrightarrow> fieldNameHumanized g = fieldNameHumanized field)
     \<and> (fieldInJavaBeanMethod field \<noteq> None
           \<longrightarrow> fieldInJavaBeanMethod g = fieldInJavaBeanMethod field)
     \<and> (fieldValidateRulesPatternJava field \<noteq> None
           \<longrightarrow> fieldValidateRulesPatternJava g = fieldValidateRulesPatternJava field)
     \<and> (fieldValidateRulesPatternAngular field \<noteq> None
           \<longrightarrow> fieldValidateRulesPatternAngular g = fieldValidateRulesPatternAngular field)
     \<and> (fieldValidateRulesPatternReact field \<noteq> None
           \<longrightarrow> fieldValidateRulesPatternReact g = fieldValidateRulesPatternReact field)
     \<and> fieldValidate g =
          Some (case fieldValidateRules field of Some (Arr rs) \<Rightarrow> length rs \<ge> 1 | _ \<Rightarrow> False)"
proof -
  have d: "derived_present g"
    using assms by (rule normalize_field_derived)
  have v: "fieldValidate g =
          Some (case fieldValidateRules field of Some (Arr rs) \<Rightarrow> length rs \<ge> 1 | _ \<Rightarrow> False)"
    using d normalize_field_keeps(9) [OF assms] by (simp add: derived_present_def)
  show ?thesis
    using derived_fixed [OF d] normalize_field_keeps(1-8) [OF assms] v by blast
qed

lemma normalize_age_field:
  "normalize_field sample_env (new_context sample_env ''Employee'') age_field =
     Inr ([], age_field
            \<lparr>fieldIsEnum := Some False, fieldNameCapitalized := Some ''Age'',
             fieldNameUnderscored := Some ''age'', fieldNameAsDatabaseColumn := Some ''age'',
             fieldNameHumanized := Some ''Age'', fieldInJavaBeanMethod := Some ''Age'',
             fieldValidate := Some False\<rparr>)"
  by (simp add: normalize_field_def field_setters age_field_def example_defs)

theorem normalize_field_idempotent_witness:
  "normalize_field sample_env (new_context sample_env ''Employee'') age_field =
     Inr ([], age_field
            \<lparr>fieldIsEnum := Some False, fieldNameCapitalized := Some ''Age'',
             fieldNameUnderscored := Some ''age'', fieldNameAsDatabaseColumn := Some ''age'',
             fieldNameHumanized := Some ''Age'', fieldInJavaBeanMethod := Some ''Age'',
             fieldValidate := Some False\<rparr>)
   \<and> normalize_field sample_env (new_context sample_env ''Employee'')
       (age_field
            \<lparr>fieldIsEnum := Some False, fieldNameCapitalized := Some ''Age'',
             fieldNameUnderscored := Some ''age'', fieldNameAsDatabaseColumn := Some ''age'',
             fieldNameHumanized := Some ''Age'', fieldInJavaBeanMethod := Some ''Age'',
             fieldValidate := Some False\<rparr>) =
     Inr ([], age_field
            \<lparr>fieldIsEnum := Some False, fieldNameCapitalized := Some ''Age'',
             fieldNameUnderscored := Some ''age'', fieldNameAsDatabaseColumn := Some ''age'',
             fieldNameHumanized := Some ''Age'', fieldInJavaBeanMethod := Some ''Age'',
             fieldValidate := Some False\<rparr>)"
  using normalize_field_idempotent [OF normalize_age_field] normalize_age_field
  by blast

text \<open>
  A field that comes with \<open>fieldValidate\<close> set and without rules loses the value on the
  first pass: \<open>fieldValidate\<close> is not among the attributes computed only when absent,
  as claim C5 has it.
\<close>

theorem fieldValidate_overwritten_counterexample:
  "fieldValidate stale_field = Some True
   \<and> normalize_field sample_env (new_context sample_env ''Employee'') stale_field =
     Inr ([], stale_field
            \<lparr>fieldIsEnum := Some False, fieldNameCapitalized := Some ''Age'',
             fieldNameUnderscored := Some ''age'', fieldNameAsDatabaseColumn := Some ''age'',
             fieldNameHumanized := Some ''Age'', fieldInJavaBeanMethod := Some ''Age'',
             fieldValidate := Some False\<rparr>)"
  by (simp add: normalize_field_def field_setters stale_field_def age_field_def example_defs)

subsection \<open>Failures of validation\<close>

text \<open>Every message built for a field names the entity and prints the field.\<close>

lemma is_missing_message_names:
  "sublist entityName (is_missing_message key entityName kind json)"
  "sublist json (is_missing_message key entityName kind json)"
proof -
  show "sublist entityName (is_missing_message key entityName kind json)"
    unfolding is_missing_message_def
    using sublist_appendI [of entityName "key @ '' is missing in .jhipster/''"
        "''.json for '' @ kind @ '' '' @ json"]
    by (simp only: append_assoc)
  show "sublist json (is_missing_message key entityName kind json)"
    unfolding is_missing_message_def
    using sublist_appendI [of json
        "key @ '' is missing in .jhipster/'' @ entityName @ ''.json for '' @ kind @ '' ''" "[]"]
    by (simp only: append_assoc append_Nil2)
qed

lemma not_array_message_names:
  "sublist entityName (not_an_array_message entityName json)"
  "sublist json (not_an_array_message entityName json)"
proof -
  show "sublist entityName (not_an_array_message entityName json)"
    unfolding not_an_array_message_def by (rule sublist_appendI)
  show "sublist json (not_an_array_message entityName json)"
    unfolding not_an_array_message_def
    using sublist_appendI [of json
        "''fieldValidateRules is not an array in .jhipster/'' @ entityName @ ''.json for field ''" "[]"]
    by (simp only: append_assoc append_Nil2)
qed

lemma unknown_rule_message_names:
  "sublist entityName (unknown_rule_message r entityName json supported)"
  "sublist json (unknown_rule_message r entityName json supported)"
proof -
  show "sublist entityName (unknown_rule_message r entityName json supported)"
    unfolding unknown_rule_message_def
    using sublist_appendI [of entityName
        "''fieldValidateRules contains unknown validation rule '' @ r @ '' in .jhipster/''"
        "''.json for field '' @ json @ '' [supported validation rules '' @ supported @ '']''"]
    by (simp only: append_assoc)
  show "sublist json (unknown_rule_message r entityName json supported)"
    unfolding unknown_rule_message_def
    using sublist_appendI [of json
        "''fieldValidateRules contains unknown validation rule '' @ r @ '' in .jhipster/''
           @ entityName @ ''.json for field ''"
        "'' [supported validation rules '' @ supported @ '']''"]
    by (simp only: append_assoc)
qed

lemma validate_field_error_names:
  assumes "validate_field e entityName field = Inl err"
  shows "\<exists>msg. err = Error msg \<and> sublist entityName msg \<and> sublist (stringify_field e field) msg"
  using assms unfolding validate_field_def
  by (auto split: if_splits option.splits rules.splits
      simp: is_missing_message_names not_array_message_names unknown_rule_message_names)

lemma missing_companion_found:
  assumes "(rule, attr) \<in> set companion_parameters" and "rule \<in> set rs" and "attr field = None"
  shows "missing_companion field rs \<noteq> None"
  using assms by (auto simp: companion_parameters_def missing_companion_def)

lemma validate_field_missing_companion:
  assumes "(rule, attr) \<in> set companion_parameters"
    and "fieldValidateRules field = Some (Arr rs)" and "rule \<in> set rs" and "attr field = None"
  shows "\<exists>err. validate_field e entityName field = Inl err"
proof -
  obtain key where "missing_companion field rs = Some key"
    using missing_companion_found [OF assms(1,3,4)] by blast
  then show ?thesis
    using assms(2) by (simp add: validate_field_def split: option.splits)
qed

lemma validate_fields_first_failure:
  assumes "\<forall>f \<in> set before. \<exists>ws f'. validate_field e entityName f = Inr (ws, f')"
    and "validate_field e entityName field = Inl err"
  shows "\<exists>ws fs. validate_fields e entityName (before @ field # after) = (ws, fs, Some err)"
  using assms
proof (induction before)
  case Nil
  then show ?case by simp
next
  case (Cons f before)
  then obtain ws f' where f: "validate_field e entityName f = Inr (ws, f')"
    by auto
  from Cons obtain ws' fs where
    "validate_fields e entityName (before @ field # after) = (ws', fs, Some err)"
    by auto
  with f show ?case by simp
qed

lemma validateFile_field_failure:
  assumes "validate_fields e (name ctx) (context_fields ctx) = (ws, fs, Some err)"
  shows "validateFile e ctx = (ws, ctx\<lparr>context_fields := fs\<rparr>, Some err)"
  using assms by (simp add: validateFile_def)

text \<open>
  Claim C6. A field has a rule that needs a parameter (max, min, maxlength, minlength,
  maxbytes, minbytes, pattern) and lacks the attribute that holds it. Then its validation
  fails with an error whose message contains the entity name and the printed field; and
  when the fields before it in the document pass, this is the failure of \<open>validateFile\<close>.
\<close>

theorem missing_companion_fails:
  assumes "(rule, attr) \<in> set companion_parameters"
    and "fieldValidateRules field = Some (Arr rs)" and "rule \<in> set rs" and "attr field = None"
    and "context_fields ctx = before @ field # after"
    and "\<forall>f \<in> set before. \<exists>ws f'. validate_field e (name ctx) f = Inr (ws, f')"
  shows "\<exists>ws ctx' msg.
           validateFile e ctx = (ws, ctx', Some (Error msg))
         \<and> validate_field e (name ctx) field = Inl (Error msg)
         \<and> sublist (name ctx) msg \<and> sublist (stringify_field e field) msg"
proof -
  obtain err where err: "validate_field e (name ctx) field = Inl err"
    using validate_field_missing_companion [OF assms(1-4)] by blast
  then obtain msg where msg: "err = Error msg" "sublist (name ctx) msg"
      "sublist (stringify_field e field) msg"
    using validate_field_error_names by blast
  obtain ws fs where "validate_fields e (name ctx) (context_fields ctx) = (ws, fs, Some err)"
    using validate_fields_first_failure [OF assms(6) err] assms(5) by metis
  then have "validateFile e ctx = (ws, ctx\<lparr>context_fields := fs\<rparr>, Some err)"
    by (rule validateFile_field_failure)
  with err msg show ?thesis by blast
qed

lemma validate_employee_with_salary:
  "validateFile sample_env employee_with_salary =
    ([], employee_with_salary,
     Some (Error ''fieldValidateRulesMax is missing in .jhipster/Employee.json for field {fieldName: salary}''))"
  by (simp add: validateFile_def validate_field_def missing_companion_def is_missing_message_def
      employee_with_salary_def salary_field_def age_field_def example_defs)

theorem missing_companion_fails_witness:
  "(''max'', fieldValidateRulesMax) \<in> set companion_parameters
   \<and> fieldValidateRules salary_field = Some (Arr [''required'', ''max''])
   \<and> ''max'' \<in> set [''required'', ''max'']
   \<and> fieldValidateRulesMax salary_field = None
   \<and> context_fields employee_with_salary = [age_field] @ salary_field # []
   \<and> validate_field sample_env (name employee_with_salary) age_field = Inr ([], age_field)
   \<and> validateFile sample_env employee_with_salary =
       ([], employee_with_salary,
        Some (Error ''fieldValidateRulesMax is missing in .jhipster/Employee.json for field {fieldName: salary}''))
   \<and> sublist (name employee_with_salary)
        ''fieldValidateRulesMax is missing in .jhipster/Employee.json for field {fieldName: salary}''
   \<and> sublist (stringify_field sample_env salary_field)
        ''fieldValidateRulesMax is missing in .jhipster/Employee.json for field {fieldName: salary}''"
proof -
  have h1: "(''max'', fieldValidateRulesMax) \<in> set companion_parameters"
    by (simp add: companion_parameters_def)
  have h2: "fieldValidateRules salary_field = Some (Arr [''required'', ''max''])"
    and h3: "''max'' \<in> set [''required'', ''max'']"
    and h4: "fieldValidateRulesMax salary_field = None"
    by (simp_all add: salary_field_def empty_field_def)
  have h5: "context_fields employee_with_salary = [age_field] @ salary_field # []"
    by (simp add: employee_with_salary_def)
  have age: "validate_field sample_env (name employee_with_salary) age_field = Inr ([], age_field)"
    by (simp add: validate_field_def age_field_def empty_field_def)
  then have h6: "\<forall>f \<in> set [age_field].
      \<exists>ws f'. validate_field sample_env (name employee_with_salary) f = Inr (ws, f')"
    by simp
  from missing_companion_fails [OF h1 h2 h3 h4 h5 h6]
  show ?thesis
    using h1 h2 h3 h4 h5 age validate_employee_with_salary by auto
qed

subsection \<open>Binary fields\<close>

lemma missing_companion_none:
  assumes "\<forall>(rule, attr) \<in> set companion_parameters. rule \<in> set rs \<longrightarrow> attr field \<noteq> None"
  shows "missing_companion field rs = None"
  using assms by (auto simp: companion_parameters_def missing_companion_def)

lemma validate_field_lob:
  assumes "fieldType field = Some ''ByteBuffer''" and "fieldName field \<noteq> None"
    and "fieldValidateRules field = Some (Arr rs)"
    and "\<forall>r \<in> set rs. r \<in> set (SUPPORTED_VALIDATION_RULES e)"
    and "\<forall>(rule, attr) \<in> set companion_parameters. rule \<in> set rs \<longrightarrow> attr field \<noteq> None"
  shows "validate_field e entityName field =
           Inr ([lob_warning entityName (stringify_field e field)],
                field\<lparr>field_validation := Some False, fieldValidateRules := Some (Arr [])\<rparr>)"
proof -
  have f: "find (\<lambda>r. r \<notin> set (SUPPORTED_VALIDATION_RULES e)) rs = None"
    using assms(4) by (simp add: find_None_iff)
  have m: "missing_companion field rs = None"
    using assms(5) by (rule missing_companion_none)
  show ?thesis
    using assms(1-3) by (simp del: not_None_eq add: validate_field_def f m)
qed

subsection \<open>A relationship without the name of the other entity\<close>

text \<open>Each default changes one attribute of the relationship.\<close>

lemma default_relationshipName_frame [simp]:
  "otherEntityName (default_relationshipName r) = otherEntityName r"
  "relationshipType (default_relationshipName r) = relationshipType r"
  "ownerSide (default_relationshipName r) = ownerSide r"
  "otherEntityField (default_relationshipName r) = otherEntityField r"
  "relationshipValidateRules (default_relationshipName r) = relationshipValidateRules r"
  "options_relationshipNameHumanized (default_relationshipName r) = options_relationshipNameHumanized r"
  "otherEntityRelationshipName (default_relationshipName r) = otherEntityRelationshipName r"
  "otherEntityRelationshipNamePlural (default_relationshipName r) = otherEntityRelationshipNamePlural r"
  "otherEntityRelationshipNameCapitalized (default_relationshipName r) = otherEntityRelationshipNameCapitalized r"
  "otherEntityRelationshipNameCapitalizedPlural (default_relationshipName r) = otherEntityRelationshipNameCapitalizedPlural r"
  "relationshipNameCapitalized (default_relationshipName r) = relationshipNameCapitalized r"
  "relationshipNameCapitalizedPlural (default_relationshipName r) = relationshipNameCapitalizedPlural r"
  "relationshipNameHumanized (default_relationshipName r) = relationshipNameHumanized r"
  "relationshipNamePlural (default_relationshipName r) = relationshipNamePlural r"
  "relationshipFieldName (default_relationshipName r) = relationshipFieldName r"
  "relationshipFieldNamePlural (default_relationshipName r) = relationshipFieldNamePlural r"
  "otherEntityNamePlural (default_relationshipName r) = otherEntityNamePlural r"
  "otherEntityNameCapitalized (default_relationshipName r) = otherEntityNameCapitalized r"
  "otherEntityNameCapitalizedPlural (default_relationshipName r) = otherEntityNameCapitalizedPlural r"
  "otherEntityFieldCapitalized (default_relationshipName r) = otherEntityFieldCapitalized r"
  "otherEntityIsEmbedded (default_relationshipName r) = otherEntityIsEmbedded r"
  "relationshipValidate (default_relationshipName r) = relationshipValidate r"
  "relationshipRequired (default_relationshipName r) = relationshipRequired r"
  by (simp_all add: default_relationshipName_def)

lemma default_otherEntityRelationshipName_frame [simp]:
  "relationshipName (default_otherEntityRelationshipName entityName r) = relationshipName r"
  "otherEntityName (default_otherEntityRelationshipName entityName r) = otherEntityName r"
  "relationshipType (default_otherEntityRelationshipName entityName r) = relationshipType r"
  "ownerSide (default_otherEntityRelationshipName entityName r) = ownerSide r"
  "otherEntityField (default_otherEntityRelationshipName entityName r) = otherEntityField r"
  "relationshipValidateRules (default_otherEntityRelationshipName entityName r) = relationshipValidateRules r"
  "options_relationshipNameHumanized (default_otherEntityRelationshipName entityName r) = options_relationshipNameHumanized r"
  "otherEntityRelationshipNamePlural (default_otherEntityRelationshipName entityName r) = otherEntityRelationshipNamePlural r"
  "otherEntityRelationshipNameCapitalized (default_otherEntityRelationshipName entityName r) = otherEntityRelationshipNameCapitalized r"
  "otherEntityRelationshipNameCapitalizedPlural (default_otherEntityRelationshipName entityName r) = otherEntityRelationshipNameCapitalizedPlural r"
  "relationshipNameCapitalized (default_otherEntityRelationshipName entityName r) = relationshipNameCapitalized r"
  "relationshipNameCapitalizedPlural (default_otherEntityRelationshipName entityName r) = relationshipNameCapitalizedPlural r"
  "relationshipNameHumanized (default_otherEntityRelationshipName entityName r) = relationshipNameHumanized r"
  "relationshipNamePlural (default_otherEntityRelationshipName entityName r) = relationshipNamePlural r"
  "relationshipFieldName (default_otherEntityRelationshipName entityName r) = relationshipFieldName r"
  "relationshipFieldNamePlural (default_otherEntityRelationshipName entityName r) = relationshipFieldNamePlural r"
  "otherEntityNamePlural (default_otherEntityRelationshipName entityName r) = otherEntityNamePlural r"
  "otherEntityNameCapitalized (default_otherEntityRelationshipName entityName r) = otherEntityNameCapitalized r"
  "otherEntityNameCapitalizedPlural (default_otherEntityRelationshipName entityName r) = otherEntityNameCapitalizedPlural r"
  "otherEntityFieldCapitalized (default_otherEntityRelationshipName entityName r) = otherEntityFieldCapitalized r"
  "otherEntityIsEmbedded (default_otherEntityRelationshipName entityName r) = otherEntityIsEmbedded r"
  "relationshipValidate (default_otherEntityRelationshipName entityName r) = relationshipValidate r"
  "relationshipRequired (default_otherEntityRelationshipName entityName r) = relationshipRequired r"
  by (simp_all add: default_otherEntityRelationshipName_def)

lemma default_otherEntityField_frame [simp]:
  "relationshipName (default_otherEntityField r) = relationshipName r"
  "otherEntityName (default_otherEntityField r) = otherEntityName r"
  "relationshipType (default_otherEntityField r) = relationshipType r"
  "ownerSide (default_otherEntityField r) = ownerSide r"
  "relationshipValidateRules (default_otherEntityField r) = relationshipValidateRules r"
  "options_relationshipNameHumanized (default_otherEntityField r) = options_relationshipNameHumanized r"
  "otherEntityRelationshipName (default_otherEntityField r) = otherEntityRelationshipName r"
  "otherEntityRelationshipNamePlural (default_otherEntityField r) = otherEntityRelationshipNamePlural r"
  "otherEntityRelationshipNameCapitalized (default_otherEntityField r) = otherEntityRelationshipNameCapitalized r"
  "otherEntityRelationshipNameCapitalizedPlural (default_otherEntityField r) = otherEntityRelationshipNameCapitalizedPlural r"
  "relationshipNameCapitalized (default_otherEntityField r) = relationshipNameCapitalized r"
  "relationshipNameCapitalizedPlural (default_otherEntityField r) = relationshipNameCapitalizedPlural r"
  "relationshipNameHumanized (default_otherEntityField r) = relationshipNameHumanized r"
  "relationshipNamePlural (default_otherEntityField r) = relationshipNamePlural r"
  "relationshipFieldName (default_otherEntityField r) = relationshipFieldName r"
  "relationshipFieldNamePlural (default_otherEntityField r) = relationshipFieldNamePlural r"
  "otherEntityNamePlural (default_otherEntityField r) = otherEntityNamePlural r"
  "otherEntityNameCapitalized (default_otherEntityField r) = otherEntityNameCapitalized r"
  "otherEntityNameCapitalizedPlural (default_otherEntityField r) = otherEntityNameCapitalizedPlural r"
  "otherEntityFieldCapitalized (default_otherEntityField r) = otherEntityFieldCapitalized r"
  "otherEntityIsEmbedded (default_otherEntityField r) = otherEntityIsEmbedded r"
  "relationshipValidate (default_otherEntityField r) = relationshipValidate r"
  "relationshipRequired (default_otherEntityField r) = relationshipRequired r"
  by (simp_all add: default_otherEntityField_def)



lemma validate_relationship_missing_otherEntityName:
  assumes "otherEntityName r = None"
  shows "\<exists>ws r' msg. validate_relationship e entityName r = (ws, r', Some (Error msg))"
  using assms by (simp add: validate_relationship_def Let_def)

lemma validate_relationship_error:
  assumes "validate_relationship e entityName r = (ws, r', Some err)"
  shows "\<exists>msg. err = Error msg"
  using assms by (auto simp: validate_relationship_def Let_def split: if_splits)

lemma validate_relationships_missing_otherEntityName:
  assumes "r \<in> set rs" and "otherEntityName r = None"
  shows "\<exists>ws rs' msg. validate_relationships e entityName rs = (ws, rs', Some (Error msg))"
  using assms
proof (induction rs)
  case Nil
  then show ?case by simp
next
  case (Cons x rs)
  obtain ws x' res where x: "validate_relationship e entityName x = (ws, x', res)"
    by (cases "validate_relationship e entityName x") auto
  show ?case
  proof (cases res)
    case (Some err)
    then obtain msg where "err = Error msg"
      using x validate_relationship_error by blast
    with x Some show ?thesis by simp
  next
    case None
    with x Cons.prems validate_relationship_missing_otherEntityName [OF Cons.prems(2), of e entityName]
    have "r \<in> set rs" by auto
    then obtain ws' rs' msg where
      "validate_relationships e entityName rs = (ws', rs', Some (Error msg))"
      using Cons by blast
    with x None show ?thesis by simp
  qed
qed

lemma validate_fields_error:
  assumes "validate_fields e entityName fs = (ws, fs', Some err)"
  shows "\<exists>msg. err = Error msg"
  using assms
proof (induction fs arbitrary: ws fs')
  case Nil
  then show ?case by simp
next
  case (Cons f fs)
  show ?case
  proof (cases "validate_field e entityName f")
    case (Inl a)
    with Cons.prems have "a = err" by simp
    with Inl validate_field_error_names show ?thesis by blast
  next
    case (Inr b)
    obtain w f' where b: "b = (w, f')" by (cases b)
    obtain ws1 fs1 res where rest: "validate_fields e entityName fs = (ws1, fs1, res)"
      by (cases "validate_fields e entityName fs") auto
    with Inr b Cons.prems have "res = Some err" by simp
    with rest Cons.IH show ?thesis by blast
  qed
qed

text \<open>
  Claim C3, as the code has it. A document with a relationship that has no
  \<open>otherEntityName\<close> fails validation with one error, and resolution returns that error
  and no descriptor.
\<close>

theorem missing_otherEntityName_fails:
  assumes "r \<in> set (relationships ctx)" and "otherEntityName r = None"
  shows "\<exists>ws ctx' msg. validateFile e ctx = (ws, ctx', Some (Error msg))
                       \<and> resolve e ctx = Inl (Error msg)"
proof -
  obtain ws1 fs res1 where fs: "validate_fields e (name ctx) (context_fields ctx) = (ws1, fs, res1)"
    by (cases "validate_fields e (name ctx) (context_fields ctx)") auto
  show ?thesis
  proof (cases res1)
    case (Some err)
    then obtain msg where "err = Error msg"
      using fs validate_fields_error by blast
    with fs Some show ?thesis
      by (simp add: validateFile_def resolve_def)
  next
    case None
    obtain ws2 rs msg where
      "validate_relationships e (name ctx) (relationships ctx) = (ws2, rs, Some (Error msg))"
      using validate_relationships_missing_otherEntityName [OF assms] by blast
    with fs None show ?thesis
      by (simp add: validateFile_def resolve_def)
  qed
qed

lemma validate_employee_with_manager:
  "validateFile sample_env employee_with_manager =
     ([''relationshipName is missing in .jhipster/Employee.json for relationship {relationshipName: department}, using department as fallback'',
       ''otherEntityRelationshipName is missing in .jhipster/Employee.json for relationship {relationshipName: department}, using employee as fallback'',
       ''otherEntityField is missing in .jhipster/Employee.json for relationship {relationshipName: department}, using id as fallback''],
      employee_with_manager
        \<lparr>relationships :=
           [department_relationship
              \<lparr>relationshipName := Some ''department'',
               otherEntityRelationshipName := Some ''employee'',
               otherEntityField := Some ''id''\<rparr>,
            manager_relationship]\<rparr>,
      Some (Error ''otherEntityName is missing in .jhipster/Employee.json for relationship {relationshipName: manager}''))"
  by (simp add: validateFile_def validate_relationship_def needs_otherEntityField_def
      needs_otherEntityRelationshipName_def is_missing_message_def fallback_warning_def
      default_relationshipName_def default_otherEntityRelationshipName_def
      default_otherEntityField_def employee_with_manager_def department_relationship_def manager_relationship_def example_defs)

theorem missing_otherEntityName_fails_witness:
  "manager_relationship \<in> set (relationships employee_with_manager)
   \<and> otherEntityName manager_relationship = None
   \<and> snd (snd (validateFile sample_env employee_with_manager)) =
       Some (Error ''otherEntityName is missing in .jhipster/Employee.json for relationship {relationshipName: manager}'')
   \<and> resolve sample_env employee_with_manager =
       Inl (Error ''otherEntityName is missing in .jhipster/Employee.json for relationship {relationshipName: manager}'')"
proof -
  have h1: "manager_relationship \<in> set (relationships employee_with_manager)"
    by (simp add: employee_with_manager_def)
  have h2: "otherEntityName manager_relationship = None"
    by (simp add: manager_relationship_def empty_relationship_def)
  from missing_otherEntityName_fails [OF h1 h2, of sample_env]
  show ?thesis
    using h1 h2 validate_employee_with_manager by auto
qed

text \<open>
  The failure does not leave the document as it was: validation has written its defaults
  into the relationship before the failing one. Claim C3 says the state is unchanged.
\<close>

theorem document_changed_on_failure_counterexample:
  "snd (snd (validateFile sample_env employee_with_manager)) =
       Some (Error ''otherEntityName is missing in .jhipster/Employee.json for relationship {relationshipName: manager}'')
   \<and> relationships (fst (snd (validateFile sample_env employee_with_manager))) =
       [department_relationship
              \<lparr>relationshipName := Some ''department'',
               otherEntityRelationshipName := Some ''employee'',
               otherEntityField := Some ''id''\<rparr>,
        manager_relationship]
   \<and> relationships employee_with_manager = [department_relationship, manager_relationship]
   \<and> department_relationship
              \<lparr>relationshipName := Some ''department'',
               otherEntityRelationshipName := Some ''employee'',
               otherEntityField := Some ''id''\<rparr> \<noteq> department_relationship"
proof -
  have "relationshipName (department_relationship
              \<lparr>relationshipName := Some ''department'',
               otherEntityRelationshipName := Some ''employee'',
               otherEntityField := Some ''id''\<rparr>) \<noteq> relationshipName department_relationship"
    by (simp add: department_relationship_def empty_relationship_def)
  then have "department_relationship
              \<lparr>relationshipName := Some ''department'',
               otherEntityRelationshipName := Some ''employee'',
               otherEntityField := Some ''id''\<rparr> \<noteq> department_relationship"
    by metis
  moreover have "relationships employee_with_manager = [department_relationship, manager_relationship]"
    by (simp add: employee_with_manager_def)
  ultimately show ?thesis
    by (simp add: validate_employee_with_manager)
qed

subsection \<open>The context through the loops\<close>

lemma field_type_flags_frame [simp]:
  "name (field_type_flags f c) = name c"
  "dto (field_type_flags f c) = dto c"
  "entityClass (field_type_flags f c) = entityClass c"
  "differentTypes (field_type_flags f c) = differentTypes c"
  "differentRelationships (field_type_flags f c) = differentRelationships c"
  "jhiPrefix (field_type_flags f c) = jhiPrefix c"
  "prodDatabaseType (field_type_flags f c) = prodDatabaseType c"
  by (simp_all add: field_type_flags_def)

lemma field_flags_frame [simp]:
  "name (field_flags f c) = name c"
  "dto (field_flags f c) = dto c"
  "entityClass (field_flags f c) = entityClass c"
  "differentTypes (field_flags f c) = differentTypes c"
  "differentRelationships (field_flags f c) = differentRelationships c"
  "jhiPrefix (field_flags f c) = jhiPrefix c"
  "prodDatabaseType (field_flags f c) = prodDatabaseType c"
  by (simp_all add: field_flags_def Let_def)

lemma load_fields_frame:
  assumes "load_fields e c fs = Inr (ws, c', fs')"
  shows "name c' = name c \<and> dto c' = dto c \<and> entityClass c' = entityClass c
       \<and> differentTypes c' = differentTypes c
       \<and> differentRelationships c' = differentRelationships c"
  using assms
proof (induction fs arbitrary: c ws fs')
  case Nil
  then show ?case by simp
next
  case (Cons f fs)
  from Cons.prems obtain w f1 where n: "normalize_field e c f = Inr (w, f1)"
    by (auto split: sum.splits)
  with Cons.prems obtain ws1 fs1 where
    "load_fields e (field_flags f1 c) fs = Inr (ws1, c', fs1)"
    by (auto split: sum.splits)
  from Cons.IH [OF this] show ?case by simp
qed

lemma relationship_flags_frame [simp]:
  "name (relationship_flags r c) = name c"
  "dto (relationship_flags r c) = dto c"
  "entityClass (relationship_flags r c) = entityClass c"
  "context_fields (relationship_flags r c) = context_fields c"
  "differentTypes (relationship_flags r c) = differentTypes c"
  "differentRelationships (relationship_flags r c) = differentRelationships c"
  by (simp_all add: relationship_flags_def Let_def)

lemma required_relationship_frame:
  assumes "required_relationship r c = Inr (ws, c', r')"
  shows "name c' = name c" "dto c' = dto c" "entityClass c' = entityClass c"
    "context_fields c' = context_fields c"
    "differentTypes c' = differentTypes c"
    "differentRelationships c' = differentRelationships c"
  using assms
  by (auto simp: required_relationship_def split: if_splits option.splits)

lemma register_type_frame [simp]:
  "name (register_type r c) = name c"
  "dto (register_type r c) = dto c"
  "entityClass (register_type r c) = entityClass c"
  "context_fields (register_type r c) = context_fields c"
  by (simp_all add: register_type_def Let_def)

lemma register_type_types:
  "differentTypes (register_type r c) =
     (if str (otherEntityNameCapitalized r) \<in> set (differentTypes c) then differentTypes c
      else differentTypes c @ [str (otherEntityNameCapitalized r)])"
  by (simp add: register_type_def Let_def)

lemma register_type_relationships:
  "differentRelationships (register_type r c) =
     (differentRelationships c)
       (str (otherEntityNameCapitalized r) \<mapsto>
          (case differentRelationships c (str (otherEntityNameCapitalized r)) of
             None \<Rightarrow> [] | Some rs \<Rightarrow> rs) @ [r])"
  by (simp add: register_type_def Let_def)

lemma relationship_step_cases:
  assumes "relationship_step e c r = Inr (ws, c', r')"
  obtains w1 r1 w2 c2 where
    "resolve_relationship e c r = Inr (w1, r1)"
    "required_relationship r1 (relationship_flags r1 c) = Inr (w2, c2, r')"
    "c' = register_type r' c2" "ws = w1 @ w2"
  using assms
  by (auto simp: relationship_step_def split: sum.splits prod.splits)

lemma relationship_step_context:
  assumes "relationship_step e c r = Inr (ws, c', r')"
  shows "name c' = name c" "dto c' = dto c" "entityClass c' = entityClass c"
    "context_fields c' = context_fields c"
    "differentTypes c' =
       (if str (otherEntityNameCapitalized r') \<in> set (differentTypes c) then differentTypes c
        else differentTypes c @ [str (otherEntityNameCapitalized r')])"
    "differentRelationships c' =
       (differentRelationships c)
         (str (otherEntityNameCapitalized r') \<mapsto>
            (case differentRelationships c (str (otherEntityNameCapitalized r')) of
               None \<Rightarrow> [] | Some rs \<Rightarrow> rs) @ [r'])"
proof -
  from assms obtain w1 r1 w2 c2 where
    req: "required_relationship r1 (relationship_flags r1 c) = Inr (w2, c2, r')"
    and c': "c' = register_type r' c2"
    by (rule relationship_step_cases)
  note fr = required_relationship_frame [OF req]
  show "name c' = name c" "dto c' = dto c" "entityClass c' = entityClass c"
    "context_fields c' = context_fields c"
    by (simp_all add: c' fr)
  show "differentTypes c' =
       (if str (otherEntityNameCapitalized r') \<in> set (differentTypes c) then differentTypes c
        else differentTypes c @ [str (otherEntityNameCapitalized r')])"
    by (simp add: c' register_type_types fr)
  show "differentRelationships c' =
       (differentRelationships c)
         (str (otherEntityNameCapitalized r') \<mapsto>
            (case differentRelationships c (str (otherEntityNameCapitalized r')) of
               None \<Rightarrow> [] | Some rs \<Rightarrow> rs) @ [r'])"
    by (simp add: c' register_type_relationships fr)
qed

lemma remdups_append_member:
  "t \<in> set ys \<Longrightarrow> remdups (xs @ t # ys) = remdups (xs @ ys)"
  by (induction xs) auto

lemma first_occurrences_step:
  "rev (remdups (rev ((if t \<in> set ds then ds else ds @ [t]) @ ts))) =
   rev (remdups (rev (ds @ t # ts)))"
  by (simp add: remdups_append_member)

lemma load_relationships_cases:
  assumes "load_relationships e c (r # rs) = Inr (ws, c', rs')"
  obtains w c1 r1 ws1 rs1 where
    "relationship_step e c r = Inr (w, c1, r1)"
    "load_relationships e c1 rs = Inr (ws1, c', rs1)"
    "rs' = r1 # rs1" "ws = w @ ws1"
  using assms by (auto split: sum.splits prod.splits)

lemma load_relationships_context:
  assumes "load_relationships e c rs = Inr (ws, c', rs')"
  shows "name c' = name c \<and> dto c' = dto c \<and> entityClass c' = entityClass c
       \<and> context_fields c' = context_fields c"
  using assms
proof (induction rs arbitrary: c ws rs')
  case Nil
  then show ?case by simp
next
  case (Cons r rs)
  from Cons.prems obtain w c1 r1 ws1 rs1 where
    s: "relationship_step e c r = Inr (w, c1, r1)"
    and l: "load_relationships e c1 rs = Inr (ws1, c', rs1)"
    by (rule load_relationships_cases)
  from Cons.IH [OF l] relationship_step_context(1-4) [OF s] show ?case by simp
qed

lemma load_relationships_types:
  assumes "load_relationships e c rs = Inr (ws, c', rs')" and "distinct (differentTypes c)"
  shows "differentTypes c' =
           rev (remdups (rev (differentTypes c
                                @ map (\<lambda>r. str (otherEntityNameCapitalized r)) rs')))"
  using assms
proof (induction rs arbitrary: c ws rs')
  case Nil
  then show ?case by (simp add: distinct_remdups_id)
next
  case (Cons r rs)
  from Cons.prems(1) obtain w c1 r1 ws1 rs1 where
    s: "relationship_step e c r = Inr (w, c1, r1)"
    and l: "load_relationships e c1 rs = Inr (ws1, c', rs1)"
    and rs': "rs' = r1 # rs1"
    by (rule load_relationships_cases)
  note t = relationship_step_context(5) [OF s]
  from Cons.prems(2) have "distinct (differentTypes c1)" by (simp add: t)
  from Cons.IH [OF l this] have "differentTypes c' =
           rev (remdups (rev (differentTypes c1
                                @ map (\<lambda>r. str (otherEntityNameCapitalized r)) rs1)))" .
  also have "\<dots> = rev (remdups (rev (differentTypes c
                  @ str (otherEntityNameCapitalized r1)
                  # map (\<lambda>r. str (otherEntityNameCapitalized r)) rs1)))"
    unfolding t by (rule first_occurrences_step)
  finally show ?case by (simp add: rs')
qed

lemma load_relationships_prefix:
  assumes "load_relationships e c rs = Inr (ws, c', rs')"
  shows "\<exists>extra. differentTypes c' = differentTypes c @ extra"
  using assms
proof (induction rs arbitrary: c ws rs')
  case Nil
  then show ?case by simp
next
  case (Cons r rs)
  from Cons.prems obtain w c1 r1 ws1 rs1 where
    s: "relationship_step e c r = Inr (w, c1, r1)"
    and l: "load_relationships e c1 rs = Inr (ws1, c', rs1)"
    by (rule load_relationships_cases)
  from Cons.IH [OF l] obtain extra where "differentTypes c' = differentTypes c1 @ extra"
    by blast
  then show ?case
    by (simp add: relationship_step_context(5) [OF s])
qed

lemma load_relationships_by_type:
  assumes "load_relationships e c rs = Inr (ws, c', rs')"
  shows "differentRelationships c' T =
           (if filter (\<lambda>r. str (otherEntityNameCapitalized r) = T) rs' = []
            then differentRelationships c T
            else Some ((case differentRelationships c T of None \<Rightarrow> [] | Some old \<Rightarrow> old)
                       @ filter (\<lambda>r. str (otherEntityNameCapitalized r) = T) rs'))"
  using assms
proof (induction rs arbitrary: c ws rs')
  case Nil
  then show ?case by simp
next
  case (Cons r rs)
  from Cons.prems obtain w c1 r1 ws1 rs1 where
    s: "relationship_step e c r = Inr (w, c1, r1)"
    and l: "load_relationships e c1 rs = Inr (ws1, c', rs1)"
    and rs': "rs' = r1 # rs1"
    by (rule load_relationships_cases)
  note d = relationship_step_context(6) [OF s]
  show ?case
    unfolding rs' Cons.IH [OF l] d by simp
qed


lemma init_in_memory_data_frame [simp]:
  "name (init_in_memory_data e c) = name c"
  "dto (init_in_memory_data e c) = dto c"
  "entityClass (init_in_memory_data e c) = entityNameCapitalized c"
  "differentTypes (init_in_memory_data e c) = [entityNameCapitalized c]"
  "differentRelationships (init_in_memory_data e c) = Map.empty"
  by (simp_all add: init_in_memory_data_def)

lemma loadInMemoryData_cases:
  assumes "loadInMemoryData e ctx = Inr (ws, d)"
  obtains ws1 c1 fs ws2 c2 rs where
    "load_fields e (init_in_memory_data e ctx) (context_fields ctx) = Inr (ws1, c1, fs)"
    "load_relationships e (c1\<lparr>context_fields := fs\<rparr>) (relationships ctx) = Inr (ws2, c2, rs)"
    "d = c2\<lparr>relationships := rs\<rparr>" "ws = ws1 @ ws2"
  using assms by (auto simp: loadInMemoryData_def split: sum.splits prod.splits)

lemmas model_defs =
  resolve_def validateFile_def validate_root_def default_changelogDate_def default_dto_def
  default_service_def default_jpaMetamodelFiltering_def default_pagination_def
  default_clientRootFolder_def validate_relationship_def default_relationshipName_def
  default_otherEntityRelationshipName_def default_otherEntityField_def
  needs_otherEntityField_def needs_otherEntityRelationshipName_def fallback_warning_def
  is_missing_message_def validate_field_def missing_companion_def
  loadInMemoryData_def init_in_memory_data_def normalize_field_def field_setters
  field_flags_def field_type_flags_def
  relationship_step_def resolve_relationship_def u_getEntityJson_def look_at_other_side_def
  reciprocal_step_def refers_back_def compatible_types_def copy_reciprocal_def pluralize_js_def
  set_otherEntityRelationshipNames_def set_relationshipNames_def
  set_relationshipNameCapitalizedPlural_def set_relationshipNamePlural_def dto_warning_def
  set_otherEntityNames_def relationship_flags_def includes_required_def
  required_relationship_def register_type_def

subsection \<open>Types of the related entities\<close>

text \<open>
  Claim C10. When \<open>loadInMemoryData\<close> returns, \<open>differentTypes\<close> starts with the class
  name of the entity itself and lists the capitalised names of the related entities, each
  once, in the order in which the relationships first name them (\<open>remdups\<close> keeps the
  last of equal elements, so on the reversed list it keeps the first); and
  \<open>differentRelationships\<close> maps each of these names to the relationships with that
  name, in the order of the document, and has no other key.
\<close>

theorem related_types_in_order:
  assumes "loadInMemoryData e ctx = Inr (ws, d)"
  shows "entityClass d = entityNameCapitalized ctx
     \<and> hd (differentTypes d) = entityClass d
     \<and> distinct (differentTypes d)
     \<and> differentTypes d =
         rev (remdups (rev (entityClass d
                # map (\<lambda>r. str (otherEntityNameCapitalized r)) (relationships d))))
     \<and> (\<forall>T. differentRelationships d T =
           (if filter (\<lambda>r. str (otherEntityNameCapitalized r) = T) (relationships d) = []
            then None
            else Some (filter (\<lambda>r. str (otherEntityNameCapitalized r) = T) (relationships d))))"
proof -
  from assms obtain ws1 c1 fs ws2 c2 rs where
    lf: "load_fields e (init_in_memory_data e ctx) (context_fields ctx) = Inr (ws1, c1, fs)"
    and lr: "load_relationships e (c1\<lparr>context_fields := fs\<rparr>) (relationships ctx) = Inr (ws2, c2, rs)"
    and d: "d = c2\<lparr>relationships := rs\<rparr>"
    by (rule loadInMemoryData_cases)
  note f = load_fields_frame [OF lf]
  have c1: "entityClass (c1\<lparr>context_fields := fs\<rparr>) = entityNameCapitalized ctx"
    "differentTypes (c1\<lparr>context_fields := fs\<rparr>) = [entityNameCapitalized ctx]"
    "differentRelationships (c1\<lparr>context_fields := fs\<rparr>) = Map.empty"
    using f by simp_all
  have cls: "entityClass d = entityNameCapitalized ctx"
    using load_relationships_context [OF lr] c1 by (simp add: d)
  have types: "differentTypes d =
         rev (remdups (rev (entityClass d
                # map (\<lambda>r. str (otherEntityNameCapitalized r)) (relationships d))))"
    using load_relationships_types [OF lr] c1 cls by (simp add: d)
  have dist: "distinct (differentTypes d)"
    by (subst types) simp
  obtain extra where "differentTypes d = entityClass d # extra"
    using load_relationships_prefix [OF lr] c1 cls by (auto simp: d)
  then have first: "hd (differentTypes d) = entityClass d"
    by simp
  have by_type: "\<forall>T. differentRelationships d T =
           (if filter (\<lambda>r. str (otherEntityNameCapitalized r) = T) (relationships d) = []
            then None
            else Some (filter (\<lambda>r. str (otherEntityNameCapitalized r) = T) (relationships d)))"
    using load_relationships_by_type [OF lr] c1 by (simp add: d)
  from cls first dist types by_type show ?thesis by blast
qed

lemma load_employee_with_three:
  "(case loadInMemoryData company_env employee_with_three of
      Inl err \<Rightarrow> None
    | Inr (ws, d) \<Rightarrow>
        Some (map (\<lambda>r. (relationshipName r, str (otherEntityNameCapitalized r))) (relationships d)))
   = Some [(Some ''link'', ''Department''), (Some ''former'', ''Department''),
           (Some ''mentor'', ''Employee'')]"
  by (simp add: model_defs employee_with_three_def link_relationship_def former_relationship_def
      mentor_relationship_def company_env_def department_document_def link_back_relationship_def
      example_defs)

theorem related_types_in_order_witness:
  "\<exists>ws d. loadInMemoryData company_env employee_with_three = Inr (ws, d)
     \<and> entityClass d = ''Employee''
     \<and> map relationshipName (relationships d) = [Some ''link'', Some ''former'', Some ''mentor'']
     \<and> differentTypes d = [''Employee'', ''Department'']
     \<and> differentRelationships d ''Department'' = Some [relationships d ! 0, relationships d ! 1]
     \<and> differentRelationships d ''Employee'' = Some [relationships d ! 2]"
proof -
  obtain ws d where l: "loadInMemoryData company_env employee_with_three = Inr (ws, d)"
    using load_employee_with_three
    by (cases "loadInMemoryData company_env employee_with_three") auto
  with load_employee_with_three
  have m: "map (\<lambda>r. (relationshipName r, str (otherEntityNameCapitalized r))) (relationships d) =
      [(Some ''link'', ''Department''), (Some ''former'', ''Department''),
       (Some ''mentor'', ''Employee'')]"
    by simp
  then obtain a b c where rs: "relationships d = [a, b, c]"
    and a: "relationshipName a = Some ''link''" "str (otherEntityNameCapitalized a) = ''Department''"
    and b: "relationshipName b = Some ''former''" "str (otherEntityNameCapitalized b) = ''Department''"
    and c: "relationshipName c = Some ''mentor''" "str (otherEntityNameCapitalized c) = ''Employee''"
    by (auto simp: map_eq_Cons_conv)
  have cls: "entityNameCapitalized employee_with_three = ''Employee''"
    by (simp add: employee_with_three_def new_context_def char_defs)
  from related_types_in_order [OF l] show ?thesis
    using l by (simp add: rs a b c cls)
qed

text \<open>With no relationship the list is the class name alone and the mapping is empty.\<close>

lemma no_relationships_types:
  assumes "loadInMemoryData e ctx = Inr (ws, d)" and "relationships ctx = []"
  shows "differentTypes d = [entityNameCapitalized ctx] \<and> differentRelationships d = Map.empty"
proof -
  from assms(1) obtain ws1 c1 fs ws2 c2 rs where
    lf: "load_fields e (init_in_memory_data e ctx) (context_fields ctx) = Inr (ws1, c1, fs)"
    and lr: "load_relationships e (c1\<lparr>context_fields := fs\<rparr>) (relationships ctx) = Inr (ws2, c2, rs)"
    and d: "d = c2\<lparr>relationships := rs\<rparr>"
    by (rule loadInMemoryData_cases)
  from lr assms(2) have "c2 = c1\<lparr>context_fields := fs\<rparr>" by simp
  with load_fields_frame [OF lf] show ?thesis
    by (simp add: d)
qed

subsection \<open>The other side of a relationship\<close>

lemma copy_reciprocal_named:
  assumes "relationshipName other = Some n"
  shows "copy_reciprocal e r other =
     Inr (r\<lparr>otherEntityRelationshipName := or_else (otherEntityRelationshipName r) (Some n),
            otherEntityRelationshipNamePlural :=
              Some (if truthy (otherEntityRelationshipNamePlural r)
                    then str (otherEntityRelationshipNamePlural r) else pluralize e n),
            otherEntityRelationshipNameCapitalized :=
              Some (if truthy (otherEntityRelationshipNameCapitalized r)
                    then str (otherEntityRelationshipNameCapitalized r) else upperFirst n),
            otherEntityRelationshipNameCapitalizedPlural :=
              Some (pluralize e (if truthy (otherEntityRelationshipNameCapitalized r)
                    then str (otherEntityRelationshipNameCapitalized r) else upperFirst n))\<rparr>)"
  using assms by (simp add: copy_reciprocal_def pluralize_js_def Let_def str_def)

lemma reciprocal_step_no_match:
  assumes "\<not> reciprocal_match entityName r other"
  shows "\<exists>w. reciprocal_step e entityName otherName r other = Inr (w, r)"
  using assms by (auto simp: reciprocal_step_def reciprocal_match_def)

lemma reciprocal_step_match:
  assumes "reciprocal_match entityName r other"
  shows "reciprocal_step e entityName otherName r other =
           (case copy_reciprocal e r other of Inl err \<Rightarrow> Inl err | Inr r' \<Rightarrow> Inr ([], r'))"
  using assms by (auto simp: reciprocal_step_def reciprocal_match_def)

lemma reciprocal_match_cong:
  assumes "relationshipName r' = relationshipName r" and "relationshipType r' = relationshipType r"
  shows "reciprocal_match entityName r' other = reciprocal_match entityName r other"
  using assms by (simp add: reciprocal_match_def compatible_types_def)

lemma or_else_twice: "or_else (or_else a b) b = or_else a b"
  by (simp add: or_else_def)

lemma truthy_keep: "(if truthy (Some x) then str (Some x) else x) = x"
  by (simp add: truthy_def str_def)

lemma reciprocal_loop_named:
  assumes "\<forall>b \<in> set others. reciprocal_match entityName r b \<longrightarrow> relationshipName b = Some n"
    and "(otherEntityRelationshipNamePlural r = None
          \<and> otherEntityRelationshipNameCapitalized r = None) \<or> names_copied e n r"
  shows "\<exists>ws r'. reciprocal_loop e entityName otherName r others = Inr (ws, r')
           \<and> relationshipName r' = relationshipName r
           \<and> relationshipType r' = relationshipType r
           \<and> otherEntityName r' = otherEntityName r
           \<and> (if \<exists>b \<in> set others. reciprocal_match entityName r b
               then names_copied e n r'
                    \<and> otherEntityRelationshipName r' =
                        or_else (otherEntityRelationshipName r) (Some n)
               else r' = r)"
  using assms
proof (induction others arbitrary: r)
  case Nil
  then show ?case by simp
next
  case (Cons x others)
  show ?case
  proof (cases "reciprocal_match entityName r x")
    case False
    then obtain w where st: "reciprocal_step e entityName otherName r x = Inr (w, r)"
      using reciprocal_step_no_match by blast
    from Cons.prems have "\<forall>b \<in> set others. reciprocal_match entityName r b \<longrightarrow> relationshipName b = Some n"
      by simp
    from Cons.IH [OF this Cons.prems(2)] obtain ws r' where
      "reciprocal_loop e entityName otherName r others = Inr (ws, r')"
      "relationshipName r' = relationshipName r"
      "relationshipType r' = relationshipType r"
      "otherEntityName r' = otherEntityName r"
      "if \<exists>b \<in> set others. reciprocal_match entityName r b
       then names_copied e n r'
            \<and> otherEntityRelationshipName r' = or_else (otherEntityRelationshipName r) (Some n)
       else r' = r"
      by blast
    with st False show ?thesis by simp
  next
    case True
    with Cons.prems have xn: "relationshipName x = Some n" by simp
    define r1 where "r1 = r\<lparr>otherEntityRelationshipName := or_else (otherEntityRelationshipName r) (Some n),
            otherEntityRelationshipNamePlural :=
              Some (if truthy (otherEntityRelationshipNamePlural r)
                    then str (otherEntityRelationshipNamePlural r) else pluralize e n),
            otherEntityRelationshipNameCapitalized :=
              Some (if truthy (otherEntityRelationshipNameCapitalized r)
                    then str (otherEntityRelationshipNameCapitalized r) else upperFirst n),
            otherEntityRelationshipNameCapitalizedPlural :=
              Some (pluralize e (if truthy (otherEntityRelationshipNameCapitalized r)
                    then str (otherEntityRelationshipNameCapitalized r) else upperFirst n))\<rparr>"
    have st: "reciprocal_step e entityName otherName r x = Inr ([], r1)"
      using True by (simp add: reciprocal_step_match copy_reciprocal_named [OF xn] r1_def)
    have fr: "relationshipName r1 = relationshipName r" "relationshipType r1 = relationshipType r"
      "otherEntityName r1 = otherEntityName r"
      "otherEntityRelationshipName r1 = or_else (otherEntityRelationshipName r) (Some n)"
      by (simp_all add: r1_def)
    have q: "names_copied e n r1"
      using Cons.prems(2)
      by (auto simp: names_copied_def r1_def truthy_def str_def)
    have m: "\<And>b. reciprocal_match entityName r1 b = reciprocal_match entityName r b"
      by (rule reciprocal_match_cong) (simp_all add: fr)
    from Cons.prems(1) have "\<forall>b \<in> set others. reciprocal_match entityName r1 b \<longrightarrow> relationshipName b = Some n"
      by (simp add: m)
    from Cons.IH [OF this] q obtain ws r' where
      l: "reciprocal_loop e entityName otherName r1 others = Inr (ws, r')"
      and f': "relationshipName r' = relationshipName r1"
      "relationshipType r' = relationshipType r1"
      "otherEntityName r' = otherEntityName r1"
      and c: "if \<exists>b \<in> set others. reciprocal_match entityName r1 b
       then names_copied e n r'
            \<and> otherEntityRelationshipName r' = or_else (otherEntityRelationshipName r1) (Some n)
       else r' = r1"
      by blast
    have "names_copied e n r'
            \<and> otherEntityRelationshipName r' = or_else (otherEntityRelationshipName r) (Some n)"
      using c q fr(4) by (auto simp: or_else_twice split: if_splits)
    with st l f' fr True show ?thesis by simp
  qed
qed

lemma names_copied_kept:
  assumes "names_copied e n r"
  shows "set_otherEntityRelationshipNames e r = r"
  using assms
  by (simp add: names_copied_def set_otherEntityRelationshipNames_def Let_def split: option.splits)

lemma set_otherEntityRelationshipNames_frame [simp]:
  "relationshipName (set_otherEntityRelationshipNames e r) = relationshipName r"
  "relationshipType (set_otherEntityRelationshipNames e r) = relationshipType r"
  "otherEntityName (set_otherEntityRelationshipNames e r) = otherEntityName r"
  "otherEntityRelationshipName (set_otherEntityRelationshipNames e r) = otherEntityRelationshipName r"
  by (simp_all add: set_otherEntityRelationshipNames_def Let_def split: option.splits)

lemma set_relationshipNameCapitalizedPlural_frame:
  assumes "set_relationshipNameCapitalizedPlural e r = Inr r'"
  shows "relationshipName r' = relationshipName r"
    "relationshipType r' = relationshipType r"
    "otherEntityName r' = otherEntityName r"
    "otherEntityRelationshipName r' = otherEntityRelationshipName r"
    "otherEntityRelationshipNamePlural r' = otherEntityRelationshipNamePlural r"
    "otherEntityRelationshipNameCapitalized r' = otherEntityRelationshipNameCapitalized r"
    "otherEntityRelationshipNameCapitalizedPlural r' = otherEntityRelationshipNameCapitalizedPlural r"
  using assms
  by (auto simp: set_relationshipNameCapitalizedPlural_def Let_def split: if_splits option.splits sum.splits)

lemma set_relationshipNamePlural_frame:
  assumes "set_relationshipNamePlural e r = Inr r'"
  shows "relationshipName r' = relationshipName r"
    "relationshipType r' = relationshipType r"
    "otherEntityName r' = otherEntityName r"
    "otherEntityRelationshipName r' = otherEntityRelationshipName r"
    "otherEntityRelationshipNamePlural r' = otherEntityRelationshipNamePlural r"
    "otherEntityRelationshipNameCapitalized r' = otherEntityRelationshipNameCapitalized r"
    "otherEntityRelationshipNameCapitalizedPlural r' = otherEntityRelationshipNameCapitalizedPlural r"
  using assms
  by (auto simp: set_relationshipNamePlural_def pluralize_js_def Let_def split: if_splits option.splits sum.splits)

lemma set_relationshipNames_cases:
  assumes "set_relationshipNames e r = Inr r'"
  obtains r2 r4 where
    "set_relationshipNameCapitalizedPlural e
       (if relationshipNameCapitalized r = None
        then r\<lparr>relationshipNameCapitalized := Some (upperFirst (str (relationshipName r)))\<rparr>
        else r) = Inr r2"
    "set_relationshipNamePlural e
       (if relationshipNameHumanized r2 = None
        then r2\<lparr>relationshipNameHumanized :=
               or_else (options_relationshipNameHumanized r2)
                 (Some (startCase e (str (relationshipName r2))))\<rparr>
        else r2) = Inr r4"
    "r' = (let r5 = (if relationshipFieldName r4 = None
                     then r4\<lparr>relationshipFieldName := Some (lowerFirst (str (relationshipName r4)))\<rparr>
                     else r4)
           in if relationshipFieldNamePlural r5 = None
              then r5\<lparr>relationshipFieldNamePlural :=
                     Some (pluralize e (lowerFirst (str (relationshipName r5))))\<rparr>
              else r5)"
  using assms
  by (auto simp: set_relationshipNames_def Let_def split: sum.splits)

lemma set_relationshipNames_frame:
  assumes "set_relationshipNames e r = Inr r'"
  shows "relationshipName r' = relationshipName r"
    "relationshipType r' = relationshipType r"
    "otherEntityName r' = otherEntityName r"
    "otherEntityRelationshipName r' = otherEntityRelationshipName r"
    "otherEntityRelationshipNamePlural r' = otherEntityRelationshipNamePlural r"
    "otherEntityRelationshipNameCapitalized r' = otherEntityRelationshipNameCapitalized r"
    "otherEntityRelationshipNameCapitalizedPlural r' = otherEntityRelationshipNameCapitalizedPlural r"
proof -
  from assms obtain r2 r4 where
    a: "set_relationshipNameCapitalizedPlural e
       (if relationshipNameCapitalized r = None
        then r\<lparr>relationshipNameCapitalized := Some (upperFirst (str (relationshipName r)))\<rparr>
        else r) = Inr r2"
    and b: "set_relationshipNamePlural e
       (if relationshipNameHumanized r2 = None
        then r2\<lparr>relationshipNameHumanized :=
               or_else (options_relationshipNameHumanized r2)
                 (Some (startCase e (str (relationshipName r2))))\<rparr>
        else r2) = Inr r4"
    and c: "r' = (let r5 = (if relationshipFieldName r4 = None
                     then r4\<lparr>relationshipFieldName := Some (lowerFirst (str (relationshipName r4)))\<rparr>
                     else r4)
           in if relationshipFieldNamePlural r5 = None
              then r5\<lparr>relationshipFieldNamePlural :=
                     Some (pluralize e (lowerFirst (str (relationshipName r5))))\<rparr>
              else r5)"
    by (rule set_relationshipNames_cases)
  note fa = set_relationshipNameCapitalizedPlural_frame [OF a]
  note fb = set_relationshipNamePlural_frame [OF b]
  show "relationshipName r' = relationshipName r"
    "relationshipType r' = relationshipType r"
    "otherEntityName r' = otherEntityName r"
    "otherEntityRelationshipName r' = otherEntityRelationshipName r"
    "otherEntityRelationshipNamePlural r' = otherEntityRelationshipNamePlural r"
    "otherEntityRelationshipNameCapitalized r' = otherEntityRelationshipNameCapitalized r"
    "otherEntityRelationshipNameCapitalizedPlural r' = otherEntityRelationshipNameCapitalizedPlural r"
    by (simp_all add: c Let_def fa fb)
qed

lemma set_otherEntityNames_frame:
  assumes "set_otherEntityNames e r = Inr r'"
  shows "relationshipName r' = relationshipName r"
    "relationshipType r' = relationshipType r"
    "otherEntityName r' = otherEntityName r"
    "otherEntityRelationshipName r' = otherEntityRelationshipName r"
    "otherEntityRelationshipNamePlural r' = otherEntityRelationshipNamePlural r"
    "otherEntityRelationshipNameCapitalized r' = otherEntityRelationshipNameCapitalized r"
    "otherEntityRelationshipNameCapitalizedPlural r' = otherEntityRelationshipNameCapitalizedPlural r"
  using assms
  by (auto simp: set_otherEntityNames_def pluralize_js_def Let_def split: if_splits option.splits sum.splits)

lemma required_relationship_names:
  assumes "required_relationship r c = Inr (ws, c', r')"
  shows "relationshipName r' = relationshipName r"
    "relationshipType r' = relationshipType r"
    "otherEntityName r' = otherEntityName r"
    "otherEntityRelationshipName r' = otherEntityRelationshipName r"
    "otherEntityRelationshipNamePlural r' = otherEntityRelationshipNamePlural r"
    "otherEntityRelationshipNameCapitalized r' = otherEntityRelationshipNameCapitalized r"
    "otherEntityRelationshipNameCapitalizedPlural r' = otherEntityRelationshipNameCapitalizedPlural r"
  using assms
  by (auto simp: required_relationship_def split: if_splits option.splits)

lemma resolve_relationship_cases:
  assumes "resolve_relationship e c r = Inr (ws, r')"
  obtains w1 r1 r2 where
    "look_at_other_side e (name c) (u_getEntityJson e (otherEntityName r))
       (case u_getEntityJson e (otherEntityName r) of
          None \<Rightarrow> r
        | Some d \<Rightarrow> if oe_embedded d then r\<lparr>otherEntityIsEmbedded := Some True\<rparr> else r)
       = Inr (w1, r1)"
    "set_relationshipNames e (set_otherEntityRelationshipNames e r1) = Inr r2"
    "set_otherEntityNames e r2 = Inr r'"
  using assms
  by (auto simp: resolve_relationship_def Let_def split: sum.splits prod.splits)

lemma resolve_relationship_named:
  assumes res: "resolve_relationship e c r = Inr (ws, r')"
    and sib: "u_getEntityJson e (otherEntityName r) = Some sib" "oe_relationships sib = Some others"
    and ty: "relationshipType r = Some ''many-to-one''"
    and named: "\<forall>b \<in> set others. reciprocal_match (name c) r b \<longrightarrow> relationshipName b = Some n"
    and ex: "\<exists>b \<in> set others. reciprocal_match (name c) r b"
    and raw: "otherEntityRelationshipNamePlural r = None"
             "otherEntityRelationshipNameCapitalized r = None"
  shows "names_copied e n r'
       \<and> otherEntityRelationshipName r' = or_else (otherEntityRelationshipName r) (Some n)
       \<and> relationshipName r' = relationshipName r
       \<and> relationshipType r' = relationshipType r
       \<and> otherEntityName r' = otherEntityName r"
proof -
  define r0 where "r0 = (if oe_embedded sib then r\<lparr>otherEntityIsEmbedded := Some True\<rparr> else r)"
  have r0: "relationshipName r0 = relationshipName r" "relationshipType r0 = relationshipType r"
    "otherEntityName r0 = otherEntityName r"
    "otherEntityRelationshipName r0 = otherEntityRelationshipName r"
    "otherEntityRelationshipNamePlural r0 = None"
    "otherEntityRelationshipNameCapitalized r0 = None"
    by (simp_all add: r0_def raw)
  have m: "\<And>b. reciprocal_match (name c) r0 b = reciprocal_match (name c) r b"
    by (rule reciprocal_match_cong) (simp_all add: r0)
  from res obtain w1 r1 r2 where
    look: "look_at_other_side e (name c) (Some sib) r0 = Inr (w1, r1)"
    and names: "set_relationshipNames e (set_otherEntityRelationshipNames e r1) = Inr r2"
    and others: "set_otherEntityNames e r2 = Inr r'"
    by (rule resolve_relationship_cases) (simp add: sib r0_def)
  from look have loop: "reciprocal_loop e (name c) (otherEntityName r0) r0 others = Inr (w1, r1)"
    by (simp add: look_at_other_side_def sib r0 ty)
  have "\<forall>b \<in> set others. reciprocal_match (name c) r0 b \<longrightarrow> relationshipName b = Some n"
    using named by (simp add: m)
  moreover have "(otherEntityRelationshipNamePlural r0 = None
          \<and> otherEntityRelationshipNameCapitalized r0 = None) \<or> names_copied e n r0"
    by (simp add: r0)
  ultimately obtain ws2 r1' where
    l2: "reciprocal_loop e (name c) (otherEntityName r0) r0 others = Inr (ws2, r1')"
    and f1: "relationshipName r1' = relationshipName r0" "relationshipType r1' = relationshipType r0"
      "otherEntityName r1' = otherEntityName r0"
    and c1: "if \<exists>b \<in> set others. reciprocal_match (name c) r0 b
               then names_copied e n r1'
                    \<and> otherEntityRelationshipName r1' =
                        or_else (otherEntityRelationshipName r0) (Some n)
               else r1' = r0"
    using reciprocal_loop_named [of others "name c" r0 n e "otherEntityName r0"] by blast
  from loop l2 have eq: "r1' = r1" by simp
  from c1 ex have q1: "names_copied e n r1"
    and o1: "otherEntityRelationshipName r1 = or_else (otherEntityRelationshipName r) (Some n)"
    by (simp_all add: m eq r0)
  have names': "set_relationshipNames e r1 = Inr r2"
    using names by (simp add: names_copied_kept [OF q1])
  note fa = set_relationshipNames_frame [OF names']
  note fb = set_otherEntityNames_frame [OF others]
  have "names_copied e n r'"
    using q1 by (simp add: names_copied_def fa fb)
  moreover have "otherEntityRelationshipName r' = or_else (otherEntityRelationshipName r) (Some n)"
    by (simp add: fa fb o1)
  moreover have "relationshipName r' = relationshipName r" "relationshipType r' = relationshipType r"
    "otherEntityName r' = otherEntityName r"
    using f1 by (simp_all add: fa fb eq r0)
  ultimately show ?thesis by simp
qed

lemma relationship_step_named:
  assumes "relationship_step e c r = Inr (ws, c', r')"
    and "u_getEntityJson e (otherEntityName r) = Some sib" "oe_relationships sib = Some others"
    and "relationshipType r = Some ''many-to-one''"
    and "\<forall>b \<in> set others. reciprocal_match (name c) r b \<longrightarrow> relationshipName b = Some n"
    and "\<exists>b \<in> set others. reciprocal_match (name c) r b"
    and "otherEntityRelationshipNamePlural r = None"
        "otherEntityRelationshipNameCapitalized r = None"
  shows "names_copied e n r'
       \<and> otherEntityRelationshipName r' = or_else (otherEntityRelationshipName r) (Some n)"
proof -
  from assms(1) obtain w1 r1 w2 c2 where
    res: "resolve_relationship e c r = Inr (w1, r1)"
    and req: "required_relationship r1 (relationship_flags r1 c) = Inr (w2, c2, r')"
    by (rule relationship_step_cases)
  note n = resolve_relationship_named [OF res assms(2-8)]
  note f = required_relationship_names [OF req]
  from n show ?thesis
    by (simp add: names_copied_def f)
qed




lemma validate_root_frame:
  assumes "validate_root e (ws, c) = (ws', c')"
  shows "name c' = name c" "relationships c' = relationships c"
    "context_fields c' = context_fields c"
proof -
  have a: "\<And>s. name (snd (default_changelogDate e s)) = name (snd s)
        \<and> relationships (snd (default_changelogDate e s)) = relationships (snd s)
        \<and> context_fields (snd (default_changelogDate e s)) = context_fields (snd s)"
    by (simp add: default_changelogDate_def split: prod.splits)
  have b: "\<And>s. name (snd (default_dto s)) = name (snd s)
        \<and> relationships (snd (default_dto s)) = relationships (snd s)
        \<and> context_fields (snd (default_dto s)) = context_fields (snd s)"
    by (simp add: default_dto_def split: prod.splits)
  have c: "\<And>s. name (snd (default_service s)) = name (snd s)
        \<and> relationships (snd (default_service s)) = relationships (snd s)
        \<and> context_fields (snd (default_service s)) = context_fields (snd s)"
    by (simp add: default_service_def split: prod.splits)
  have d: "\<And>s. name (snd (default_jpaMetamodelFiltering s)) = name (snd s)
        \<and> relationships (snd (default_jpaMetamodelFiltering s)) = relationships (snd s)
        \<and> context_fields (snd (default_jpaMetamodelFiltering s)) = context_fields (snd s)"
    by (simp add: default_jpaMetamodelFiltering_def split: prod.splits)
  have f: "\<And>s. name (snd (default_pagination s)) = name (snd s)
        \<and> relationships (snd (default_pagination s)) = relationships (snd s)
        \<and> context_fields (snd (default_pagination s)) = context_fields (snd s)"
    by (simp add: default_pagination_def split: prod.splits)
  have g: "\<And>s. name (snd (default_clientRootFolder s)) = name (snd s)
        \<and> relationships (snd (default_clientRootFolder s)) = relationships (snd s)
        \<and> context_fields (snd (default_clientRootFolder s)) = context_fields (snd s)"
    by (simp add: default_clientRootFolder_def split: prod.splits)
  have "c' = snd (validate_root e (ws, c))" using assms by simp
  then show "name c' = name c" "relationships c' = relationships c"
    "context_fields c' = context_fields c"
    by (simp_all add: validate_root_def a b c d f g)
qed

lemma validateFile_cases:
  assumes "validateFile e ctx = (ws, ctx', None)"
  obtains ws1 fs ws2 rs where
    "validate_fields e (name ctx) (context_fields ctx) = (ws1, fs, None)"
    "validate_relationships e (name ctx) (relationships ctx) = (ws2, rs, None)"
    "validate_root e (ws1 @ ws2, ctx\<lparr>context_fields := fs, relationships := rs\<rparr>) = (ws, ctx')"
  using assms
  by (auto simp: validateFile_def split: prod.splits option.splits)




lemma resolve_cases:
  assumes "resolve e ctx = Inr (ws, d)"
  obtains ws1 ctx' ws2 where
    "validateFile e ctx = (ws1, ctx', None)"
    "loadInMemoryData e ctx' = Inr (ws2, d)"
  using assms
  by (auto simp: resolve_def split: prod.splits option.splits sum.splits)




lemma relationship_update_same:
  "r\<lparr>otherEntityRelationshipName := otherEntityRelationshipName r,
     otherEntityRelationshipNamePlural := otherEntityRelationshipNamePlural r,
     otherEntityRelationshipNameCapitalized := otherEntityRelationshipNameCapitalized r,
     otherEntityRelationshipNameCapitalizedPlural :=
       otherEntityRelationshipNameCapitalizedPlural r\<rparr> = r"
  by simp













subsection \<open>Values that the match overwrites\<close>

text \<open>
  Claim C4 at a failing input. Lines 766 to 772 keep a value that the relationship has
  (\<open>a = a || b\<close>); line 773 assigns the capitalised plural whatever the relationship
  has. The relationship of Employee comes with the plural connections and the capitalised
  plural Connections: the first is kept, the second is replaced by Links.
\<close>

theorem capitalized_plural_overwritten:
  "map (\<lambda>r. (otherEntityRelationshipNamePlural r, otherEntityRelationshipNameCapitalizedPlural r))
     (relationships employee_with_custom_link)
     = [(Some ''connections'', Some ''Connections'')]
   \<and> (case resolve company_env employee_with_custom_link of
        Inl err \<Rightarrow> []
      | Inr (ws, d) \<Rightarrow>
          map (\<lambda>r. (otherEntityRelationshipNamePlural r,
                     otherEntityRelationshipNameCapitalizedPlural r)) (relationships d))
     = [(Some ''connections'', Some ''Links'')]"
  by (simp add: model_defs employee_with_custom_link_def link_relationship_def company_env_def
      department_document_def link_back_relationship_def example_defs)


text \<open>The same for every relationship and every match: the old value plays no part.\<close>

lemma copy_reciprocal_capitalized_plural:
  assumes "copy_reciprocal e r other = Inr r'"
  shows "otherEntityRelationshipNameCapitalizedPlural r' =
           Some (pluralize e (str (otherEntityRelationshipNameCapitalized r')))"
  using assms
  by (auto simp: copy_reciprocal_def Let_def str_def split: sum.splits)

subsection \<open>The fields of the document, one by one\<close>

text \<open>
  Validation and loading go through the fields in order: each field of the result is the
  field of the document at the same place, validated or normalized, and the warnings of
  each field are among those of the document.
\<close>

lemma validate_fields_pointwise:
  assumes "validate_fields e entityName fs = (ws, fs', None)"
  shows "list_all2 (\<lambda>f f'. \<exists>w. validate_field e entityName f = Inr (w, f') \<and> set w \<subseteq> set ws) fs fs'"
  using assms
proof (induction fs arbitrary: ws fs')
  case Nil
  then show ?case by simp
next
  case (Cons f fs)
  from Cons.prems obtain w f1 where v: "validate_field e entityName f = Inr (w, f1)"
    by (cases "validate_field e entityName f") auto
  obtain ws1 fs1 res1 where l: "validate_fields e entityName fs = (ws1, fs1, res1)"
    by (cases "validate_fields e entityName fs") auto
  with v Cons.prems have r: "res1 = None" "fs' = f1 # fs1" "ws = w @ ws1" by simp_all
  from Cons.IH [of ws1 fs1] l r have
    "list_all2 (\<lambda>f f'. \<exists>w. validate_field e entityName f = Inr (w, f') \<and> set w \<subseteq> set ws1) fs fs1"
    by simp
  then have "list_all2 (\<lambda>f f'. \<exists>w. validate_field e entityName f = Inr (w, f') \<and> set w \<subseteq> set ws) fs fs1"
    by (rule list_all2_mono) (auto simp: r)
  with v r show ?case by auto
qed

lemma default_steps_warnings:
  "\<exists>extra. fst (default_changelogDate e s) = fst s @ extra"
  "\<exists>extra. fst (default_dto s) = fst s @ extra"
  "\<exists>extra. fst (default_service s) = fst s @ extra"
  "\<exists>extra. fst (default_jpaMetamodelFiltering s) = fst s @ extra"
  "\<exists>extra. fst (default_pagination s) = fst s @ extra"
  "\<exists>extra. fst (default_clientRootFolder s) = fst s @ extra"
  by (simp_all add: default_changelogDate_def default_dto_def default_service_def
      default_jpaMetamodelFiltering_def default_pagination_def default_clientRootFolder_def
      split: prod.splits)

lemma validate_root_warnings:
  "set (fst s) \<subseteq> set (fst (validate_root e s))"
proof -
  have a: "\<And>s. set (fst s) \<subseteq> set (fst (default_changelogDate e s))"
    using default_steps_warnings(1) by (metis set_append Un_upper1)
  have b: "\<And>s. set (fst s) \<subseteq> set (fst (default_dto s))"
    using default_steps_warnings(2) by (metis set_append Un_upper1)
  have c: "\<And>s. set (fst s) \<subseteq> set (fst (default_service s))"
    using default_steps_warnings(3) by (metis set_append Un_upper1)
  have d: "\<And>s. set (fst s) \<subseteq> set (fst (default_jpaMetamodelFiltering s))"
    using default_steps_warnings(4) by (metis set_append Un_upper1)
  have f: "\<And>s. set (fst s) \<subseteq> set (fst (default_pagination s))"
    using default_steps_warnings(5) by (metis set_append Un_upper1)
  have g: "\<And>s. set (fst s) \<subseteq> set (fst (default_clientRootFolder s))"
    using default_steps_warnings(6) by (metis set_append Un_upper1)
  show ?thesis
    unfolding validate_root_def
    by (meson a b c d f g subset_trans)
qed

lemma validateFile_fields:
  assumes "validateFile e ctx = (ws, ctx', None)"
  shows "list_all2 (\<lambda>f f'. \<exists>w. validate_field e (name ctx) f = Inr (w, f') \<and> set w \<subseteq> set ws)
           (context_fields ctx) (context_fields ctx')"
proof -
  from assms obtain ws1 fs ws2 rs where
    vf: "validate_fields e (name ctx) (context_fields ctx) = (ws1, fs, None)"
    and root: "validate_root e (ws1 @ ws2, ctx\<lparr>context_fields := fs, relationships := rs\<rparr>) = (ws, ctx')"
    by (rule validateFile_cases)
  have "set (ws1 @ ws2) \<subseteq> set ws"
    using validate_root_warnings [of "(ws1 @ ws2, ctx\<lparr>context_fields := fs, relationships := rs\<rparr>)" e]
    by (simp add: root)
  then have sub: "set ws1 \<subseteq> set ws" by simp
  have "list_all2 (\<lambda>f f'. \<exists>w. validate_field e (name ctx) f = Inr (w, f') \<and> set w \<subseteq> set ws)
           (context_fields ctx) fs"
    using validate_fields_pointwise [OF vf]
    by (rule list_all2_mono) (use sub in auto)
  then show ?thesis
    using validate_root_frame(3) [OF root] by simp
qed

lemma load_fields_pointwise:
  assumes "load_fields e c fs = Inr (ws, c', fs')"
  shows "list_all2 (\<lambda>f f'. \<exists>c0 w. normalize_field e c0 f = Inr (w, f')) fs fs'"
  using assms
proof (induction fs arbitrary: c ws fs')
  case Nil
  then show ?case by simp
next
  case (Cons f fs)
  from Cons.prems obtain w f1 where n: "normalize_field e c f = Inr (w, f1)"
    by (auto split: sum.splits)
  with Cons.prems obtain ws1 fs1 where
    l: "load_fields e (field_flags f1 c) fs = Inr (ws1, c', fs1)" and fs': "fs' = f1 # fs1"
    by (auto split: sum.splits)
  from Cons.IH [OF l] n show ?case
    unfolding fs' by auto
qed

lemma loadInMemoryData_fields:
  assumes "loadInMemoryData e ctx = Inr (ws, d)"
  shows "list_all2 (\<lambda>f f'. \<exists>c0 w. normalize_field e c0 f = Inr (w, f'))
           (context_fields ctx) (context_fields d)"
proof -
  from assms obtain ws1 c1 fs ws2 c2 rs where
    lf: "load_fields e (init_in_memory_data e ctx) (context_fields ctx) = Inr (ws1, c1, fs)"
    and lr: "load_relationships e (c1\<lparr>context_fields := fs\<rparr>) (relationships ctx) = Inr (ws2, c2, rs)"
    and d: "d = c2\<lparr>relationships := rs\<rparr>"
    by (rule loadInMemoryData_cases)
  have "context_fields d = fs"
    using load_relationships_context [OF lr] by (simp add: d)
  with load_fields_pointwise [OF lf] show ?thesis by simp
qed

subsection \<open>Enumerations in the descriptor\<close>

text \<open>
  Claim C7. When \<open>loadInMemoryData\<close> returns, the descriptor has one field for each
  field of the document, in the same order. The type of each is the type of the document,
  with DateTime and Date rewritten to Instant, and its \<open>fieldIsEnum\<close> is true exactly
  when that type is none of the fourteen names of the list in the code.
\<close>

theorem fieldIsEnum_iff_not_primitive:
  assumes "loadInMemoryData e ctx = Inr (ws, d)"
  shows "length (context_fields d) = length (context_fields ctx)
     \<and> (\<forall>i < length (context_fields ctx).
          fieldType (context_fields d ! i) =
            (if fieldType (context_fields ctx ! i) = Some ''DateTime''
                \<or> fieldType (context_fields ctx ! i) = Some ''Date''
             then Some ''Instant'' else fieldType (context_fields ctx ! i))
          \<and> fieldIsEnum (context_fields d ! i) =
              Some (fieldType (context_fields d ! i) \<notin>
                      Some ` {''String'', ''Integer'', ''Long'', ''Float'', ''Double'',
                              ''BigDecimal'', ''LocalDate'', ''Instant'', ''ZonedDateTime'',
                              ''Duration'', ''UUID'', ''Boolean'', ''byte[]'', ''ByteBuffer''}))"
proof -
  note l = loadInMemoryData_fields [OF assms]
  have len: "length (context_fields d) = length (context_fields ctx)"
    using l by (simp add: list_all2_lengthD)
  moreover have "\<forall>i < length (context_fields ctx).
          fieldType (context_fields d ! i) =
            (if fieldType (context_fields ctx ! i) = Some ''DateTime''
                \<or> fieldType (context_fields ctx ! i) = Some ''Date''
             then Some ''Instant'' else fieldType (context_fields ctx ! i))
          \<and> fieldIsEnum (context_fields d ! i) =
              Some (fieldType (context_fields d ! i) \<notin>
                      Some ` {''String'', ''Integer'', ''Long'', ''Float'', ''Double'',
                              ''BigDecimal'', ''LocalDate'', ''Instant'', ''ZonedDateTime'',
                              ''Duration'', ''UUID'', ''Boolean'', ''byte[]'', ''ByteBuffer''})"
  proof (intro allI impI)
    fix i assume i: "i < length (context_fields ctx)"
    from list_all2_nthD [OF l i] obtain c0 w where
      "normalize_field e c0 (context_fields ctx ! i) = Inr (w, context_fields d ! i)"
      by blast
    then show "fieldType (context_fields d ! i) =
            (if fieldType (context_fields ctx ! i) = Some ''DateTime''
                \<or> fieldType (context_fields ctx ! i) = Some ''Date''
             then Some ''Instant'' else fieldType (context_fields ctx ! i))
          \<and> fieldIsEnum (context_fields d ! i) =
              Some (fieldType (context_fields d ! i) \<notin>
                      Some ` {''String'', ''Integer'', ''Long'', ''Float'', ''Double'',
                              ''BigDecimal'', ''LocalDate'', ''Instant'', ''ZonedDateTime'',
                              ''Duration'', ''UUID'', ''Boolean'', ''byte[]'', ''ByteBuffer''})"
      by (rule normalize_field_isEnum)
  qed
  ultimately show ?thesis by blast
qed

text \<open>Loading does not fail on fields that have a name when there is no relationship.\<close>

lemma load_fields_total:
  assumes "\<forall>f \<in> set fs. fieldName f \<noteq> None"
  shows "\<exists>ws c' fs'. load_fields e c fs = Inr (ws, c', fs')"
  using assms
proof (induction fs arbitrary: c)
  case Nil
  then show ?case by simp
next
  case (Cons f fs)
  then have "fieldName f \<noteq> None \<or> fieldInJavaBeanMethod f \<noteq> None" by simp
  then obtain w f1 where n: "normalize_field e c f = Inr (w, f1)"
    using normalize_field_total by blast
  from Cons obtain ws c' fs' where "load_fields e (field_flags f1 c) fs = Inr (ws, c', fs')"
    by (meson list.set_intros(2))
  with n show ?case by simp
qed

lemma loadInMemoryData_total:
  assumes "\<forall>f \<in> set (context_fields ctx). fieldName f \<noteq> None" and "relationships ctx = []"
  shows "\<exists>ws d. loadInMemoryData e ctx = Inr (ws, d)"
proof -
  obtain ws c' fs' where
    "load_fields e (init_in_memory_data e ctx) (context_fields ctx) = Inr (ws, c', fs')"
    using load_fields_total [OF assms(1)] by blast
  then show ?thesis
    by (simp add: loadInMemoryData_def assms(2))
qed

text \<open>
  The three fields of Employee: the enumeration Language, a DateTime that becomes an
  Instant, and an Integer.
\<close>

theorem fieldIsEnum_iff_not_primitive_witness:
  "\<exists>ws d. loadInMemoryData sample_env employee_with_fields = Inr (ws, d)
     \<and> map fieldType (context_fields employee_with_fields) =
         [Some ''Language'', Some ''DateTime'', Some ''Integer'']
     \<and> length (context_fields d) = 3
     \<and> fieldType (context_fields d ! 0) = Some ''Language''
     \<and> fieldIsEnum (context_fields d ! 0) = Some True
     \<and> fieldType (context_fields d ! 1) = Some ''Instant''
     \<and> fieldIsEnum (context_fields d ! 1) = Some False
     \<and> fieldType (context_fields d ! 2) = Some ''Integer''
     \<and> fieldIsEnum (context_fields d ! 2) = Some False"
proof -
  have fs: "context_fields employee_with_fields = [language_field, hired_field, age_field]"
    and rs: "relationships employee_with_fields = []"
    by (simp_all add: employee_with_fields_def new_context_def)
  have named: "\<forall>f \<in> set (context_fields employee_with_fields). fieldName f \<noteq> None"
    by (simp add: fs language_field_def hired_field_def age_field_def empty_field_def)
  obtain ws d where l: "loadInMemoryData sample_env employee_with_fields = Inr (ws, d)"
    using loadInMemoryData_total [OF named rs] by blast
  have raw: "map fieldType (context_fields employee_with_fields) =
         [Some ''Language'', Some ''DateTime'', Some ''Integer'']"
    by (simp add: fs language_field_def hired_field_def age_field_def empty_field_def)
  have t: "fieldType (context_fields employee_with_fields ! 0) = Some ''Language''"
    "fieldType (context_fields employee_with_fields ! 1) = Some ''DateTime''"
    "fieldType (context_fields employee_with_fields ! 2) = Some ''Integer''"
    by (simp_all add: fs language_field_def hired_field_def age_field_def empty_field_def)
  have i: "0 < length (context_fields employee_with_fields)"
    "1 < length (context_fields employee_with_fields)"
    "2 < length (context_fields employee_with_fields)"
    by (simp_all add: fs)
  note c = fieldIsEnum_iff_not_primitive [OF l]
  from c have len: "length (context_fields d) = 3" by (simp add: fs)
  let ?P = "\<lambda>i. fieldType (context_fields d ! i) =
            (if fieldType (context_fields employee_with_fields ! i) = Some ''DateTime''
                \<or> fieldType (context_fields employee_with_fields ! i) = Some ''Date''
             then Some ''Instant'' else fieldType (context_fields employee_with_fields ! i))
          \<and> fieldIsEnum (context_fields d ! i) =
              Some (fieldType (context_fields d ! i) \<notin>
                      Some ` {''String'', ''Integer'', ''Long'', ''Float'', ''Double'',
                              ''BigDecimal'', ''LocalDate'', ''Instant'', ''ZonedDateTime'',
                              ''Duration'', ''UUID'', ''Boolean'', ''byte[]'', ''ByteBuffer''})"
  from c i have "?P 0" "?P 1" "?P 2" by blast+
  then have a: "fieldType (context_fields d ! 0) = Some ''Language''
      \<and> fieldIsEnum (context_fields d ! 0) = Some True"
    and b: "fieldType (context_fields d ! 1) = Some ''Instant''
      \<and> fieldIsEnum (context_fields d ! 1) = Some False"
    and e: "fieldType (context_fields d ! 2) = Some ''Integer''
      \<and> fieldIsEnum (context_fields d ! 2) = Some False"
    unfolding t by simp_all
  from l raw len a b e show ?thesis
    by - (rule exI [of _ ws], rule exI [of _ d], simp)
qed

subsection \<open>Binary fields in the document\<close>

text \<open>
  Claim C2, as the code has it. The test of line 369 is for the type ByteBuffer alone.
  Take a field of the document that has the type ByteBuffer, a name, and an array of
  rules, all supported and each with its parameter. Validation of that field does not
  fail: it reports exactly one warning and replaces the rules by the empty array, with
  \<open>validation\<close> false. Whenever validation of the document succeeds, the document
  has that field with its rules cleared at the same place, and the warning is among the
  warnings; whenever the resolution succeeds, the field of the descriptor at that place
  has no rules and \<open>fieldValidate\<close> false.
\<close>

theorem bytebuffer_rules_cleared:
  assumes i: "i < length (context_fields ctx)"
    and ty: "fieldType (context_fields ctx ! i) = Some ''ByteBuffer''"
    and nm: "fieldName (context_fields ctx ! i) \<noteq> None"
    and rules: "fieldValidateRules (context_fields ctx ! i) = Some (Arr rs)"
    and supported: "\<forall>r \<in> set rs. r \<in> set (SUPPORTED_VALIDATION_RULES e)"
    and companions: "\<forall>(rule, attr) \<in> set companion_parameters.
                       rule \<in> set rs \<longrightarrow> attr (context_fields ctx ! i) \<noteq> None"
  shows "validate_field e (name ctx) (context_fields ctx ! i) =
           Inr ([lob_warning (name ctx) (stringify_field e (context_fields ctx ! i))],
                (context_fields ctx ! i)
                  \<lparr>field_validation := Some False, fieldValidateRules := Some (Arr [])\<rparr>)
     \<and> (\<forall>ws ctx'. validateFile e ctx = (ws, ctx', None) \<longrightarrow>
           context_fields ctx' ! i =
             (context_fields ctx ! i)
               \<lparr>field_validation := Some False, fieldValidateRules := Some (Arr [])\<rparr>
           \<and> lob_warning (name ctx) (stringify_field e (context_fields ctx ! i)) \<in> set ws)
     \<and> (\<forall>ws d. resolve e ctx = Inr (ws, d) \<longrightarrow>
           i < length (context_fields d)
           \<and> fieldValidateRules (context_fields d ! i) = Some (Arr [])
           \<and> fieldValidate (context_fields d ! i) = Some False)"
proof -
  let ?f = "context_fields ctx ! i"
  let ?g = "?f\<lparr>field_validation := Some False, fieldValidateRules := Some (Arr [])\<rparr>"
  have v: "validate_field e (name ctx) ?f =
      Inr ([lob_warning (name ctx) (stringify_field e ?f)], ?g)"
    using ty nm rules supported companions by (rule validate_field_lob)
  have vfile: "context_fields ctx' ! i = ?g
      \<and> lob_warning (name ctx) (stringify_field e ?f) \<in> set ws
      \<and> length (context_fields ctx') = length (context_fields ctx)"
    if "validateFile e ctx = (ws, ctx', None)" for ws ctx'
  proof -
    note l = validateFile_fields [OF that]
    from list_all2_nthD [OF l i] obtain w where
      "validate_field e (name ctx) ?f = Inr (w, context_fields ctx' ! i)" "set w \<subseteq> set ws"
      by blast
    with v l show ?thesis by (auto simp: list_all2_lengthD)
  qed
  have desc: "i < length (context_fields d)
           \<and> fieldValidateRules (context_fields d ! i) = Some (Arr [])
           \<and> fieldValidate (context_fields d ! i) = Some False"
    if "resolve e ctx = Inr (ws, d)" for ws d
  proof -
    from that obtain ws1 ctx' ws2 where
      vf: "validateFile e ctx = (ws1, ctx', None)"
      and ld: "loadInMemoryData e ctx' = Inr (ws2, d)"
      by (rule resolve_cases)
    from vfile [OF vf] have g: "context_fields ctx' ! i = ?g"
      and len: "length (context_fields ctx') = length (context_fields ctx)"
      by simp_all
    note l = loadInMemoryData_fields [OF ld]
    from i len have i': "i < length (context_fields ctx')" by simp
    from list_all2_nthD [OF l i'] obtain c0 w where
      n: "normalize_field e c0 ?g = Inr (w, context_fields d ! i)"
      by (auto simp: g)
    have r: "fieldValidateRules (context_fields d ! i) = Some (Arr [])"
      using normalize_field_keeps(9) [OF n] by simp
    have "fieldValidate (context_fields d ! i) = Some False"
      using normalize_field_derived [OF n] r by (simp add: derived_present_def)
    moreover have "i < length (context_fields d)"
      using l i' by (simp add: list_all2_lengthD)
    ultimately show ?thesis using r by simp
  qed
  from v vfile desc show ?thesis by blast
qed

lemma validate_employee_with_document:
  "snd (snd (validateFile sample_env employee_with_document)) = None
   \<and> map fieldName (context_fields (fst (snd (validateFile sample_env employee_with_document))))
       = [Some ''age'', Some ''document'']
   \<and> relationships (fst (snd (validateFile sample_env employee_with_document))) = []"
  by (simp add: validateFile_def validate_root_def default_changelogDate_def default_dto_def
      default_service_def default_jpaMetamodelFiltering_def default_pagination_def
      default_clientRootFolder_def validate_field_def missing_companion_def
      employee_with_document_def document_field_def age_field_def example_defs)

theorem bytebuffer_rules_cleared_witness:
  "\<exists>ws d. resolve sample_env employee_with_document = Inr (ws, d)
     \<and> context_fields employee_with_document ! 1 = document_field
     \<and> fieldType document_field = Some ''ByteBuffer''
     \<and> fieldValidateRules document_field = Some (Arr [''required''])
     \<and> validate_field sample_env ''Employee'' document_field =
         Inr ([lob_warning ''Employee'' ''{fieldName: document}''],
              document_field\<lparr>field_validation := Some False, fieldValidateRules := Some (Arr [])\<rparr>)
     \<and> fieldValidateRules (context_fields d ! 1) = Some (Arr [])
     \<and> fieldValidate (context_fields d ! 1) = Some False"
proof -
  obtain ws1 ctx' res where vf: "validateFile sample_env employee_with_document = (ws1, ctx', res)"
    by (cases "validateFile sample_env employee_with_document") auto
  with validate_employee_with_document have ok: "res = None"
    and names: "map fieldName (context_fields ctx') = [Some ''age'', Some ''document'']"
    and norel: "relationships ctx' = []"
    by simp_all
  from names have "\<forall>f \<in> set (context_fields ctx'). fieldName f \<noteq> None"
    by (auto simp: map_eq_Cons_conv)
  then obtain ws2 d where "loadInMemoryData sample_env ctx' = Inr (ws2, d)"
    using loadInMemoryData_total [OF _ norel] by blast
  with vf ok have res: "resolve sample_env employee_with_document = Inr (ws1 @ ws2, d)"
    by (simp add: resolve_def)
  have f: "context_fields employee_with_document ! 1 = document_field"
    and i: "1 < length (context_fields employee_with_document)"
    and n: "name employee_with_document = ''Employee''"
    by (simp_all add: employee_with_document_def new_context_def)
  have h1: "fieldType (context_fields employee_with_document ! 1) = Some ''ByteBuffer''"
    and h2: "fieldName (context_fields employee_with_document ! 1) \<noteq> None"
    and h3: "fieldValidateRules (context_fields employee_with_document ! 1) = Some (Arr [''required''])"
    unfolding f by (simp_all add: document_field_def empty_field_def)
  have h4: "\<forall>r \<in> set [''required'']. r \<in> set (SUPPORTED_VALIDATION_RULES sample_env)"
    by (simp add: sample_env_def supported_in_examples_def)
  have h5: "\<forall>(rule, attr) \<in> set companion_parameters.
              rule \<in> set [''required''] \<longrightarrow> attr (context_fields employee_with_document ! 1) \<noteq> None"
    unfolding f by (simp add: companion_parameters_def)
  have s: "stringify_field sample_env document_field = ''{fieldName: document}''"
    by (simp add: sample_env_def document_field_def empty_field_def interpolate_def)
  from bytebuffer_rules_cleared [OF i h1 h2 h3 h4 h5] res
  have "validate_field sample_env ''Employee'' document_field =
         Inr ([lob_warning ''Employee'' ''{fieldName: document}''],
              document_field\<lparr>field_validation := Some False, fieldValidateRules := Some (Arr [])\<rparr>)
     \<and> fieldValidateRules (context_fields d ! 1) = Some (Arr [])
     \<and> fieldValidate (context_fields d ! 1) = Some False"
    unfolding f n s by blast
  with res f h1 h3 show ?thesis unfolding f by blast
qed

text \<open>
  A field of type \<open>byte[]\<close> with the rule required keeps its rules, gets no warning and
  ends with \<open>fieldValidate\<close> true: claim C2 does not hold for this binary type.
\<close>

theorem byte_array_keeps_rules_counterexample:
  "fieldType photo_field = Some ''byte[]''
   \<and> fieldValidateRules photo_field = Some (Arr [''required''])
   \<and> validate_field sample_env ''Employee'' photo_field = Inr ([], photo_field)
   \<and> normalize_field sample_env (new_context sample_env ''Employee'') photo_field =
       Inr ([], photo_field
            \<lparr>fieldIsEnum := Some False, fieldNameCapitalized := Some ''Photo'',
             fieldNameUnderscored := Some ''photo'',
             fieldNameAsDatabaseColumn := Some ''photo'',
             fieldNameHumanized := Some ''Photo'', fieldInJavaBeanMethod := Some ''Photo'',
             fieldValidate := Some True\<rparr>)"
  by (simp add: validate_field_def missing_companion_def normalize_field_def field_setters
      photo_field_def example_defs)

end
